theory Spec2Isabelle
  imports Main "HOL-Library.Word"
begin

unbundle bit_operations_syntax

section \<open>Word arithmetic helpers of the interpreter\<close>

text \<open>
  The interpreter keeps stack words in Go's arbitrary-precision \<open>big.Int\<close>, modelled as
  \<open>int\<close>. \<open>BitLen\<close> is the length in bits of the absolute value (0 for 0); the bitwise
  operations of \<open>big.Int\<close> act on the infinite two's complement form, as those of \<open>int\<close>.
\<close>

fun bitlen_nat :: "nat \<Rightarrow> nat" where
  "bitlen_nat n = (if n = 0 then 0 else Suc (bitlen_nat (n div 2)))"

declare bitlen_nat.simps [simp del]

definition BitLen :: "int \<Rightarrow> nat" where
  "BitLen x = bitlen_nat (nat \<bar>x\<bar>)"

definition tt256 :: int where
  "tt256 = push_bit 256 1"

definition tt256m1 :: int where
  "tt256m1 = tt256 - 1"

definition toU256 :: "int \<Rightarrow> int" where
  "toU256 x = (if x < 0 \<or> BitLen x > 256 then x AND tt256m1 else x)"

definition to256 :: "int \<Rightarrow> int" where
  "to256 x = (if BitLen x > 255 then x - tt256 else x)"


section \<open>Interpreter frame\<close>

text \<open>
  Fixed-size byte arrays are words: \<open>evmc.Address\<close> is \<open>[20]byte\<close>, \<open>evmc.Hash\<close> is
  \<open>[32]byte\<close>, both compared by content. \<open>uint64\<close> and \<open>int64\<close> are 64-bit words (an
  \<open>int64\<close> is read with \<open>sint\<close>), so the conversions \<open>uint64(x)\<close> and \<open>int64(x)\<close> between
  them are the identity on the bits.
\<close>

type_synonym byte = "8 word"
type_synonym address = "160 word"
type_synonym hash = "256 word"
type_synonym uint64 = "64 word"

text \<open>
  Go errors are compared by identity. The package-level error values of the interpreter
  and of the overlay are constructors; an error made on the spot by \<open>errors.New\<close> or
  \<open>fmt.Errorf\<close> is \<open>errNew\<close> with its message and is different from all of them.
\<close>

datatype error =
    errOutOfGas
  | errStackUnderflow
  | errStackOverflow
  | ErrExecutionReverted
  | errGasUintOverflow
  | errWriteProtection
  | errInvalidJump
  | errOpCodeNotFound
  | errReturnDataOutOfBounds
  | errNotEnoughFunds
  | errNew string

text \<open>
  The frame of \<open>evm/state.go\<close>. The live part \<open>stack[0..sp)\<close> of the stack is a list whose
  head is the top (\<open>sp\<close> is its length). The scratch buffer \<open>tmp\<close>, the jump bitmap and the
  host handle are left out: no operation modelled here reads them (the host is passed to
  the operations that call it).
\<close>

record state =
  ip :: int
  code :: "byte list"
  Address :: address
  Caller :: address
  Depth :: int
  Value :: "int option"
  Input :: "byte list"
  Static :: bool
  st_rev :: nat
  memory :: "byte list"
  lastGasCost :: uint64
  stack :: "int list"
  err :: "error option"
  stop :: bool
  gas :: uint64
  returnData :: "byte list"
  ret :: "byte list"

definition isRevision :: "nat \<Rightarrow> state \<Rightarrow> bool" where
  "isRevision r c = (r \<le> st_rev c)"

definition halt :: "state \<Rightarrow> state" where
  "halt c = c\<lparr>stop := True\<rparr>"

definition exit :: "error \<Rightarrow> state \<Rightarrow> state" where
  "exit e c = c\<lparr>stop := True, err := Some e\<rparr>"

text \<open>\<open>pop\<close> and \<open>top\<close> (here \<open>stack_top\<close>) return \<open>nil\<close> (here \<open>None\<close>) on an empty stack.\<close>

definition pop :: "state \<Rightarrow> int option \<times> state" where
  "pop c = (case stack c of [] \<Rightarrow> (None, c) | v # rest \<Rightarrow> (Some v, c\<lparr>stack := rest\<rparr>))"

definition stack_top :: "state \<Rightarrow> int option" where
  "stack_top c = (case stack c of [] \<Rightarrow> None | v # rest \<Rightarrow> Some v)"

text \<open>
  The handlers update the \<open>big.Int\<close> that \<open>top\<close> returned in place; \<open>set_top\<close> is that
  update of the top slot.
\<close>

definition set_top :: "int \<Rightarrow> state \<Rightarrow> state" where
  "set_top v c = c\<lparr>stack := v # tl (stack c)\<rparr>"

definition push1 :: "int \<Rightarrow> state \<Rightarrow> state" where
  "push1 v c = c\<lparr>stack := v # stack c\<rparr>"

definition consumeGas :: "uint64 \<Rightarrow> state \<Rightarrow> bool \<times> state" where
  "consumeGas g c = (if gas c < g then (False, exit errOutOfGas c) else (True, c\<lparr>gas := gas c - g\<rparr>))"

definition resetReturnData :: "state \<Rightarrow> state" where
  "resetReturnData c = c\<lparr>returnData := []\<rparr>"

text \<open>
  \<open>big.Int.IsUint64\<close> and \<open>big.Int.Uint64\<close> (the low 64 bits of the absolute value when the
  value does not fit).
\<close>

definition IsUint64 :: "int \<Rightarrow> bool" where
  "IsUint64 x = (0 \<le> x \<and> x < 2 ^ 64)"

definition Uint64 :: "int \<Rightarrow> uint64" where
  "Uint64 x = word_of_int \<bar>x\<bar>"

text \<open>
  The largest offset and size \<open>checkMemory\<close> accepts, \<open>0xffffffffe0\<close>, is
  \<open>1099511627744 = 2 ^ 40 - 32\<close>.

  \<open>extendByteSlice\<close> reslices to the capacity and appends zero bytes up to \<open>needLen\<close>. The
  bytes between the length and the capacity are zero (\<open>reset\<close> clears the memory before it
  truncates it, and a fresh allocation is zeroed), so the result is the old bytes followed
  by zeros.
\<close>

definition extendByteSlice :: "byte list \<Rightarrow> nat \<Rightarrow> byte list" where
  "extendByteSlice b needLen = take needLen (b @ replicate (needLen - length b) 0)"

definition checkMemory :: "int \<Rightarrow> int \<Rightarrow> state \<Rightarrow> bool \<times> state" where
  "checkMemory offset sz c =
    (if sz = 0 then (True, c)
     else if \<not> IsUint64 offset \<or> \<not> IsUint64 sz then (False, exit errGasUintOverflow c)
     else
       let off = Uint64 offset; s = Uint64 sz in
       if off > 1099511627744 \<or> s > 1099511627744 then (False, exit errGasUintOverflow c)
       else
         let m = (of_nat (length (memory c)) :: uint64); newSize = off + s in
         if m < newSize then
           let w = (newSize + 31) div 32;
               newCost = 3 * w + w * w div 512;
               cost = newCost - lastGasCost c;
               c1 = c\<lparr>lastGasCost := newCost\<rparr>;
               (ok, c2) = consumeGas cost c1
           in if \<not> ok then (False, exit errOutOfGas c2)
              else (True, c2\<lparr>memory := extendByteSlice (memory c2) (unat (w * 32))\<rparr>)
         else (True, c))"

text \<open>
  \<open>get2\<close> appends \<open>memory[o:o+l]\<close> to \<open>dst\<close>; the slice expression is in range after a
  successful \<open>checkMemory\<close>.
\<close>

definition get2 :: "byte list \<Rightarrow> int \<Rightarrow> int \<Rightarrow> state \<Rightarrow> (byte list \<times> bool) \<times> state" where
  "get2 dst offset len c =
    (if len = 0 then (([], True), c)
     else
       let (ok, c1) = checkMemory offset len c in
       if \<not> ok then (([], False), c1)
       else ((dst @ take (unat (Uint64 len)) (drop (unat (Uint64 offset)) (memory c1)), True), c1))"

text \<open>
  \<open>opSignExtension\<close>. A handler returns \<open>None\<close> where the Go code would dereference the
  \<open>nil\<close> that \<open>pop\<close> gave; the dispatch loop rules that out by its stack check.
\<close>

definition wordSize :: int where
  "wordSize = 32"

definition opSignExtension :: "state \<Rightarrow> state option" where
  "opSignExtension c =
    (case pop c of
       (None, c1) \<Rightarrow> None
     | (Some ext, c1) \<Rightarrow>
         if ext > wordSize then Some c1
         else
           (case stack_top c1 of
              None \<Rightarrow> Some c1
            | Some x \<Rightarrow>
                let b = unat (Uint64 ext * 8 + 7);
                    mask = push_bit b 1 - 1;
                    x' = (if bit x b then x OR (NOT mask) else x AND mask)
                in Some (set_top (toU256 x') c1)))"

text \<open>
  A frame as \<open>acquireState\<close> hands it out: \<open>reset\<close> has cleared the counters, the gas, the
  flags, the memory and the buffers. It is the starting point of the example frames below.
\<close>

definition frame0 :: state where
  "frame0 = \<lparr>ip = 0, code = [], Address = 0, Caller = 0, Depth = 0, Value = None, Input = [],
     Static = False, st_rev = 0, memory = [], lastGasCost = 0, stack = [], err = None,
     stop = False, gas = 0, returnData = [], ret = []\<rparr>"

section \<open>Precompiled contracts\<close>

text \<open>
  Revisions are the values of \<open>evmc.Revision\<close>, an ordered enumeration.
\<close>

definition Frontier :: nat where "Frontier = 0"
definition Homestead :: nat where "Homestead = 1"
definition TangerineWhistle :: nat where "TangerineWhistle = 2"
definition SpuriousDragon :: nat where "SpuriousDragon = 3"
definition Byzantium :: nat where "Byzantium = 4"
definition Constantinople :: nat where "Constantinople = 5"
definition Petersburg :: nat where "Petersburg = 6"
definition Istanbul :: nat where "Istanbul = 7"

text \<open>
  The interface \<open>contract\<close> of the dispatcher: a gas function and a run function. \<open>Run\<close>
  returns \<open>Inl\<close> of its error or \<open>Inr\<close> of its output.
\<close>

record contract =
  pc_Gas :: "byte list \<Rightarrow> nat \<Rightarrow> uint64"
  pc_Run :: "byte list \<Rightarrow> error + byte list"

definition baseGasCalc :: "byte list \<Rightarrow> uint64 \<Rightarrow> uint64 \<Rightarrow> uint64" where
  "baseGasCalc input base word = base + of_nat (length input + 31) div 32 * word"

definition Identity :: contract where
  "Identity = \<lparr>pc_Gas = (\<lambda>input r. baseGasCalc input 15 3), pc_Run = (\<lambda>inp. Inr inp)\<rparr>"

definition Bn256Add_Gas :: "byte list \<Rightarrow> nat \<Rightarrow> uint64" where
  "Bn256Add_Gas input r = (if r \<ge> Istanbul then 150 else 500)"

definition Bn256Mul_Gas :: "byte list \<Rightarrow> nat \<Rightarrow> uint64" where
  "Bn256Mul_Gas input r = (if r \<ge> Istanbul then 6000 else 40000)"

definition Bn256Pairing_Gas :: "byte list \<Rightarrow> nat \<Rightarrow> uint64" where
  "Bn256Pairing_Gas input r =
    (let (baseGas, pointGas) = (if r \<ge> Istanbul then (45000, 34000) else (100000, 80000))
     in baseGas + pointGas * of_nat (length input div 192))"

text \<open>
  The cryptographic kernels are libraries outside the repository, and the files of
  \<open>ModExp\<close> and \<open>Blake2f\<close> are not part of the sources at hand: the run functions of the
  contracts, and the gas functions of those two, are parameters of the table.
\<close>

record kernels =
  k_Ecrecover_Run :: "byte list \<Rightarrow> error + byte list"
  k_Sha256h_Run :: "byte list \<Rightarrow> error + byte list"
  k_Ripemd160h_Run :: "byte list \<Rightarrow> error + byte list"
  k_ModExp :: contract
  k_Bn256Add_Run :: "byte list \<Rightarrow> error + byte list"
  k_Bn256Mul_Run :: "byte list \<Rightarrow> error + byte list"
  k_Bn256Pairing_Run :: "byte list \<Rightarrow> error + byte list"
  k_Blake2f :: contract

definition addr1 :: address where "addr1 = 1"
definition addr2 :: address where "addr2 = 2"
definition addr3 :: address where "addr3 = 3"
definition addr4 :: address where "addr4 = 4"
definition addr5 :: address where "addr5 = 5"
definition addr6 :: address where "addr6 = 6"
definition addr7 :: address where "addr7 = 7"
definition addr8 :: address where "addr8 = 8"
definition addr9 :: address where "addr9 = 9"

text \<open>The map \<open>precompiledContracts\<close> as \<open>init\<close> fills it.\<close>

definition precompiledContracts :: "kernels \<Rightarrow> address \<Rightarrow> contract option" where
  "precompiledContracts K =
    [addr1 \<mapsto> \<lparr>pc_Gas = (\<lambda>input r. 3000), pc_Run = k_Ecrecover_Run K\<rparr>,
     addr2 \<mapsto> \<lparr>pc_Gas = (\<lambda>input r. baseGasCalc input 60 12), pc_Run = k_Sha256h_Run K\<rparr>,
     addr3 \<mapsto> \<lparr>pc_Gas = (\<lambda>input r. baseGasCalc input 600 120), pc_Run = k_Ripemd160h_Run K\<rparr>,
     addr4 \<mapsto> Identity,
     addr5 \<mapsto> k_ModExp K,
     addr6 \<mapsto> \<lparr>pc_Gas = Bn256Add_Gas, pc_Run = k_Bn256Add_Run K\<rparr>,
     addr7 \<mapsto> \<lparr>pc_Gas = Bn256Mul_Gas, pc_Run = k_Bn256Mul_Run K\<rparr>,
     addr8 \<mapsto> \<lparr>pc_Gas = Bn256Pairing_Gas, pc_Run = k_Bn256Pairing_Run K\<rparr>,
     addr9 \<mapsto> k_Blake2f K]"

text \<open>
  \<open>runPrecompiled\<close>. The result is \<open>(returnValue, gasLeft, err)\<close>; the \<open>int64\<close> gas left is
  \<open>int64(gas)\<close>, the same 64 bits. Looking up an address that is not in the map gives a
  \<open>nil\<close> interface, and the call of its \<open>Gas\<close> method panics: \<open>None\<close>.
\<close>

definition runPrecompiled ::
  "kernels \<Rightarrow> address \<Rightarrow> byte list \<Rightarrow> uint64 \<Rightarrow> nat \<Rightarrow> (byte list \<times> uint64 \<times> error option) option" where
  "runPrecompiled K codeAddress input g r =
    (case precompiledContracts K codeAddress of
       None \<Rightarrow> None
     | Some contract \<Rightarrow>
         let gasCost = pc_Gas contract input r in
         if g < gasCost then Some ([], 0, Some (errNew ''out of gas''))
         else
           let g' = g - gasCost in
           (case pc_Run contract input of
              Inl e \<Rightarrow> Some ([], 0, Some e)
            | Inr returnValue \<Rightarrow> Some (returnValue, g', None)))"

text \<open>
  Kernels that return an empty output for every input: a table for the examples, which
  only run the identity contract.
\<close>

definition kernels0 :: kernels where
  "kernels0 =
    \<lparr>k_Ecrecover_Run = (\<lambda>inp. Inr []), k_Sha256h_Run = (\<lambda>inp. Inr []),
     k_Ripemd160h_Run = (\<lambda>inp. Inr []),
     k_ModExp = \<lparr>pc_Gas = (\<lambda>inp r. 0), pc_Run = (\<lambda>inp. Inr [])\<rparr>,
     k_Bn256Add_Run = (\<lambda>inp. Inr []), k_Bn256Mul_Run = (\<lambda>inp. Inr []),
     k_Bn256Pairing_Run = (\<lambda>inp. Inr []),
     k_Blake2f = \<lparr>pc_Gas = (\<lambda>inp r. 0), pc_Run = (\<lambda>inp. Inr [])\<rparr>\<rparr>"

section \<open>State overlay\<close>

text \<open>
  \<open>Account\<close> and \<open>stateObject\<close>. Balances are \<open>big.Int\<close>. \<open>CodeHash\<close> is a byte slice that
  holds a 32-byte digest and is modelled as a hash. The storage overlay \<open>Txn\<close> of an object
  is an immutable radix tree from keys to values, where a stored \<open>nil\<close> (here \<open>None\<close>) marks
  a deleted slot; a \<open>nil\<close> tree is \<open>None\<close>.
\<close>

record Account =
  acc_Nonce :: uint64
  acc_Balance :: int
  acc_Root :: hash
  acc_CodeHash :: hash
  acc_Code :: "byte list"

text \<open>
  \<open>Account.Copy\<close> rebuilds the balance from its magnitude bytes and does not copy \<open>Code\<close>.
\<close>

definition Account_Copy :: "Account \<Rightarrow> Account" where
  "Account_Copy a =
    \<lparr>acc_Nonce = acc_Nonce a, acc_Balance = \<bar>acc_Balance a\<bar>, acc_Root = acc_Root a,
     acc_CodeHash = acc_CodeHash a, acc_Code = []\<rparr>"

type_synonym storage = "hash \<rightharpoonup> hash option"

record stateObject =
  obj_Account :: Account
  obj_Code :: "byte list"
  obj_Suicide :: bool
  obj_Deleted :: bool
  obj_DirtyCode :: bool
  obj_Txn :: "storage option"

text \<open>
  \<open>EmptyCodeHash\<close> is the Keccak-256 digest of the empty string, \<open>0xc5d246...5d85a470\<close>, and
  \<open>EmptyRootHash\<close> is \<open>0x56e81f...e363b421\<close>.
\<close>

definition EmptyCodeHash :: hash where
  "EmptyCodeHash = 89477152217924674838424037953991966239322087453347756267410168184682657981552"

definition EmptyRootHash :: hash where
  "EmptyRootHash = 39309028074332508661983559455579427211983204215636056653337583610388178777121"

definition zeroHash :: hash where
  "zeroHash = 0"

definition Empty :: "stateObject \<Rightarrow> bool" where
  "Empty s = (acc_Nonce (obj_Account s) = 0 \<and> acc_Balance (obj_Account s) = 0 \<and>
     acc_CodeHash (obj_Account s) = EmptyCodeHash)"

definition stateObject_Copy :: "stateObject \<Rightarrow> stateObject" where
  "stateObject_Copy s =
    \<lparr>obj_Account = Account_Copy (obj_Account s), obj_Code = obj_Code s,
     obj_Suicide = obj_Suicide s, obj_Deleted = obj_Deleted s, obj_DirtyCode = obj_DirtyCode s,
     obj_Txn = obj_Txn s\<rparr>"

definition newStateObject :: stateObject where
  "newStateObject =
    \<lparr>obj_Account = \<lparr>acc_Nonce = 0, acc_Balance = 0, acc_Root = EmptyRootHash,
                     acc_CodeHash = EmptyCodeHash, acc_Code = []\<rparr>,
     obj_Code = [], obj_Suicide = False, obj_Deleted = False, obj_DirtyCode = False,
     obj_Txn = None\<rparr>"

record Log =
  log_Address :: address
  log_Topics :: "hash list"
  log_Data :: "byte list"

text \<open>
  The overlay is an immutable radix tree keyed by byte strings. Its keys are the 20-byte
  addresses, which hold state objects, and the two 32-byte keys \<open>logIndex\<close> and
  \<open>refundIndex\<close>, which hold the log list and the refund counter. Keys of different length
  never meet, so the tree is a record of the three parts; an absent key is \<open>None\<close>.
  A tree is a value: \<open>CommitOnly\<close> and \<open>Txn\<close> of the library give the current tree and a
  fresh transaction on a tree, and later writes never reach a tree handed out before.
\<close>

record radix =
  objects :: "address \<rightharpoonup> stateObject"
  logs_entry :: "Log list option"
  refund_entry :: "uint64 option"

definition iradix_New :: radix where
  "iradix_New = \<lparr>objects = Map.empty, logs_entry = None, refund_entry = None\<rparr>"

text \<open>
  The backend \<open>Snapshot\<close>: \<open>GetAccount\<close> returns an error (\<open>Inl\<close>), no account (\<open>Inr None\<close>)
  or an account.
\<close>

record Snapshot =
  sn_GetStorage :: "address \<Rightarrow> hash \<Rightarrow> hash \<Rightarrow> hash"
  sn_GetAccount :: "address \<Rightarrow> error + Account option"

record Txn =
  txn_snapshot :: Snapshot
  txn_snapshots :: "radix list"
  txn_txn :: radix
  txn_rev :: nat

definition newTxn :: "Snapshot \<Rightarrow> Txn" where
  "newTxn snapshot =
    \<lparr>txn_snapshot = snapshot, txn_snapshots = [], txn_txn = iradix_New, txn_rev = 0\<rparr>"

definition Txn_Snapshot :: "Txn \<Rightarrow> nat \<times> Txn" where
  "Txn_Snapshot txn =
    (let t = txn_txn txn; sid = length (txn_snapshots txn)
     in (sid, txn\<lparr>txn_snapshots := txn_snapshots txn @ [t]\<rparr>))"

text \<open>
  \<open>RevertToSnapshot\<close> panics for \<open>id > len(snapshots)\<close>, and the index expression panics
  for \<open>id = len(snapshots)\<close>: \<open>None\<close>.
\<close>

definition RevertToSnapshot :: "nat \<Rightarrow> Txn \<Rightarrow> Txn option" where
  "RevertToSnapshot sid txn =
    (if sid > length (txn_snapshots txn) then None
     else if sid < length (txn_snapshots txn)
       then Some (txn\<lparr>txn_txn := txn_snapshots txn ! sid\<rparr>)
       else None)"

definition getStateObject :: "Txn \<Rightarrow> address \<Rightarrow> stateObject option" where
  "getStateObject txn addr =
    (case objects (txn_txn txn) addr of
       Some obj \<Rightarrow> if obj_Deleted obj then None else Some (stateObject_Copy obj)
     | None \<Rightarrow>
         (case sn_GetAccount (txn_snapshot txn) addr of
            Inl e \<Rightarrow> None
          | Inr None \<Rightarrow> None
          | Inr (Some account) \<Rightarrow>
              Some \<lparr>obj_Account = Account_Copy account, obj_Code = acc_Code account,
                    obj_Suicide = False, obj_Deleted = False, obj_DirtyCode = False,
                    obj_Txn = None\<rparr>))"

definition GetAccount :: "Txn \<Rightarrow> address \<Rightarrow> Account option" where
  "GetAccount txn addr = map_option obj_Account (getStateObject txn addr)"

text \<open>
  \<open>upsertAccount\<close>. The callback gets \<open>None\<close> for the \<open>nil\<close> object of an absent account
  that is not to be created, and nothing is inserted then.
\<close>

definition upsertAccount ::
  "address \<Rightarrow> bool \<Rightarrow> (stateObject option \<Rightarrow> stateObject option) \<Rightarrow> Txn \<Rightarrow> Txn" where
  "upsertAccount addr create f txn =
    (let object = (case getStateObject txn addr of
                     None \<Rightarrow> if create then Some newStateObject else None
                   | Some obj \<Rightarrow> Some obj)
     in case f object of
          None \<Rightarrow> txn
        | Some obj \<Rightarrow> txn\<lparr>txn_txn := (txn_txn txn)\<lparr>objects := (objects (txn_txn txn))(addr \<mapsto> obj)\<rparr>\<rparr>)"

definition upd_Balance :: "(int \<Rightarrow> int) \<Rightarrow> stateObject \<Rightarrow> stateObject" where
  "upd_Balance g obj = obj\<lparr>obj_Account := (obj_Account obj)\<lparr>acc_Balance := g (acc_Balance (obj_Account obj))\<rparr>\<rparr>"

definition upd_Nonce :: "(uint64 \<Rightarrow> uint64) \<Rightarrow> stateObject \<Rightarrow> stateObject" where
  "upd_Nonce g obj = obj\<lparr>obj_Account := (obj_Account obj)\<lparr>acc_Nonce := g (acc_Nonce (obj_Account obj))\<rparr>\<rparr>"

definition AddBalance :: "address \<Rightarrow> int \<Rightarrow> Txn \<Rightarrow> Txn" where
  "AddBalance addr balance txn =
    upsertAccount addr True (map_option (upd_Balance (\<lambda>b. b + balance))) txn"

definition GetBalance :: "Txn \<Rightarrow> address \<Rightarrow> int" where
  "GetBalance txn addr =
    (case getStateObject txn addr of None \<Rightarrow> 0 | Some object \<Rightarrow> acc_Balance (obj_Account object))"

definition SubBalance :: "address \<Rightarrow> int \<Rightarrow> Txn \<Rightarrow> error option \<times> Txn" where
  "SubBalance addr amount txn =
    (if amount = 0 then (None, txn)
     else if GetBalance txn addr < amount then (Some errNotEnoughFunds, txn)
     else (None, upsertAccount addr True (map_option (upd_Balance (\<lambda>b. b - amount))) txn))"

text \<open>\<open>SetBalance\<close> stores the magnitude (\<open>SetBytes\<close> of \<open>Bytes\<close>).\<close>

definition SetBalance :: "address \<Rightarrow> int \<Rightarrow> Txn \<Rightarrow> Txn" where
  "SetBalance addr balance txn =
    upsertAccount addr True (map_option (upd_Balance (\<lambda>b. \<bar>balance\<bar>))) txn"

text \<open>
  \<open>EmitLog\<close> appends to the stored log list. The list is a value here. In the code it is
  a Go slice, and \<open>append\<close> writes in place while the backing array has room, so two
  versions of the overlay can share that array: what a version reads then differs from
  this model only for a version that was saved before a revert to an older one, when a
  log was emitted after that revert and the saved version is reverted to afterwards.
  \<open>applyCall\<close> and \<open>applyCreate\<close> revert only to the snapshot they took themselves, after
  the frames inside have ended, so the driver never reverts in that order.
\<close>

definition EmitLog :: "address \<Rightarrow> hash list \<Rightarrow> byte list \<Rightarrow> Txn \<Rightarrow> Txn" where
  "EmitLog addr topics data txn =
    (let log = \<lparr>log_Address = addr, log_Topics = topics, log_Data = data\<rparr>;
         logs = (case logs_entry (txn_txn txn) of None \<Rightarrow> [] | Some val \<Rightarrow> val)
     in txn\<lparr>txn_txn := (txn_txn txn)\<lparr>logs_entry := Some (logs @ [log])\<rparr>\<rparr>)"

text \<open>\<open>Logs\<close> returns \<open>nil\<close> (\<open>None\<close>) when the log key is absent.\<close>

definition Logs :: "Txn \<Rightarrow> Log list option \<times> Txn" where
  "Logs txn =
    (case logs_entry (txn_txn txn) of
       None \<Rightarrow> (None, txn)
     | Some data \<Rightarrow> (Some data, txn\<lparr>txn_txn := (txn_txn txn)\<lparr>logs_entry := None\<rparr>\<rparr>))"

definition Txn_isRevision :: "nat \<Rightarrow> Txn \<Rightarrow> bool" where
  "Txn_isRevision r txn = (r \<le> txn_rev txn)"

definition GetRefund :: "Txn \<Rightarrow> uint64" where
  "GetRefund txn = (case refund_entry (txn_txn txn) of None \<Rightarrow> 0 | Some data \<Rightarrow> data)"

definition AddRefund :: "uint64 \<Rightarrow> Txn \<Rightarrow> Txn" where
  "AddRefund g txn =
    (let refund = GetRefund txn + g
     in txn\<lparr>txn_txn := (txn_txn txn)\<lparr>refund_entry := Some refund\<rparr>\<rparr>)"

definition SubRefund :: "uint64 \<Rightarrow> Txn \<Rightarrow> Txn" where
  "SubRefund g txn =
    (let refund = GetRefund txn - g
     in txn\<lparr>txn_txn := (txn_txn txn)\<lparr>refund_entry := Some refund\<rparr>\<rparr>)"

definition GetState :: "Txn \<Rightarrow> address \<Rightarrow> hash \<Rightarrow> hash" where
  "GetState txn addr key =
    (case getStateObject txn addr of
       None \<Rightarrow> 0
     | Some object \<Rightarrow>
         (case obj_Txn object of
            None \<Rightarrow> sn_GetStorage (txn_snapshot txn) addr (acc_Root (obj_Account object)) key
          | Some tr \<Rightarrow>
              (case tr key of
                 Some None \<Rightarrow> 0
               | Some (Some val) \<Rightarrow> val
               | None \<Rightarrow> sn_GetStorage (txn_snapshot txn) addr (acc_Root (obj_Account object)) key)))"

definition GetCommittedState :: "Txn \<Rightarrow> address \<Rightarrow> hash \<Rightarrow> hash" where
  "GetCommittedState txn addr key =
    (case getStateObject txn addr of
       None \<Rightarrow> 0
     | Some obj \<Rightarrow> sn_GetStorage (txn_snapshot txn) addr (acc_Root (obj_Account obj)) key)"

definition storage_Insert :: "hash \<Rightarrow> hash \<Rightarrow> stateObject \<Rightarrow> stateObject" where
  "storage_Insert key val object =
    (let tr = (case obj_Txn object of None \<Rightarrow> Map.empty | Some tr \<Rightarrow> tr)
     in if val = zeroHash then object\<lparr>obj_Txn := Some (tr(key \<mapsto> None))\<rparr>
        else object\<lparr>obj_Txn := Some (tr(key \<mapsto> Some val))\<rparr>)"

definition SetState :: "address \<Rightarrow> hash \<Rightarrow> hash \<Rightarrow> Txn \<Rightarrow> Txn" where
  "SetState addr key val txn = upsertAccount addr True (map_option (storage_Insert key val)) txn"

text \<open>The values of \<open>evmc.StorageStatus\<close>.\<close>

datatype StorageStatus =
    StorageUnchanged
  | StorageModified
  | StorageModifiedAgain
  | StorageAdded
  | StorageDeleted

definition SetStorage :: "address \<Rightarrow> hash \<Rightarrow> hash \<Rightarrow> Txn \<Rightarrow> StorageStatus \<times> Txn" where
  "SetStorage addr key val txn =
    (let oldValue = GetState txn addr key in
     if oldValue = val then (StorageUnchanged, txn)
     else
       let current = oldValue;
           original = GetCommittedState txn addr key;
           txn1 = SetState addr key val txn;
           isIstanbul = Txn_isRevision Istanbul txn1;
           legacyGasMetering = (\<not> isIstanbul \<and>
              (Txn_isRevision Petersburg txn1 \<or> \<not> Txn_isRevision Constantinople txn1))
       in
       if legacyGasMetering then
         (if oldValue = zeroHash then (StorageAdded, txn1)
          else if val = zeroHash then (StorageDeleted, AddRefund 15000 txn1)
          else (StorageModified, txn1))
       else if original = current then
         (if original = zeroHash then (StorageAdded, txn1)
          else if val = zeroHash then (StorageDeleted, AddRefund 15000 txn1)
          else (StorageModified, txn1))
       else
         let txn2 = (if original \<noteq> zeroHash then
                       (if current = zeroHash then SubRefund 15000 txn1
                        else if val = zeroHash then AddRefund 15000 txn1
                        else txn1)
                     else txn1);
             txn3 = (if original = val then
                       (if original = zeroHash then
                          (if isIstanbul then AddRefund 19200 txn2 else AddRefund 19800 txn2)
                        else
                          (if isIstanbul then AddRefund 4200 txn2 else AddRefund 4800 txn2))
                     else txn2)
         in (StorageModifiedAgain, txn3))"

definition IncrNonce :: "address \<Rightarrow> Txn \<Rightarrow> Txn" where
  "IncrNonce addr txn = upsertAccount addr True (map_option (upd_Nonce (\<lambda>n. n + 1))) txn"

definition SetNonce :: "address \<Rightarrow> uint64 \<Rightarrow> Txn \<Rightarrow> Txn" where
  "SetNonce addr nonce txn = upsertAccount addr True (map_option (upd_Nonce (\<lambda>n. nonce))) txn"

definition GetNonce :: "Txn \<Rightarrow> address \<Rightarrow> uint64" where
  "GetNonce txn addr =
    (case getStateObject txn addr of None \<Rightarrow> 0 | Some object \<Rightarrow> acc_Nonce (obj_Account object))"

text \<open>\<open>SetCode\<close> hashes the code with Keccak-256, a library function and a parameter here.\<close>

definition SetCode :: "(byte list \<Rightarrow> hash) \<Rightarrow> address \<Rightarrow> byte list \<Rightarrow> Txn \<Rightarrow> Txn" where
  "SetCode Keccak256 addr cd txn =
    upsertAccount addr True
      (map_option (\<lambda>object.
         object\<lparr>obj_Account := (obj_Account object)\<lparr>acc_CodeHash := Keccak256 cd\<rparr>,
                obj_DirtyCode := True, obj_Code := cd\<rparr>)) txn"

definition GetCode :: "Txn \<Rightarrow> address \<Rightarrow> byte list" where
  "GetCode txn addr =
    (case getStateObject txn addr of None \<Rightarrow> [] | Some object \<Rightarrow> obj_Code object)"

definition GetCodeSize :: "Txn \<Rightarrow> address \<Rightarrow> nat" where
  "GetCodeSize txn addr = length (GetCode txn addr)"

definition empty_account :: "Txn \<Rightarrow> address \<Rightarrow> bool" where
  "empty_account txn addr =
    (case getStateObject txn addr of None \<Rightarrow> True | Some obj \<Rightarrow> Empty obj)"

definition GetCodeHash :: "Txn \<Rightarrow> address \<Rightarrow> hash" where
  "GetCodeHash txn addr =
    (if empty_account txn addr then 0
     else case getStateObject txn addr of
            None \<Rightarrow> 0
          | Some object \<Rightarrow> acc_CodeHash (obj_Account object))"

definition Suicide :: "address \<Rightarrow> Txn \<Rightarrow> bool \<times> Txn" where
  "Suicide addr txn =
    (let suicided = (case getStateObject txn addr of
                       None \<Rightarrow> False
                     | Some object \<Rightarrow> \<not> obj_Suicide object)
     in (suicided,
         upsertAccount addr False
           (map_option (\<lambda>object. upd_Balance (\<lambda>b. 0) (object\<lparr>obj_Suicide := True\<rparr>))) txn))"

definition HasSuicided :: "Txn \<Rightarrow> address \<Rightarrow> bool" where
  "HasSuicided txn addr =
    (case getStateObject txn addr of None \<Rightarrow> False | Some object \<Rightarrow> obj_Suicide object)"

definition TouchAccount :: "address \<Rightarrow> Txn \<Rightarrow> Txn" where
  "TouchAccount addr txn = upsertAccount addr True (\<lambda>obj. obj) txn"

definition AccountExists :: "Txn \<Rightarrow> address \<Rightarrow> bool" where
  "AccountExists txn addr =
    (if txn_rev txn \<ge> SpuriousDragon then \<not> empty_account txn addr
     else getStateObject txn addr \<noteq> None)"

definition CreateAccount :: "address \<Rightarrow> Txn \<Rightarrow> Txn" where
  "CreateAccount addr txn =
    (let obj = (case getStateObject txn addr of
                  None \<Rightarrow> newStateObject
                | Some prev \<Rightarrow> upd_Balance (\<lambda>b. \<bar>acc_Balance (obj_Account prev)\<bar>) newStateObject)
     in txn\<lparr>txn_txn := (txn_txn txn)\<lparr>objects := (objects (txn_txn txn))(addr \<mapsto> obj)\<rparr>\<rparr>)"

text \<open>
  \<open>CleanDeleteObjects\<close> walks the tree, collects the keys of the objects that suicided or
  (when asked to) are empty, stores a copy marked deleted for each, and deletes the refund
  key.
\<close>

definition CleanDeleteObjects :: "bool \<Rightarrow> Txn \<Rightarrow> Txn" where
  "CleanDeleteObjects deleteEmptyObjects txn =
    txn\<lparr>txn_txn := (txn_txn txn)
      \<lparr>objects := (\<lambda>k. case objects (txn_txn txn) k of
                         None \<Rightarrow> None
                       | Some a \<Rightarrow>
                           if obj_Suicide a \<or> Empty a \<and> deleteEmptyObjects
                           then Some ((stateObject_Copy a)\<lparr>obj_Deleted := True\<rparr>)
                           else Some a),
       refund_entry := None\<rparr>\<rparr>"

text \<open>\<open>EmptyState\<close>, the backend without accounts of \<open>state_empty.go\<close>.\<close>

definition EmptyState :: Snapshot where
  "EmptyState = \<lparr>sn_GetStorage = (\<lambda>addr root key. 0), sn_GetAccount = (\<lambda>addr. Inr None)\<rparr>"

section \<open>Transition driver\<close>

text \<open>The values of \<open>evmc.CallKind\<close>.\<close>

datatype CallKind = Call | DelegateCall | CallCode | Create | Create2

record Message =
  msg_Nonce :: uint64
  msg_GasPrice :: int
  msg_Gas :: uint64
  msg_To :: "address option"
  msg_Value :: int
  msg_Input :: "byte list"
  msg_From :: address

definition IsContractCreation :: "Message \<Rightarrow> bool" where
  "IsContractCreation m = (msg_To m = None)"

text \<open>\<open>Contract\<close>, the call frame descriptor. \<open>Value\<close> is a \<open>*big.Int\<close> and may be \<open>nil\<close>.\<close>

record Contract =
  c_Type :: CallKind
  c_CodeAddress :: address
  c_Address :: address
  c_Caller :: address
  c_Depth :: int
  c_Value :: "int option"
  c_Input :: "byte list"
  c_Gas :: uint64
  c_Static :: bool
  c_Salt :: hash

definition NewContract ::
  "CallKind \<Rightarrow> int \<Rightarrow> address \<Rightarrow> address \<Rightarrow> int option \<Rightarrow> uint64 \<Rightarrow> byte list \<Rightarrow> Contract" where
  "NewContract typ depth from to val g input =
    \<lparr>c_Type = typ, c_CodeAddress = to, c_Address = to, c_Caller = from, c_Depth = depth,
     c_Value = val, c_Input = input, c_Gas = g, c_Static = False, c_Salt = 0\<rparr>"

definition NewContractCreation ::
  "int \<Rightarrow> address \<Rightarrow> address \<Rightarrow> int option \<Rightarrow> uint64 \<Rightarrow> byte list \<Rightarrow> Contract" where
  "NewContractCreation depth from to val g cd = NewContract Create depth from to val g cd"

definition NewContractCall ::
  "int \<Rightarrow> address \<Rightarrow> address \<Rightarrow> int option \<Rightarrow> uint64 \<Rightarrow> byte list \<Rightarrow> Contract" where
  "NewContractCall depth from to val g input = NewContract Call depth from to val g input"

record Output =
  out_Logs :: "Log list option"
  out_Success :: bool
  out_GasLeft :: uint64
  out_ContractAddress :: address
  out_ReturnValue :: "byte list"

record TxContext =
  ctx_Hash :: hash
  ctx_GasPrice :: hash
  ctx_Origin :: address
  ctx_Coinbase :: address
  ctx_Number :: uint64
  ctx_Timestamp :: uint64
  ctx_GasLimit :: uint64
  ctx_ChainID :: uint64
  ctx_Difficulty :: hash

text \<open>
  A cheatcode is a test hook; its \<open>Run\<close> method returns nothing and has no access to the
  overlay, so only \<open>CanRun\<close> is part of the model.
\<close>

record Cheatcode =
  ch_CanRun :: "address \<Rightarrow> bool"

record Config =
  cfg_GetHash :: "uint64 \<Rightarrow> hash"
  cfg_Ctx :: TxContext
  cfg_Rev :: nat
  cfg_State :: Snapshot
  cfg_Cheatcodes :: "Cheatcode list"

record Transition =
  tr_txn :: Txn
  tr_config :: Config

text \<open>
  What the driver uses and the sources at hand do not define: the dispatch loop
  \<open>state.Run\<close> of the interpreter (its dispatch table is not part of the sources; it gets
  the frame and the host, here the transition, and returns the final frame, or \<open>None\<close>
  when it panics), Keccak-256, the two address derivations (hashing and RLP are
  libraries), and the kernels of the precompiled contracts.
\<close>

record extern =
  x_interp :: "state \<Rightarrow> Transition \<Rightarrow> (state \<times> Transition) option"
  x_Keccak256 :: "byte list \<Rightarrow> hash"
  x_createAddress :: "address \<Rightarrow> uint64 \<Rightarrow> address"
  x_createAddress2 :: "address \<Rightarrow> hash \<Rightarrow> byte list \<Rightarrow> address"
  x_kernels :: kernels

definition spuriousDragonMaxCodeSize :: nat where
  "spuriousDragonMaxCodeSize = 24576"

definition TxGas :: uint64 where
  "TxGas = 21000"

definition TxGasContractCreation :: uint64 where
  "TxGasContractCreation = 53000"

definition MaxUint64 :: uint64 where
  "MaxUint64 = - 1"

definition NewTransition :: "Config \<Rightarrow> Transition" where
  "NewTransition config =
    \<lparr>tr_txn = (newTxn (cfg_State config))\<lparr>txn_rev := cfg_Rev config\<rparr>, tr_config = config\<rparr>"

definition T_isRevision :: "nat \<Rightarrow> Transition \<Rightarrow> bool" where
  "T_isRevision r t = (r \<le> cfg_Rev (tr_config t))"

text \<open>\<open>bytesToHash (b.Bytes ())\<close>: the low 32 bytes of the magnitude of a \<open>big.Int\<close>.\<close>

definition bigToHash :: "int \<Rightarrow> hash" where
  "bigToHash b = word_of_int \<bar>b\<bar>"

definition TransactionGasCost :: "Message \<Rightarrow> bool \<Rightarrow> bool \<Rightarrow> error + uint64" where
  "TransactionGasCost msg isHomestead isIstanbul =
    (let cost = (if IsContractCreation msg \<and> isHomestead then TxGasContractCreation else TxGas);
         payload = msg_Input msg
     in if length payload > 0 then
          let zeros = (of_nat (length (filter (\<lambda>b. b = 0) payload)) :: uint64);
              nonZeros = of_nat (length payload) - zeros;
              nonZeroCost = (if isIstanbul then 16 else 68)
          in if (MaxUint64 - cost) div nonZeroCost < nonZeros
             then Inl (errNew ''overflow in non-zeros intrinsic gas calculation'')
             else
               let cost1 = cost + nonZeros * nonZeroCost
               in if (MaxUint64 - cost1) div 4 < zeros
                  then Inl (errNew ''overflow in zeros intrinsic gas calculation'')
                  else Inr (cost1 + zeros * 4)
        else Inr cost)"

text \<open>
  \<open>preCheck\<close> returns the error, the message (its \<open>Gas\<close> field is updated on success) and
  the transition.
\<close>

definition preCheck :: "Message \<Rightarrow> Transition \<Rightarrow> error option \<times> Message \<times> Transition" where
  "preCheck msg t =
    (let nonce = GetNonce (tr_txn t) (msg_From msg) in
     if nonce \<noteq> msg_Nonce msg then (Some (errNew ''incorrect nonce''), msg, t)
     else
       let upfrontGasCost = msg_GasPrice msg * uint (msg_Gas msg);
           (e, txn1) = SubBalance (msg_From msg) upfrontGasCost (tr_txn t);
           t1 = t\<lparr>tr_txn := txn1\<rparr>
       in case e of
            Some e' \<Rightarrow>
              if e' = errNotEnoughFunds
              then (Some (errNew ''not enough funds to cover gas costs''), msg, t1)
              else (Some e', msg, t1)
          | None \<Rightarrow>
              (case TransactionGasCost msg (T_isRevision Homestead t1) (T_isRevision Istanbul t1) of
                 Inl e' \<Rightarrow> (Some e', msg, t1)
               | Inr intrinsicGasCost \<Rightarrow>
                   let gasLeft = msg_Gas msg - intrinsicGasCost in
                   if gasLeft > msg_Gas msg
                   then (Some (errNew ''not enough gas supplied for intrinsic gas costs''), msg, t1)
                   else if GetBalance (tr_txn t1) (msg_From msg) < msg_Value msg
                   then (Some errNotEnoughFunds, msg, t1)
                   else (None, msg\<lparr>msg_Gas := gasLeft\<rparr>, t1)))"

definition postCheck :: "Message \<Rightarrow> Output \<Rightarrow> Transition \<Rightarrow> Message \<times> Output \<times> Transition" where
  "postCheck msg output t =
    (let intrinsicGasCost =
           (case TransactionGasCost msg (T_isRevision Homestead t) (T_isRevision Istanbul t) of
              Inl e \<Rightarrow> 0 | Inr c \<Rightarrow> c);
         msg1 = msg\<lparr>msg_Gas := msg_Gas msg + intrinsicGasCost\<rparr>;
         refund0 = GetRefund (tr_txn t);
         gasUsed0 = msg_Gas msg1 - out_GasLeft output;
         maxRefund = gasUsed0 div 2;
         refund = (if refund0 > maxRefund then maxRefund else refund0);
         output1 = output\<lparr>out_GasLeft := out_GasLeft output + refund\<rparr>;
         gasUsed = gasUsed0 - refund;
         gasPrice = msg_GasPrice msg1;
         remaining = uint (out_GasLeft output1) * gasPrice;
         txn1 = AddBalance (msg_From msg1) remaining (tr_txn t);
         coinbaseFee = uint gasUsed * gasPrice;
         txn2 = AddBalance (ctx_Coinbase (cfg_Ctx (tr_config t))) coinbaseFee txn1
     in (msg1, output1, t\<lparr>tr_txn := txn2\<rparr>))"

definition isPrecompiled :: "extern \<Rightarrow> address \<Rightarrow> Transition \<Rightarrow> bool" where
  "isPrecompiled X codeAddr t =
    (if precompiledContracts (x_kernels X) codeAddr = None then False
     else if codeAddr = addr5 \<or> codeAddr = addr6 \<or> codeAddr = addr7 \<or> codeAddr = addr8
       then T_isRevision Byzantium t
     else if codeAddr = addr9 then T_isRevision Istanbul t
     else True)"

text \<open>
  \<open>EVM.Run\<close> fills a frame from the pool, runs the dispatch loop and returns the return
  data, the gas left and the error of the frame; every error but the revert error leaves
  no gas.
\<close>

definition EVM_Run ::
  "extern \<Rightarrow> CallKind \<Rightarrow> address \<Rightarrow> address \<Rightarrow> int option \<Rightarrow> byte list \<Rightarrow> uint64 \<Rightarrow> int \<Rightarrow> bool
     \<Rightarrow> address \<Rightarrow> Transition \<Rightarrow> ((byte list \<times> uint64 \<times> error option) \<times> Transition) option" where
  "EVM_Run X typ recipient sender val input g depth static codeAddress t =
    (let s = frame0\<lparr>Address := recipient, Caller := sender, Depth := depth, Value := val,
                     Static := static,
                     Input := (if typ = Create \<or> typ = Create2 then [] else input),
                     code := (if typ = Create \<or> typ = Create2 then input
                              else GetCode (tr_txn t) codeAddress),
                     gas := g, st_rev := cfg_Rev (tr_config t)\<rparr>
     in case x_interp X s t of
          None \<Rightarrow> None
        | Some (s', t') \<Rightarrow>
            let returnValue = ret s';
                gasLeft = (if err s' \<noteq> None \<and> err s' \<noteq> Some ErrExecutionReverted then 0 else gas s')
            in Some ((returnValue, gasLeft, err s'), t'))"

definition run ::
  "extern \<Rightarrow> Contract \<Rightarrow> Transition \<Rightarrow> ((byte list \<times> uint64 \<times> error option) \<times> Transition) option" where
  "run X c t =
    (if \<exists>cheat \<in> set (cfg_Cheatcodes (tr_config t)). ch_CanRun cheat (c_CodeAddress c)
     then Some (([], c_Gas c, None), t)
     else if isPrecompiled X (c_CodeAddress c) t
     then map_option (\<lambda>r. (r, t))
            (runPrecompiled (x_kernels X) (c_CodeAddress c) (c_Input c) (c_Gas c) (cfg_Rev (tr_config t)))
     else EVM_Run X (c_Type c) (c_Address c) (c_Caller c) (c_Value c) (c_Input c) (c_Gas c)
            (c_Depth c) (c_Static c) (c_CodeAddress c) t)"

definition transfer :: "address \<Rightarrow> address \<Rightarrow> int option \<Rightarrow> Txn \<Rightarrow> error option \<times> Txn" where
  "transfer from to amount txn =
    (case amount of
       None \<Rightarrow> (None, txn)
     | Some a \<Rightarrow>
         (case SubBalance from a txn of
            (Some e, txn1) \<Rightarrow> (Some e, txn1)
          | (None, txn1) \<Rightarrow> (None, AddBalance to a txn1)))"

text \<open>
  \<open>applyCall\<close> and \<open>applyCreate\<close> return \<open>(retValue, gasLeft, address, err)\<close> and the
  transition, or \<open>None\<close> for a panic of \<open>RevertToSnapshot\<close>, of the interpreter or of the
  dispatcher.
\<close>

definition applyCall ::
  "extern \<Rightarrow> Contract \<Rightarrow> CallKind \<Rightarrow> Transition
     \<Rightarrow> ((byte list \<times> uint64 \<times> address \<times> error option) \<times> Transition) option" where
  "applyCall X c callType t =
    (let (snapshot, txn1) = Txn_Snapshot (tr_txn t);
         txn2 = TouchAccount (c_Address c) txn1;
         (terr, txn3) = (if callType = Call then transfer (c_Caller c) (c_Address c) (c_Value c) txn2
                         else (None, txn2))
     in if terr \<noteq> None then Some (([], c_Gas c, 0, terr), t\<lparr>tr_txn := txn3\<rparr>)
        else
          (case run X c (t\<lparr>tr_txn := txn3\<rparr>) of
             None \<Rightarrow> None
           | Some ((retValue, gasLeft, e), t4) \<Rightarrow>
               if e \<noteq> None then
                 (case RevertToSnapshot snapshot (tr_txn t4) of
                    None \<Rightarrow> None
                  | Some txn5 \<Rightarrow>
                      Some (((if e \<noteq> Some ErrExecutionReverted then [] else retValue),
                             gasLeft, 0, e), t4\<lparr>tr_txn := txn5\<rparr>))
               else Some ((retValue, gasLeft, 0, e), t4)))"

definition emptyHash :: hash where
  "emptyHash = 0"

definition hasCodeOrNonce :: "address \<Rightarrow> Transition \<Rightarrow> bool" where
  "hasCodeOrNonce addr t =
    (let nonce = GetNonce (tr_txn t) addr in
     if nonce \<noteq> 0 then True
     else
       let codeHash = GetCodeHash (tr_txn t) addr in
       if codeHash \<noteq> EmptyCodeHash \<and> codeHash \<noteq> emptyHash then True else False)"

definition applyCreate ::
  "extern \<Rightarrow> Contract \<Rightarrow> Transition
     \<Rightarrow> ((byte list \<times> uint64 \<times> address \<times> error option) \<times> Transition) option" where
  "applyCreate X c0 t =
    (let gasLimit = c_Gas c0 in
     case (if c_Type c0 = Create
             then Some (x_createAddress X (c_Caller c0) (GetNonce (tr_txn t) (c_Caller c0)))
           else if c_Type c0 = Create2
             then Some (x_createAddress2 X (c_Caller c0) (c_Salt c0) (c_Input c0))
           else None) of
       None \<Rightarrow> None
     | Some address \<Rightarrow>
         let c = c0\<lparr>c_CodeAddress := address, c_Address := address\<rparr>;
             t1 = t\<lparr>tr_txn := IncrNonce (c_Caller c) (tr_txn t)\<rparr>
         in if hasCodeOrNonce (c_Address c) t1
            then Some (([], 0, address, Some (errNew ''contract address collision'')), t1)
            else
              let (snapshot, txn2) = Txn_Snapshot (tr_txn t1);
                  txn3 = (if T_isRevision SpuriousDragon t1
                          then IncrNonce (c_Address c) (CreateAccount (c_Address c) txn2)
                          else txn2);
                  (terr, txn4) = transfer (c_Caller c) (c_Address c) (c_Value c) txn3
              in if terr \<noteq> None then Some (([], gasLimit, address, terr), t1\<lparr>tr_txn := txn4\<rparr>)
                 else
                   (case run X c (t1\<lparr>tr_txn := txn4\<rparr>) of
                      None \<Rightarrow> None
                    | Some ((retValue, gasLeft, e), t5) \<Rightarrow>
                        if e \<noteq> None then
                          (case RevertToSnapshot snapshot (tr_txn t5) of
                             None \<Rightarrow> None
                           | Some txn6 \<Rightarrow>
                               Some (((if e \<noteq> Some ErrExecutionReverted then [] else retValue),
                                      gasLeft, address, e), t5\<lparr>tr_txn := txn6\<rparr>))
                        else if T_isRevision SpuriousDragon t5 \<and> length retValue > spuriousDragonMaxCodeSize
                        then
                          (case RevertToSnapshot snapshot (tr_txn t5) of
                             None \<Rightarrow> None
                           | Some txn6 \<Rightarrow>
                               Some (([], 0, address, Some (errNew ''evm: max code size exceeded'')),
                                     t5\<lparr>tr_txn := txn6\<rparr>))
                        else
                          let gasCost = (of_nat (length retValue) :: uint64) * 200 in
                          if gasLeft <s gasCost then
                            (let e' = Some (errNew ''contract creation code storage out of gas'') in
                             if T_isRevision Homestead t5 then
                               (case RevertToSnapshot snapshot (tr_txn t5) of
                                  None \<Rightarrow> None
                                | Some txn6 \<Rightarrow> Some (([], 0, address, e'), t5\<lparr>tr_txn := txn6\<rparr>))
                             else Some (([], gasLeft, address, e'), t5))
                          else
                            Some (([], gasLeft - gasCost, address, None),
                                  t5\<lparr>tr_txn := SetCode (x_Keccak256 X) (c_Address c) retValue (tr_txn t5)\<rparr>)))"

definition Callx ::
  "extern \<Rightarrow> Contract \<Rightarrow> Transition
     \<Rightarrow> ((byte list \<times> uint64 \<times> address \<times> error option) \<times> Transition) option" where
  "Callx X c t =
    (if c_Type c = Create \<or> c_Type c = Create2 then applyCreate X c t
     else applyCall X c (c_Type c) t)"

text \<open>
  \<open>Apply\<close> builds the root frame, runs it and collects the output; the logs are taken
  with \<open>Txn.Logs\<close>. The message is a contract creation (\<open>IsContractCreation\<close>) exactly when
  its \<open>To\<close> is \<open>nil\<close>.
\<close>

definition Apply :: "extern \<Rightarrow> Message \<Rightarrow> Transition \<Rightarrow> (Output \<times> Transition) option" where
  "Apply X msg t0 =
    (let gasPrice = msg_GasPrice msg;
         val = msg_Value msg;
         t = t0\<lparr>tr_config := (tr_config t0)
                \<lparr>cfg_Ctx := (cfg_Ctx (tr_config t0))
                    \<lparr>ctx_GasPrice := bigToHash gasPrice, ctx_Origin := msg_From msg\<rparr>\<rparr>\<rparr>
     in case (case msg_To msg of
                None \<Rightarrow>
                  (let address = x_createAddress X (msg_From msg) (GetNonce (tr_txn t) (msg_From msg));
                       contract = NewContractCreation 0 (msg_From msg) address (Some val) (msg_Gas msg) (msg_Input msg)
                   in applyCreate X contract t)
              | Some to \<Rightarrow>
                  (let t1 = t\<lparr>tr_txn := IncrNonce (msg_From msg) (tr_txn t)\<rparr>;
                       c = NewContractCall 0 (msg_From msg) to (Some val) (msg_Gas msg) (msg_Input msg)
                   in applyCall X c Call t1)) of
          None \<Rightarrow> None
        | Some ((retValue, gasLeft, a, e), t2) \<Rightarrow>
            let (logs, txn3) = Logs (tr_txn t2);
                output = \<lparr>out_Logs = logs, out_Success = (e = None), out_GasLeft = gasLeft,
                           out_ContractAddress =
                             (if msg_To msg = None then x_createAddress X (msg_From msg) (msg_Nonce msg) else 0),
                           out_ReturnValue = retValue\<rparr>
            in Some (output, t2\<lparr>tr_txn := txn3\<rparr>))"

definition applyImpl ::
  "extern \<Rightarrow> Message \<Rightarrow> Transition \<Rightarrow> ((error + Output) \<times> Transition) option" where
  "applyImpl X msg t =
    (case preCheck msg t of
       (Some e, msg1, t1) \<Rightarrow> Some (Inl e, t1)
     | (None, msg1, t1) \<Rightarrow>
         (case Apply X msg1 t1 of
            None \<Rightarrow> None
          | Some (output, t2) \<Rightarrow>
              let (msg3, output3, t3) = postCheck msg1 output t2
              in Some (Inr output3, t3)))"

text \<open>\<open>Write\<close>: the result is the error (\<open>Inl\<close>) or the output, with the transition.\<close>

definition Write ::
  "extern \<Rightarrow> Message \<Rightarrow> Transition \<Rightarrow> ((error + Output) \<times> Transition) option" where
  "Write X msg t =
    (case applyImpl X msg t of
       None \<Rightarrow> None
     | Some (Inl e, t1) \<Rightarrow> Some (Inl e, t1)
     | Some (Inr output, t1) \<Rightarrow>
         if T_isRevision Byzantium t1
         then Some (Inr output, t1\<lparr>tr_txn := CleanDeleteObjects True (tr_txn t1)\<rparr>)
         else Some (Inr output, t1\<lparr>tr_txn := CleanDeleteObjects (T_isRevision SpuriousDragon t1) (tr_txn t1)\<rparr>))"

section \<open>Example parameters\<close>

text \<open>
  A configuration over the empty backend with no cheatcodes, for a given revision, and
  the collaborators around a given dispatch loop: fixed addresses for the two address
  derivations, a constant digest, and the kernels above. The examples below run the
  driver with them.
\<close>

definition config0 :: "nat \<Rightarrow> Config" where
  "config0 r =
    \<lparr>cfg_GetHash = (\<lambda>n. 0),
     cfg_Ctx = \<lparr>ctx_Hash = 0, ctx_GasPrice = 0, ctx_Origin = 0, ctx_Coinbase = 0, ctx_Number = 0,
                ctx_Timestamp = 0, ctx_GasLimit = 0, ctx_ChainID = 0, ctx_Difficulty = 0\<rparr>,
     cfg_Rev = r, cfg_State = EmptyState, cfg_Cheatcodes = []\<rparr>"

definition extern0 :: "(state \<Rightarrow> Transition \<Rightarrow> (state \<times> Transition) option) \<Rightarrow> extern" where
  "extern0 loop =
    \<lparr>x_interp = loop, x_Keccak256 = (\<lambda>b. 1), x_createAddress = (\<lambda>a n. 77),
     x_createAddress2 = (\<lambda>a s i. 78), x_kernels = kernels0\<rparr>"

text \<open>
  Three dispatch loops: a frame that writes slot 1 of its own address and then runs out
  of gas, a frame that returns the given bytes with the given gas left, and a frame that
  emits one log and stops.
\<close>

definition loop_fail :: "state \<Rightarrow> Transition \<Rightarrow> (state \<times> Transition) option" where
  "loop_fail s t = Some (exit errOutOfGas s, t\<lparr>tr_txn := SetState (Address s) 1 5 (tr_txn t)\<rparr>)"

definition loop_return :: "byte list \<Rightarrow> uint64 \<Rightarrow> state \<Rightarrow> Transition \<Rightarrow> (state \<times> Transition) option" where
  "loop_return out g s t = Some (halt (s\<lparr>ret := out, gas := g\<rparr>), t)"

definition loop_log :: "state \<Rightarrow> Transition \<Rightarrow> (state \<times> Transition) option" where
  "loop_log s t = Some (halt s, t\<lparr>tr_txn := EmitLog (Address s) [] [1] (tr_txn t)\<rparr>)"

text \<open>
  A backend with one account: the address \<open>a\<close> has the balance \<open>b\<close>, nonce 0 and no code,
  as the wrapper of the state tests builds it from a genesis account.
\<close>

definition backend_one :: "address \<Rightarrow> int \<Rightarrow> Snapshot" where
  "backend_one a b =
    \<lparr>sn_GetStorage = (\<lambda>addr root key. 0),
     sn_GetAccount = (\<lambda>addr. if addr = a
        then Inr (Some \<lparr>acc_Nonce = 0, acc_Balance = b, acc_Root = 0,
                        acc_CodeHash = EmptyCodeHash, acc_Code = []\<rparr>)
        else Inr None)\<rparr>"

text \<open>A sequence of \<open>EmitLog\<close> calls, given by their arguments, one after the other.\<close>

definition EmitLogs :: "(address \<times> hash list \<times> byte list) list \<Rightarrow> Txn \<Rightarrow> Txn" where
  "EmitLogs es txn = foldl (\<lambda>t (a, topics, data). EmitLog a topics data t) txn es"

section \<open>Call and create instructions\<close>

text \<open>
  The host as the two handlers use it: \<open>AccountExists\<close> and \<open>GetBalance\<close> read the host
  state, \<open>Call\<close> returns \<open>(retValue, gasLeft, createdAddress, err)\<close> and the next host state
  (\<open>None\<close> when it panics). The arguments of \<open>Call\<close> are the kind, the recipient, the
  sender, the value, the input, the gas, the depth, the static flag, the salt and the code
  address.
\<close>

record 'h host =
  h_AccountExists :: "'h \<Rightarrow> address \<Rightarrow> bool"
  h_GetBalance :: "'h \<Rightarrow> address \<Rightarrow> hash"
  h_Call :: "CallKind \<Rightarrow> address \<Rightarrow> address \<Rightarrow> hash \<Rightarrow> byte list \<Rightarrow> uint64 \<Rightarrow> int \<Rightarrow> bool \<Rightarrow> hash
               \<Rightarrow> address \<Rightarrow> 'h \<Rightarrow> ((byte list \<times> uint64 \<times> address \<times> error option) \<times> 'h) option"

text \<open>
  The opcodes of the two handlers; the dispatch table, which is not part of the sources,
  builds \<open>opCall\<close> and \<open>opCreate\<close> for them. Any other opcode is \<open>OtherOp\<close>.
\<close>

datatype OpCode = CALL | CALLCODE | DELEGATECALL | STATICCALL | CREATE | CREATE2 | OtherOp byte

definition sha3WordGas :: uint64 where
  "sha3WordGas = 6"

definition inStaticCall :: "state \<Rightarrow> bool" where
  "inStaticCall c = Static c"

definition getBalance :: "'h host \<Rightarrow> 'h \<Rightarrow> address \<Rightarrow> int" where
  "getBalance H h addr = uint (h_GetBalance H h addr)"

text \<open>\<open>popAddr\<close>: the low 20 bytes of the magnitude, or the zero address for \<open>nil\<close>.\<close>

definition popAddr :: "state \<Rightarrow> (address \<times> bool) \<times> state" where
  "popAddr c =
    (case pop c of
       (None, c1) \<Rightarrow> ((0, False), c1)
     | (Some b, c1) \<Rightarrow> ((word_of_int \<bar>b\<bar>, True), c1))"

text \<open>\<open>peekAt n\<close> is \<open>stack[sp - n]\<close>; the index expression panics out of range.\<close>

definition peekAt :: "nat \<Rightarrow> state \<Rightarrow> int option" where
  "peekAt n c = (if 0 < n \<and> n \<le> length (stack c) then Some (stack c ! (n - 1)) else None)"

text \<open>\<open>opCodeToCallKind\<close> panics (\<open>None\<close>) for any other opcode.\<close>

definition opCodeToCallKind :: "OpCode \<Rightarrow> CallKind option" where
  "opCodeToCallKind op =
    (case op of
       CALL \<Rightarrow> Some Call
     | STATICCALL \<Rightarrow> Some Call
     | CALLCODE \<Rightarrow> Some CallCode
     | DELEGATECALL \<Rightarrow> Some DelegateCall
     | CREATE \<Rightarrow> Some Create
     | CREATE2 \<Rightarrow> Some Create2
     | OtherOp b \<Rightarrow> None)"

text \<open>
  \<open>checkMemory\<close> and \<open>get2\<close> on operands that \<open>pop\<close> returned: the size is dereferenced
  first, the offset only for a size that is not zero; a \<open>nil\<close> operand panics there.
\<close>

definition checkMemory_popped :: "int option \<Rightarrow> int option \<Rightarrow> state \<Rightarrow> (bool \<times> state) option" where
  "checkMemory_popped offset sz c =
    (case sz of
       None \<Rightarrow> None
     | Some s \<Rightarrow>
         if s = 0 then Some (True, c)
         else (case offset of None \<Rightarrow> None | Some off \<Rightarrow> Some (checkMemory off s c)))"

definition get2_popped ::
  "byte list \<Rightarrow> int option \<Rightarrow> int option \<Rightarrow> state \<Rightarrow> ((byte list \<times> bool) \<times> state) option" where
  "get2_popped dst offset len c =
    (case len of
       None \<Rightarrow> None
     | Some l \<Rightarrow>
         if l = 0 then Some (([], True), c)
         else (case offset of None \<Rightarrow> None | Some off \<Rightarrow> Some (get2 dst off l c)))"

text \<open>
  \<open>copy(memory[offset:offset+size], retValue)\<close>. The slice expression panics unless
  \<open>offset \<le> offset+size \<le> cap(memory)\<close>, with the sum taken in \<open>uint64\<close>, and \<open>copy\<close>
  writes as many bytes as both sides hold. The capacity of the backing array is the length
  of the memory and \<open>spare\<close> bytes more: the Go runtime chooses it when the memory grows and
  the pool of frames keeps it, so the frame does not determine it and it is an argument.
  Target bytes beyond the length of the memory lie in the spare part of the array and are
  not part of the memory; \<open>opCall\<close> writes none (see \<open>copy_to_memory_in_range\<close> below).
\<close>

definition copy_to_memory :: "nat \<Rightarrow> uint64 \<Rightarrow> uint64 \<Rightarrow> byte list \<Rightarrow> byte list \<Rightarrow> byte list option" where
  "copy_to_memory spare offset sz src mem =
    (let low = offset; high = offset + sz in
     if low \<le> high \<and> unat high \<le> length mem + spare
     then (let n = min (unat (high - low)) (length src)
           in Some (map (\<lambda>i. if unat low \<le> i \<and> i < unat low + n then src ! (i - unat low) else mem ! i)
                      [0..<length mem]))
     else None)"

text \<open>
  \<open>opCreate\<close>. A \<open>nil\<close> value counts as 0 (no transfer, zero value hash). The handler
  returns the frame and the host state.
\<close>

definition opCreate :: "'h host \<Rightarrow> OpCode \<Rightarrow> state \<Rightarrow> 'h \<Rightarrow> (state \<times> 'h) option" where
  "opCreate H op c0 h =
    (if inStaticCall c0 then Some (exit errWriteProtection c0, h)
     else if op = CREATE2 \<and> \<not> isRevision Constantinople c0 then Some (exit errOpCodeNotFound c0, h)
     else
       let c1 = resetReturnData c0;
           (val, c2) = pop c1;
           (offset, c3) = pop c2;
           (len, c4) = pop c3;
           (salt, c5) = (if op = CREATE2 then pop c4 else (None, c4));
           v = (case val of None \<Rightarrow> 0 | Some x \<Rightarrow> x);
           hasTransfer = (val \<noteq> None \<and> v \<noteq> 0)
       in case get2_popped [] offset len c5 of
            None \<Rightarrow> None
          | Some ((input, ok), c6) \<Rightarrow>
              if \<not> ok then Some (push1 0 c6, h)
              else if hasTransfer \<and> getBalance H h (Address c6) < v then Some (push1 0 c6, h)
              else
                let (ok2, c7) = (if op = CREATE2
                       then consumeGas (((Uint64 (case len of None \<Rightarrow> 0 | Some l \<Rightarrow> l) + 31) div 32) * sha3WordGas) c6
                       else (True, c6))
                in if \<not> ok2 then Some (push1 0 c7, h)
                   else
                     let g0 = gas c7;
                         g = (if isRevision TangerineWhistle c7 \<or> op = CREATE2 then g0 - g0 div 64 else g0);
                         (ok3, c8) = consumeGas g c7
                     in if \<not> ok3 then Some (push1 0 c8, h)
                        else if Depth c8 \<ge> 1024
                        then Some ((push1 0 c8)\<lparr>gas := gas c8 + g\<rparr>, h)
                        else
                          (case opCodeToCallKind op of
                             None \<Rightarrow> None
                           | Some callType \<Rightarrow>
                               if op = CREATE2 \<and> salt = None then None
                               else
                                 let saltHash = (if op = CREATE2
                                        then bigToHash (case salt of None \<Rightarrow> 0 | Some s \<Rightarrow> s) else 0);
                                     valueHash = bigToHash v
                                 in case h_Call H callType 0 (Address c8) valueHash input g (Depth c8 + 1)
                                           False saltHash 0 h of
                                      None \<Rightarrow> None
                                    | Some ((retValue, gasLeft, codeAddress, e), h') \<Rightarrow>
                                        let c9 = push1 (if e \<noteq> None then 0 else uint codeAddress) c8
                                        in Some (c9\<lparr>gas := gas c9 + gasLeft, returnData := retValue\<rparr>, h')))"

text \<open>
  \<open>opCall\<close>, for \<open>CALL\<close>, \<open>CALLCODE\<close>, \<open>DELEGATECALL\<close> and \<open>STATICCALL\<close>; \<open>spare\<close> is the
  spare capacity of the memory of the frame.
\<close>

definition opCall :: "'h host \<Rightarrow> nat \<Rightarrow> OpCode \<Rightarrow> state \<Rightarrow> 'h \<Rightarrow> (state \<times> 'h) option" where
  "opCall H spare op c0 h =
    (let c1 = resetReturnData c0 in
     case (if op = CALL \<and> inStaticCall c1 then peekAt 3 c1 else Some 0) of
       None \<Rightarrow> None
     | Some peeked \<Rightarrow>
         if op = CALL \<and> inStaticCall c1 \<and> peeked \<noteq> 0 then Some (exit errWriteProtection c1, h)
         else if op = DELEGATECALL \<and> \<not> isRevision Homestead c1 then Some (exit errOpCodeNotFound c1, h)
         else if op = STATICCALL \<and> \<not> isRevision Byzantium c1 then Some (exit errOpCodeNotFound c1, h)
         else
           (case opCodeToCallKind op of
              None \<Rightarrow> None
            | Some callType \<Rightarrow>
                let (initialGas, c2) = pop c1;
                    ((addr, known), c3) = popAddr c2;
                    (val, c4) = (if op = CALL \<or> op = CALLCODE then pop c3 else (None, c3));
                    (inOffset, c5) = pop c4;
                    (inSize, c6) = pop c5;
                    (retOffset, c7) = pop c6;
                    (retSize, c8) = pop c7
                in case get2_popped [] inOffset inSize c8 of
                     None \<Rightarrow> None
                   | Some ((args, ok), c9) \<Rightarrow>
                       if \<not> ok then Some (c9, h)
                       else
                         (case checkMemory_popped retOffset retSize c9 of
                            None \<Rightarrow> None
                          | Some (ok1, c10) \<Rightarrow>
                              if \<not> ok1 then Some (c10, h)
                              else
                                let gasCost0 = (if isRevision TangerineWhistle c10 then 700 else 40 :: uint64);
                                    v = (case val of None \<Rightarrow> 0 | Some x \<Rightarrow> x);
                                    transfersValue = ((op = CALL \<or> op = CALLCODE) \<and> val \<noteq> None \<and> v \<noteq> 0);
                                    gasCost1 = (if op = CALL \<and> (transfersValue \<or> st_rev c10 < SpuriousDragon)
                                                   \<and> \<not> h_AccountExists H h addr
                                                then gasCost0 + 25000 else gasCost0);
                                    gasCost2 = (if transfersValue then gasCost1 + 9000 else gasCost1)
                                in case initialGas of
                                     None \<Rightarrow> None
                                   | Some ig \<Rightarrow>
                                       if \<not> isRevision TangerineWhistle c10 \<and> \<not> IsUint64 ig
                                       then Some (exit errOutOfGas c10, h)
                                       else
                                         let g = (if isRevision TangerineWhistle c10 then
                                                    (let availableGas0 = gas c10 - gasCost2;
                                                         availableGas = availableGas0 - availableGas0 div 64
                                                     in if \<not> IsUint64 ig \<or> availableGas < Uint64 ig
                                                        then availableGas else Uint64 ig)
                                                  else Uint64 ig);
                                             gasCost = gasCost2 + g;
                                             (ok2, c11) = consumeGas gasCost c10
                                         in if \<not> ok2 then Some (c11, h)
                                            else
                                              let g' = (if transfersValue then g + 2300 else g);
                                                  caller = (if op = DELEGATECALL then Caller c11 else Address c11);
                                                  isStatic = (op = STATICCALL \<or> Static c11);
                                                  to = (if op = CALLCODE \<or> op = DELEGATECALL then Address c11 else addr);
                                                  codeAddress = addr;
                                                  val' = (if op = DELEGATECALL then Value c11 else val)
                                              in if transfersValue \<and> getBalance H h (Address c11) < v
                                                 then Some (push1 0 (c11\<lparr>gas := gas c11 + g'\<rparr>), h)
                                                 else
                                                   (case retOffset of
                                                      None \<Rightarrow> None
                                                    | Some ro \<Rightarrow>
                                                        let offset = Uint64 ro;
                                                            sz = Uint64 (case retSize of None \<Rightarrow> 0 | Some s \<Rightarrow> s)
                                                        in if Depth c11 \<ge> 1024
                                                           then Some ((push1 0 c11)\<lparr>gas := gas c11 + g'\<rparr>, h)
                                                           else
                                                             let valueHash = (case val' of None \<Rightarrow> 0 | Some x \<Rightarrow> bigToHash x)
                                                             in case h_Call H callType to caller valueHash args g'
                                                                       (Depth c11 + 1) isStatic 0 codeAddress h of
                                                                  None \<Rightarrow> None
                                                                | Some ((retValue, gasLeft, created, e), h') \<Rightarrow>
                                                                    let c12 = push1 (if e \<noteq> None then 0 else 1) c11
                                                                    in case (if retValue \<noteq> []
                                                                             then copy_to_memory spare offset sz retValue (memory c12)
                                                                             else Some (memory c12)) of
                                                                         None \<Rightarrow> None
                                                                       | Some mem \<Rightarrow>
                                                                           Some (c12\<lparr>memory := mem, gas := gas c12 + gasLeft,
                                                                                    returnData := retValue\<rparr>, h')))))"

subsection \<open>Example frame\<close>

text \<open>
  A host whose call handler panics whenever it is invoked, and a frame at depth 1024 on
  Istanbul with the given gas and the operands of a \<open>CALL\<close> on its stack, over one more
  word: gas 5000, address 0, value 0, empty input and output ranges.
\<close>

definition host_panic :: "unit host" where
  "host_panic =
    \<lparr>h_AccountExists = (\<lambda>h a. True), h_GetBalance = (\<lambda>h a. 0),
     h_Call = (\<lambda>k a b vh i g dd s sh ca x. None)\<rparr>"

definition frame_deep :: "uint64 \<Rightarrow> state" where
  "frame_deep g = frame0\<lparr>Depth := 1024, gas := g, stack := [5000, 0, 0, 0, 0, 0, 0, 9], st_rev := Istanbul\<rparr>"

section \<open>Properties\<close>

lemma bitlen_nat_le_iff: "bitlen_nat n \<le> k \<longleftrightarrow> n < 2 ^ k"
proof (induction n arbitrary: k rule: bitlen_nat.induct)
  case (1 n)
  show ?case
  proof (cases "n = 0")
    case True
    then show ?thesis by (simp add: bitlen_nat.simps)
  next
    case False
    show ?thesis
    proof (cases k)
      case 0
      with False show ?thesis by (simp add: bitlen_nat.simps [of n])
    next
      case (Suc j)
      have "bitlen_nat n \<le> Suc j \<longleftrightarrow> bitlen_nat (n div 2) \<le> j"
        using False by (simp add: bitlen_nat.simps [of n])
      also have "\<dots> \<longleftrightarrow> n div 2 < 2 ^ j"
        using 1 [OF False] by simp
      also have "\<dots> \<longleftrightarrow> n < 2 ^ Suc j"
        by auto
      finally show ?thesis using Suc by simp
    qed
  qed
qed

lemma BitLen_le_iff: "BitLen x \<le> k \<longleftrightarrow> \<bar>x\<bar> < 2 ^ k"
proof -
  have "BitLen x \<le> k \<longleftrightarrow> nat \<bar>x\<bar> < 2 ^ k"
    by (simp add: BitLen_def bitlen_nat_le_iff)
  also have "\<dots> \<longleftrightarrow> \<bar>x\<bar> < 2 ^ k"
    by (simp add: nat_less_iff)
  finally show ?thesis .
qed

lemma BitLen_gt_iff: "BitLen x > k \<longleftrightarrow> 2 ^ k \<le> \<bar>x\<bar>"
  using BitLen_le_iff [of x k] by auto

lemma and_tt256m1: "x AND tt256m1 = x mod 2 ^ 256"
proof -
  have "tt256m1 = mask 256"
    by (simp add: tt256m1_def tt256_def mask_eq_exp_minus_1)
  then have "x AND tt256m1 = take_bit 256 x"
    by (simp only: take_bit_eq_mask)
  then show ?thesis
    by (simp only: take_bit_eq_mod)
qed

text \<open>
  C9. For every signed integer \<open>x\<close> with \<open>-2^255 \<le> x < 2^255\<close>, converting to the unsigned
  256-bit form with \<open>toU256\<close> and back with \<open>to256\<close> gives \<open>x\<close> again.
\<close>

theorem to256_toU256_roundtrip:
  assumes "- (2 ^ 255) \<le> x" and "x < 2 ^ 255"
  shows "to256 (toU256 x) = x"
proof (cases "x < 0")
  case False
  then have "\<bar>x\<bar> < 2 ^ 255" using assms by simp
  then have le: "BitLen x \<le> 255" by (simp add: BitLen_le_iff)
  then have "toU256 x = x" using False by (simp add: toU256_def)
  then show ?thesis using le by (simp add: to256_def)
next
  case True
  have u: "toU256 x = x mod 2 ^ 256"
    using True by (simp add: toU256_def and_tt256m1)
  have m: "x mod 2 ^ 256 = x + 2 ^ 256"
  proof -
    have "0 \<le> x + 2 ^ 256" "x + 2 ^ 256 < 2 ^ 256" using assms True by simp_all
    then have "(x + 2 ^ 256) mod 2 ^ 256 = x + 2 ^ 256" by (rule mod_pos_pos_trivial)
    then show ?thesis by simp
  qed
  have t: "tt256 = 2 ^ 256" by (simp add: tt256_def)
  have "2 ^ 255 \<le> \<bar>x + 2 ^ 256\<bar>" using assms by simp
  then have "BitLen (x + 2 ^ 256) > 255" by (simp only: BitLen_gt_iff)
  then have "to256 (x + 2 ^ 256) = x + 2 ^ 256 - tt256" by (simp only: to256_def if_True)
  then show ?thesis by (simp only: u m t add_diff_cancel_right')
qed

theorem to256_toU256_roundtrip_witness:
  "- (2 ^ 255) \<le> (-5::int) \<and> (-5::int) < 2 ^ 255 \<and> to256 (toU256 (-5)) = -5"
  using to256_toU256_roundtrip [of "-5"] by simp

subsection \<open>SIGNEXTEND\<close>

lemma signext_bit_index:
  assumes "0 \<le> ext" "ext \<le> 32"
  shows "unat (Uint64 ext * 8 + 7) = nat (ext * 8 + 7)"
proof -
  define n where "n = nat ext"
  have n: "ext = int n" using assms(1) by (simp add: n_def)
  have le: "n \<le> 32" using assms(2) n by simp
  have "Uint64 ext = of_nat n" by (simp add: Uint64_def n)
  then have "Uint64 ext * 8 + 7 = (of_nat (n * 8 + 7) :: uint64)" by simp
  moreover have "unat (of_nat (n * 8 + 7) :: uint64) = n * 8 + 7"
    by (rule of_nat_inverse [OF refl]) (use le in simp)
  moreover have "nat (ext * 8 + 7) = n * 8 + 7" by (simp add: n nat_add_distrib nat_mult_distrib)
  ultimately show ?thesis by (simp only:)
qed

lemma toU256_neg: "y < 0 \<Longrightarrow> toU256 y = take_bit 256 y"
  by (simp add: toU256_def and_tt256m1 take_bit_eq_mod)

lemma toU256_small: "0 \<le> y \<Longrightarrow> y < 2 ^ 256 \<Longrightarrow> toU256 y = y"
proof -
  assume a: "0 \<le> y" "y < 2 ^ 256"
  then have "\<bar>y\<bar> < 2 ^ 256" by simp
  then have "BitLen y \<le> 256" by (simp only: BitLen_le_iff)
  then show ?thesis using a by (simp add: toU256_def)
qed

lemma signext_value:
  fixes b :: nat
  assumes x: "0 \<le> x" "x < 2 ^ 256"
  defines "r \<equiv> toU256 (if bit x b then x OR (NOT (mask b)) else x AND mask b)"
  shows "0 \<le> r \<and> r < 2 ^ 256 \<and> (\<forall>i<256. bit r i = bit x (min i b))"
proof (cases "bit x b")
  case True
  have neg: "x OR NOT (mask b) < 0" by simp
  have r: "r = take_bit 256 (x OR NOT (mask b))"
    using True neg by (simp only: r_def if_True toU256_neg)
  have "\<forall>i<256. bit r i = bit x (min i b)"
    using True by (auto simp add: r bit_simps min_def)
  moreover have "0 \<le> r" "r < 2 ^ 256" by (simp_all only: r take_bit_nonnegative take_bit_int_less_exp)
  ultimately show ?thesis by blast
next
  case False
  have nn: "0 \<le> x AND mask b" using x by simp
  have "x AND mask b \<le> x" using x by simp
  then have lt: "x AND mask b < 2 ^ 256" using x by linarith
  have r: "r = x AND mask b"
    using False toU256_small [OF nn lt] by (simp only: r_def if_False)
  have "\<forall>i<256. bit r i = bit x (min i b)"
    using False by (auto simp add: r bit_simps min_def intro: le_neq_implies_less)
  then show ?thesis using nn lt r by blast
qed

lemma signext_32:
  fixes b :: nat
  assumes x: "0 \<le> x" "x < 2 ^ 256" and b: "256 \<le> b"
  shows "toU256 (if bit x b then x OR (NOT (mask b)) else x AND mask b) = x"
proof -
  have "(2::int) ^ 256 \<le> 2 ^ b" using b by (intro power_increasing) auto
  then have xb: "x < 2 ^ b" using x by linarith
  have tb: "take_bit b x = x"
    using x xb by (simp only: take_bit_int_eq_self)
  have "bit (take_bit b x) b = False" by (simp add: bit_take_bit_iff)
  then have nb: "\<not> bit x b" by (simp add: tb)
  have "x AND mask b = x" using tb by (simp only: take_bit_eq_mask)
  then show ?thesis using nb toU256_small [OF x] by simp
qed

lemma opSignExtension_eval:
  assumes st: "stack c = ext # x # rest" and le: "ext \<le> 32"
  shows "opSignExtension c = Some (c\<lparr>stack :=
     toU256 (if bit x (unat (Uint64 ext * 8 + 7)) then x OR (NOT (mask (unat (Uint64 ext * 8 + 7))))
             else x AND mask (unat (Uint64 ext * 8 + 7))) # rest\<rparr>)"
proof -
  have p: "pop c = (Some ext, c\<lparr>stack := x # rest\<rparr>)" using st by (simp add: pop_def)
  have t: "stack_top (c\<lparr>stack := x # rest\<rparr>) = Some x" by (simp add: stack_top_def)
  have s: "\<And>v. set_top v (c\<lparr>stack := x # rest\<rparr>) = c\<lparr>stack := v # rest\<rparr>" by (simp add: set_top_def)
  show ?thesis
    using le by (simp add: opSignExtension_def p t s wordSize_def Let_def mask_eq_exp_minus_1)
qed

text \<open>
  C7. \<open>SIGNEXTEND\<close> pops \<open>ext\<close> and replaces the operand \<open>x\<close> below it by a word \<open>r\<close>.
  For \<open>ext \<le> 31\<close> the word \<open>r\<close> is \<open>x\<close> sign-extended from bit \<open>8 * ext + 7\<close>: every bit up
  to that position is the bit of \<open>x\<close>, and every higher bit (below 256) is a copy of bit
  \<open>8 * ext + 7\<close> of \<open>x\<close>. For \<open>ext > 31\<close> the operand is unchanged. Stack operands are
  256-bit words, \<open>0 \<le> ext\<close> and \<open>0 \<le> x < 2^256\<close>.
\<close>

theorem opSignExtension_sign_extends:
  assumes st: "stack c = ext # x # rest" and ext: "0 \<le> ext" and x: "0 \<le> x" "x < 2 ^ 256"
  shows "\<exists>r. opSignExtension c = Some (c\<lparr>stack := r # rest\<rparr>) \<and> 0 \<le> r \<and> r < 2 ^ 256 \<and>
     (ext \<le> 31 \<longrightarrow> (\<forall>i<256. bit r i = bit x (min i (nat (8 * ext + 7))))) \<and>
     (31 < ext \<longrightarrow> r = x)"
proof -
  consider "32 < ext" | "ext = 32" | "ext \<le> 31" by linarith
  then show ?thesis
  proof cases
    case 1
    have p: "pop c = (Some ext, c\<lparr>stack := x # rest\<rparr>)" using st by (simp add: pop_def)
    have "opSignExtension c = Some (c\<lparr>stack := x # rest\<rparr>)"
      using 1 by (simp add: opSignExtension_def p wordSize_def)
    then show ?thesis using 1 x by auto
  next
    case 2
    have b: "unat (Uint64 ext * 8 + 7) = 263" using signext_bit_index [of ext] 2 by simp
    have "opSignExtension c = Some (c\<lparr>stack := x # rest\<rparr>)"
      using opSignExtension_eval [OF st, unfolded b] 2
      by (simp only: signext_32 [OF x, of 263] if_True le_refl)
    then show ?thesis using 2 x by auto
  next
    case 3
    define b where "b = nat (8 * ext + 7)"
    have b: "unat (Uint64 ext * 8 + 7) = b"
      using signext_bit_index [of ext] 3 ext by (simp add: b_def mult.commute)
    define r where "r = toU256 (if bit x b then x OR (NOT (mask b)) else x AND mask b)"
    have "opSignExtension c = Some (c\<lparr>stack := r # rest\<rparr>)"
      using 3 opSignExtension_eval [OF st, unfolded b] by (simp add: r_def)
    moreover have "0 \<le> r \<and> r < 2 ^ 256 \<and> (\<forall>i<256. bit r i = bit x (min i b))"
      unfolding r_def using x by (rule signext_value)
    ultimately show ?thesis using 3 by (auto simp add: b_def)
  qed
qed

theorem opSignExtension_sign_extends_witness:
  "stack (frame0\<lparr>stack := [0, 255]\<rparr>) = [0, 255] \<and> (0::int) \<le> 0 \<and> (0::int) \<le> 255 \<and>
   (255::int) < 2 ^ 256 \<and>
   (\<exists>r. opSignExtension (frame0\<lparr>stack := [0, 255]\<rparr>) = Some (frame0\<lparr>stack := [r]\<rparr>) \<and>
        bit r 7 \<and> bit r 8 \<and> bit r 255 \<and> r < 2 ^ 256)"
proof -
  have b: "bit (255::int) 7" by (simp add: bit_iff_odd)
  obtain r where r: "opSignExtension (frame0\<lparr>stack := [0, 255]\<rparr>) = Some (frame0\<lparr>stack := [r]\<rparr>)"
    "r < 2 ^ 256" "\<forall>i<256. bit r i = bit (255::int) (min i (nat (8 * 0 + 7)))"
    using opSignExtension_sign_extends [of "frame0\<lparr>stack := [0, 255]\<rparr>" 0 255 "[]"] by auto
  have "bit r 7" "bit r 8" "bit r 255" using r(3) b by simp_all
  then show ?thesis using r(1,2) by auto
qed

subsection \<open>Memory expansion\<close>

lemma w64_uint: "0 \<le> k \<Longrightarrow> k < 2 ^ 64 \<Longrightarrow> uint (word_of_int k :: uint64) = k"
  by (simp add: uint_word_of_int take_bit_eq_mod)

lemma w64_less:
  assumes "0 \<le> a" "a < 2 ^ 64" "0 \<le> b" "b < 2 ^ 64"
  shows "((word_of_int a :: uint64) < word_of_int b) = (a < b)"
  using assms by (simp add: word_less_def w64_uint)

lemma w64_div:
  assumes "0 \<le> a" "a < 2 ^ 64" "0 \<le> b" "b < 2 ^ 64"
  shows "(word_of_int a :: uint64) div word_of_int b = word_of_int (a div b)"
proof -
  have "uint ((word_of_int a :: uint64) div word_of_int b) = a div b"
    using assms by (simp add: uint_div w64_uint)
  then show ?thesis by (metis word_of_int_uint)
qed

lemma Uint64_nonneg: "0 \<le> x \<Longrightarrow> Uint64 x = word_of_int x"
  by (simp add: Uint64_def)


lemma exit_exit: "exit e (exit e c) = exit e c"
  by (simp add: exit_def)

lemma checkMemory_in_range:
  assumes sz: "0 < sz" "sz \<le> 1099511627744" and off: "0 \<le> offset" "offset \<le> 1099511627744"
    and len: "length (memory c) < 2 ^ 63"
  defines "n \<equiv> (offset + sz + 31) div 32"
  defines "newCost \<equiv> 3 * (word_of_int n :: uint64) + word_of_int n * word_of_int n div 512"
  shows "checkMemory offset sz c =
    (if int (length (memory c)) < offset + sz then
       (if gas c < newCost - lastGasCost c then (False, exit errOutOfGas (c\<lparr>lastGasCost := newCost\<rparr>))
        else (True, c\<lparr>lastGasCost := newCost, gas := gas c - (newCost - lastGasCost c),
                memory := extendByteSlice (memory c) (nat (32 * n))\<rparr>))
     else (True, c))"
proof -
  have u: "IsUint64 offset" "IsUint64 sz" using sz off by (simp_all add: IsUint64_def)
  have o: "Uint64 offset = word_of_int offset" and s: "Uint64 sz = word_of_int sz"
    using sz off by (simp_all add: Uint64_nonneg)
  have uo: "uint (word_of_int offset :: uint64) = offset" using off by (intro w64_uint) auto
  have us: "uint (word_of_int sz :: uint64) = sz" using sz by (intro w64_uint) auto
  have lim: "\<not> (word_of_int offset :: uint64) > 1099511627744" "\<not> (word_of_int sz :: uint64) > 1099511627744"
    using sz off by (simp_all add: word_less_def uo us)
  have sum: "(word_of_int offset :: uint64) + word_of_int sz = word_of_int (offset + sz)" by simp
  have m: "(of_nat (length (memory c)) :: uint64) = word_of_int (int (length (memory c)))" by simp
  have lenb: "int (length (memory c)) < 2 ^ 64"
  proof -
    have "int (length (memory c)) < int (2 ^ 63)" using len by (simp only: of_nat_less_iff)
    then show ?thesis by simp
  qed
  have cmp: "((of_nat (length (memory c)) :: uint64) < word_of_int (offset + sz))
      = (int (length (memory c)) < offset + sz)"
    unfolding m using sz off lenb by (intro w64_less) auto
  have w: "((word_of_int (offset + sz) :: uint64) + 31) div 32 = word_of_int n"
  proof -
    have "(word_of_int (offset + sz) :: uint64) + 31 = word_of_int (offset + sz + 31)" by simp
    moreover have "(32 :: uint64) = word_of_int 32" by simp
    moreover have "(word_of_int (offset + sz + 31) :: uint64) div word_of_int 32 = word_of_int ((offset + sz + 31) div 32)"
      using sz off by (intro w64_div) auto
    ultimately show ?thesis by (simp only: n_def)
  qed
  have nb: "0 \<le> n" "n * 32 < 2 ^ 64" using sz off by (auto simp add: n_def)
  have w32: "unat ((word_of_int n :: uint64) * 32) = nat (32 * n)"
  proof -
    have "(word_of_int n :: uint64) * 32 = word_of_int (n * 32)" by simp
    moreover have "uint (word_of_int (n * 32) :: uint64) = n * 32" using nb by (intro w64_uint) auto
    ultimately show ?thesis by (simp add: unat_eq_nat_uint mult.commute)
  qed
  show ?thesis
    unfolding checkMemory_def
    using sz(1) u lim
    apply (simp only: Let_def o s sum cmp w w32 newCost_def [symmetric])
    apply (simp add: consumeGas_def exit_def)
    done
qed


lemma checkMemory_zero: "checkMemory offset 0 c = (True, c)"
  by (simp add: checkMemory_def)

lemma checkMemory_overflow:
  assumes "sz \<noteq> 0" and "offset < 0 \<or> 1099511627744 < offset \<or> sz < 0 \<or> 1099511627744 < sz"
  shows "checkMemory offset sz c = (False, exit errGasUintOverflow c)"
proof (cases "IsUint64 offset \<and> IsUint64 sz")
  case False
  then show ?thesis using assms(1) by (auto simp add: checkMemory_def)
next
  case True
  then have r: "0 \<le> offset" "offset < 2 ^ 64" "0 \<le> sz" "sz < 2 ^ 64"
    by (simp_all add: IsUint64_def)
  have uo: "uint (Uint64 offset) = offset" using r by (simp only: Uint64_nonneg w64_uint)
  have us: "uint (Uint64 sz) = sz" using r by (simp only: Uint64_nonneg w64_uint)
  have "Uint64 offset > 1099511627744 \<or> Uint64 sz > 1099511627744"
    using assms(2) r by (simp add: word_less_def uo us)
  then show ?thesis using assms(1) True by (auto simp add: checkMemory_def Let_def)
qed

lemma memory_cost_word:
  assumes "0 \<le> n" "n < 2 ^ 32"
  shows "3 * (word_of_int n :: uint64) + word_of_int n * word_of_int n div 512
     = word_of_int (3 * n + n * n div 512)"
proof -
  have "n * n < 2 ^ 32 * 2 ^ 32" using assms by (intro mult_strict_mono) auto
  then have nn: "n * n < 2 ^ 64" by simp
  have "(word_of_int n :: uint64) * word_of_int n = word_of_int (n * n)" by simp
  moreover have "(512 :: uint64) = word_of_int 512" by simp
  moreover have "(word_of_int (n * n) :: uint64) div word_of_int 512 = word_of_int (n * n div 512)"
    using assms nn by (intro w64_div) auto
  ultimately have "word_of_int n * word_of_int n div (512 :: uint64) = word_of_int (n * n div 512)"
    by (simp only:)
  then show ?thesis by simp
qed

lemma memory_cost_bound:
  fixes n :: int
  assumes "0 \<le> n" "n < 2 ^ 32"
  shows "0 \<le> 3 * n + n * n div 512" "3 * n + n * n div 512 < 2 ^ 64"
proof -
  have "n * n < 2 ^ 32 * 2 ^ 32" using assms by (intro mult_strict_mono) auto
  then have nn: "n * n < 2 ^ 64" by simp
  show "0 \<le> 3 * n + n * n div 512" using assms by (simp add: pos_imp_zdiv_nonneg_iff)
  have "n * n div 512 < 2 ^ 55" using nn by simp
  then show "3 * n + n * n div 512 < 2 ^ 64" using assms by simp
qed

lemma extendByteSlice_grow:
  "length b \<le> k \<Longrightarrow> extendByteSlice b k = b @ replicate (k - length b) 0"
  by (simp add: extendByteSlice_def)

lemma word_sub_exact:
  assumes "0 \<le> k" "k < 2 ^ 64" "uint (l :: uint64) \<le> k"
  shows "uint (word_of_int k - l) = k - uint l"
proof -
  have "word_of_int k - l = (word_of_int (k - uint l) :: uint64)" by simp
  moreover have "0 \<le> uint l" by simp
  then have "0 \<le> k - uint l" "k - uint l < 2 ^ 64" using assms by linarith+
  ultimately show ?thesis by (simp only: w64_uint)
qed

text \<open>
  C6 (as amended). Let \<open>L = 0xffffffffe0\<close> and let the memory be a Go slice (shorter than
  \<open>2^63\<close> bytes).
  \<^item> A size-zero access returns at once, whatever the offset: nothing is charged, the
    memory is unchanged and the frame does not halt.
  \<^item> An access of non-zero size whose offset or size is negative or exceeds \<open>L\<close> halts the
    frame with the gas overflow error.
  \<^item> An access of non-zero size within the limits that ends inside the current memory
    charges nothing and leaves the frame unchanged.
  \<^item> An access of non-zero size within the limits that ends beyond the current memory,
    with \<open>n = \<lceil>(offset + size) / 32\<rceil> < 2^32\<close> words: the new cost is \<open>3 n + n\<^sup>2 div 512\<close>, the
    charge is the new cost minus \<open>lastGasCost\<close> (in \<open>uint64\<close>; the exact difference when the
    previous cost is not larger), and \<open>lastGasCost\<close> becomes the new cost. If the remaining
    gas is below the charge the frame halts with out of gas and the memory is not grown;
    otherwise the charge is deducted and the memory grows to \<open>32 n\<close> bytes, zero filled.
\<close>

theorem checkMemory_charges:
  assumes len: "length (memory c) < 2 ^ 63"
  shows
   "(sz = 0 \<longrightarrow> checkMemory offset sz c = (True, c)) \<and>
    (sz \<noteq> 0 \<and> (offset < 0 \<or> 1099511627744 < offset \<or> sz < 0 \<or> 1099511627744 < sz) \<longrightarrow>
       checkMemory offset sz c = (False, exit errGasUintOverflow c)) \<and>
    (0 < sz \<and> sz \<le> 1099511627744 \<and> 0 \<le> offset \<and> offset \<le> 1099511627744 \<and>
     offset + sz \<le> int (length (memory c)) \<longrightarrow>
       checkMemory offset sz c = (True, c)) \<and>
    (0 < sz \<and> sz \<le> 1099511627744 \<and> 0 \<le> offset \<and> offset \<le> 1099511627744 \<and>
     int (length (memory c)) < offset + sz \<and> (offset + sz + 31) div 32 < 2 ^ 32 \<longrightarrow>
       (let n = (offset + sz + 31) div 32;
            newCost = (word_of_int (3 * n + n * n div 512) :: uint64);
            cost = newCost - lastGasCost c
        in checkMemory offset sz c =
             (if gas c < cost then (False, exit errOutOfGas (c\<lparr>lastGasCost := newCost\<rparr>))
              else (True, c\<lparr>lastGasCost := newCost, gas := gas c - cost,
                      memory := memory c @ replicate (nat (32 * n) - length (memory c)) 0\<rparr>)) \<and>
           (uint (lastGasCost c) \<le> 3 * n + n * n div 512 \<longrightarrow>
              uint cost = 3 * n + n * n div 512 - uint (lastGasCost c))))"
proof (intro conjI impI)
  assume "sz = 0"
  then show "checkMemory offset sz c = (True, c)" by (simp add: checkMemory_zero)
next
  assume "sz \<noteq> 0 \<and> (offset < 0 \<or> 1099511627744 < offset \<or> sz < 0 \<or> 1099511627744 < sz)"
  then show "checkMemory offset sz c = (False, exit errGasUintOverflow c)"
    by (intro checkMemory_overflow) auto
next
  assume a: "0 < sz \<and> sz \<le> 1099511627744 \<and> 0 \<le> offset \<and> offset \<le> 1099511627744 \<and>
     offset + sz \<le> int (length (memory c))"
  then show "checkMemory offset sz c = (True, c)"
    using checkMemory_in_range [of sz offset c] len by simp
next
  assume a: "0 < sz \<and> sz \<le> 1099511627744 \<and> 0 \<le> offset \<and> offset \<le> 1099511627744 \<and>
     int (length (memory c)) < offset + sz \<and> (offset + sz + 31) div 32 < 2 ^ 32"
  define n where "n = (offset + sz + 31) div 32"
  have n: "0 \<le> n" "n < 2 ^ 32" using a by (simp_all add: n_def pos_imp_zdiv_nonneg_iff)
  have grow: "length (memory c) \<le> nat (32 * n)"
  proof -
    have "offset + sz \<le> 32 * n" unfolding n_def by presburger
    then show ?thesis using a by linarith
  qed
  have e: "checkMemory offset sz c =
       (if gas c < word_of_int (3 * n + n * n div 512) - lastGasCost c
        then (False, exit errOutOfGas (c\<lparr>lastGasCost := word_of_int (3 * n + n * n div 512)\<rparr>))
        else (True, c\<lparr>lastGasCost := word_of_int (3 * n + n * n div 512),
                gas := gas c - (word_of_int (3 * n + n * n div 512) - lastGasCost c),
                memory := memory c @ replicate (nat (32 * n) - length (memory c)) 0\<rparr>))"
    using checkMemory_in_range [of sz offset c] len a
    by (simp only: n_def [symmetric] memory_cost_word [OF n] extendByteSlice_grow [OF grow] if_True)
  have s: "uint (lastGasCost c) \<le> 3 * n + n * n div 512 \<longrightarrow>
      uint (word_of_int (3 * n + n * n div 512) - lastGasCost c) = 3 * n + n * n div 512 - uint (lastGasCost c)"
  proof
    assume h: "uint (lastGasCost c) \<le> 3 * n + n * n div 512"
    show "uint (word_of_int (3 * n + n * n div 512) - lastGasCost c) = 3 * n + n * n div 512 - uint (lastGasCost c)"
      by (rule word_sub_exact [OF memory_cost_bound [OF n] h])
  qed
  show "let n = (offset + sz + 31) div 32;
            newCost = (word_of_int (3 * n + n * n div 512) :: uint64);
            cost = newCost - lastGasCost c
        in checkMemory offset sz c =
             (if gas c < cost then (False, exit errOutOfGas (c\<lparr>lastGasCost := newCost\<rparr>))
              else (True, c\<lparr>lastGasCost := newCost, gas := gas c - cost,
                      memory := memory c @ replicate (nat (32 * n) - length (memory c)) 0\<rparr>)) \<and>
           (uint (lastGasCost c) \<le> 3 * n + n * n div 512 \<longrightarrow>
              uint cost = 3 * n + n * n div 512 - uint (lastGasCost c))"
    unfolding Let_def n_def [symmetric] using e s by (rule conjI)
qed


theorem checkMemory_charges_witness:
  "length (memory (frame0\<lparr>gas := 100\<rparr>)) < 2 ^ 63 \<and>
   checkMemory 0 1 (frame0\<lparr>gas := 100\<rparr>) =
     (True, frame0\<lparr>lastGasCost := 3, gas := 97, memory := replicate 32 0\<rparr>)"
  using checkMemory_charges [of "frame0\<lparr>gas := 100\<rparr>" 1 0]
  by (simp add: frame0_def Let_def)

text \<open>
  The claim as first stated fails in two places: a size-zero access at an offset above the
  limit does not halt the frame, and an access of non-zero size inside a memory of 64
  bytes (paid cost 6) neither moves the memory to the next word boundary above the access
  (32 bytes) nor charges \<open>3 + 0 - 6\<close>: it changes nothing.
\<close>

theorem checkMemory_counterexample:
  "checkMemory 1099511627745 0 frame0 = (True, frame0) \<and> err frame0 = None \<and>
   checkMemory 0 1 (frame0\<lparr>memory := replicate 64 0, lastGasCost := 6, gas := 100\<rparr>) =
     (True, frame0\<lparr>memory := replicate 64 0, lastGasCost := 6, gas := 100\<rparr>)"
  by (simp add: checkMemory_def IsUint64_def Uint64_def Let_def frame0_def)

subsection \<open>Precompile dispatch\<close>

lemma Identity_gas_deadbeef: "pc_Gas Identity [0xde, 0xad, 0xbe, 0xef] r = 18"
  by (simp add: Identity_def baseGasCalc_def)

lemma pc4: "precompiledContracts K addr4 = Some Identity"
  by (simp add: precompiledContracts_def addr1_def addr2_def addr3_def addr4_def addr5_def addr6_def addr7_def addr8_def addr9_def)

text \<open>
  C8. For every precompile invocation \<open>(addr, input, gas budget, revision)\<close> of a contract
  of the table: if the budget is below the contract's gas function the dispatcher fails
  with the error "out of gas" (no output, no gas left); otherwise it runs the contract,
  and a successful run returns the output with the budget minus the cost and no error (a
  failed run returns its error and no gas). The identity contract at address 4 costs
  \<open>15 + 3 * \<lceil>4 / 32\<rceil> = 18\<close> on the input \<open>0xdeadbeef\<close>: a budget of 18 returns the input with 0
  gas left, a budget of 17 fails with "out of gas".
\<close>

theorem runPrecompiled_dispatch:
  "(\<forall>ct. precompiledContracts K a = Some ct \<longrightarrow>
      (g < pc_Gas ct input r \<longrightarrow> runPrecompiled K a input g r = Some ([], 0, Some (errNew ''out of gas''))) \<and>
      (\<not> g < pc_Gas ct input r \<longrightarrow>
         (\<forall>out. pc_Run ct input = Inr out \<longrightarrow>
            runPrecompiled K a input g r = Some (out, g - pc_Gas ct input r, None) \<and>
            unat (g - pc_Gas ct input r) = unat g - unat (pc_Gas ct input r)) \<and>
         (\<forall>e. pc_Run ct input = Inl e \<longrightarrow> runPrecompiled K a input g r = Some ([], 0, Some e)))) \<and>
   precompiledContracts K addr4 = Some Identity \<and>
   pc_Gas Identity [0xde, 0xad, 0xbe, 0xef] r = 18 \<and>
   runPrecompiled K addr4 [0xde, 0xad, 0xbe, 0xef] 18 r = Some ([0xde, 0xad, 0xbe, 0xef], 0, None) \<and>
   runPrecompiled K addr4 [0xde, 0xad, 0xbe, 0xef] 17 r = Some ([], 0, Some (errNew ''out of gas''))"
proof -
  have gen: "\<And>ct. precompiledContracts K a = Some ct \<Longrightarrow>
      (g < pc_Gas ct input r \<longrightarrow> runPrecompiled K a input g r = Some ([], 0, Some (errNew ''out of gas''))) \<and>
      (\<not> g < pc_Gas ct input r \<longrightarrow>
         (\<forall>out. pc_Run ct input = Inr out \<longrightarrow>
            runPrecompiled K a input g r = Some (out, g - pc_Gas ct input r, None) \<and>
            unat (g - pc_Gas ct input r) = unat g - unat (pc_Gas ct input r)) \<and>
         (\<forall>e. pc_Run ct input = Inl e \<longrightarrow> runPrecompiled K a input g r = Some ([], 0, Some e)))"
    by (auto simp add: runPrecompiled_def Let_def unat_sub not_less)
  have i18: "runPrecompiled K addr4 [0xde, 0xad, 0xbe, 0xef] 18 r = Some ([0xde, 0xad, 0xbe, 0xef], 0, None)"
    by (simp add: runPrecompiled_def pc4 Identity_gas_deadbeef) (simp add: Identity_def)
  have i17: "runPrecompiled K addr4 [0xde, 0xad, 0xbe, 0xef] 17 r = Some ([], 0, Some (errNew ''out of gas''))"
    by (simp add: runPrecompiled_def pc4 Identity_gas_deadbeef)
  show ?thesis using gen pc4 Identity_gas_deadbeef i18 i17 by blast
qed

theorem runPrecompiled_dispatch_witness:
  "precompiledContracts kernels0 addr4 = Some Identity \<and>
   \<not> 20 < pc_Gas Identity [1, 2, 3] Istanbul \<and>
   pc_Run Identity [1, 2, 3] = Inr [1, 2, 3] \<and>
   runPrecompiled kernels0 addr4 [1, 2, 3] 20 Istanbul = Some ([1, 2, 3], 2, None)"
proof -
  have g: "pc_Gas Identity [1, 2, 3] Istanbul = 18" by (simp add: Identity_def baseGasCalc_def)
  have r: "pc_Run Identity [1, 2, 3] = Inr [1, 2, 3]" by (simp add: Identity_def)
  show ?thesis
    using runPrecompiled_dispatch [of kernels0 addr4 20 "[1, 2, 3]" Istanbul] g r by simp
qed

subsection \<open>Storage writes\<close>

lemma getStateObject_not_Deleted:
  "getStateObject txn addr = Some obj \<Longrightarrow> \<not> obj_Deleted obj"
  by (auto simp add: getStateObject_def stateObject_Copy_def split: option.splits if_splits sum.splits)

lemma upsertAccount_fields [simp]:
  "txn_snapshot (upsertAccount addr create f txn) = txn_snapshot txn"
  "txn_snapshots (upsertAccount addr create f txn) = txn_snapshots txn"
  "txn_rev (upsertAccount addr create f txn) = txn_rev txn"
  "logs_entry (txn_txn (upsertAccount addr create f txn)) = logs_entry (txn_txn txn)"
  "refund_entry (txn_txn (upsertAccount addr create f txn)) = refund_entry (txn_txn txn)"
  by (simp_all add: upsertAccount_def Let_def split: option.splits)

lemma GetRefund_upsertAccount [simp]:
  "GetRefund (upsertAccount addr create f txn) = GetRefund txn"
  by (simp add: GetRefund_def)

lemma GetRefund_AddRefund [simp]: "GetRefund (AddRefund g txn) = GetRefund txn + g"
  by (simp add: GetRefund_def AddRefund_def)

lemma GetRefund_SubRefund [simp]: "GetRefund (SubRefund g txn) = GetRefund txn - g"
  by (simp add: GetRefund_def SubRefund_def)

lemma getStateObject_AddRefund [simp]:
  "getStateObject (AddRefund g txn) addr = getStateObject txn addr"
  by (simp add: getStateObject_def AddRefund_def split: option.splits)

lemma getStateObject_SubRefund [simp]:
  "getStateObject (SubRefund g txn) addr = getStateObject txn addr"
  by (simp add: getStateObject_def SubRefund_def split: option.splits)

lemma txn_snapshot_Refund [simp]:
  "txn_snapshot (AddRefund g txn) = txn_snapshot txn"
  "txn_snapshot (SubRefund g txn) = txn_snapshot txn"
  by (simp_all add: AddRefund_def SubRefund_def)

lemma GetState_AddRefund [simp]: "GetState (AddRefund g txn) addr key = GetState txn addr key"
  by (simp add: GetState_def cong: option.case_cong)

lemma GetState_SubRefund [simp]: "GetState (SubRefund g txn) addr key = GetState txn addr key"
  by (simp add: GetState_def cong: option.case_cong)

lemma Txn_isRevision_SetState [simp]:
  "Txn_isRevision r (SetState addr key val txn) = Txn_isRevision r txn"
  by (simp add: Txn_isRevision_def SetState_def)

lemma GetRefund_SetState [simp]: "GetRefund (SetState addr key val txn) = GetRefund txn"
  by (simp add: SetState_def)

lemma getStateObject_upsert_same:
  assumes "\<And>ob. \<not> obj_Deleted ob \<Longrightarrow> \<not> obj_Deleted (g ob)"
  shows "getStateObject (upsertAccount addr True (map_option g) txn) addr =
     Some (stateObject_Copy (g (case getStateObject txn addr of None \<Rightarrow> newStateObject | Some obj \<Rightarrow> obj)))"
proof (cases "getStateObject txn addr")
  case None
  have "\<not> obj_Deleted (g newStateObject)" by (rule assms) (simp add: newStateObject_def)
  then show ?thesis using None by (simp add: upsertAccount_def getStateObject_def)
next
  case (Some obj)
  then have "\<not> obj_Deleted (g obj)" by (intro assms getStateObject_not_Deleted)
  then show ?thesis using Some by (simp add: upsertAccount_def) (simp add: getStateObject_def)
qed

lemma GetState_SetState_same: "GetState (SetState addr key val txn) addr key = val"
proof -
  have d: "\<And>ob. \<not> obj_Deleted ob \<Longrightarrow> \<not> obj_Deleted (storage_Insert key val ob)"
    by (simp add: storage_Insert_def Let_def)
  have g: "getStateObject (SetState addr key val txn) addr =
     Some (stateObject_Copy (storage_Insert key val
       (case getStateObject txn addr of None \<Rightarrow> newStateObject | Some obj \<Rightarrow> obj)))"
    unfolding SetState_def by (rule getStateObject_upsert_same [OF d])
  show ?thesis
    by (simp add: GetState_def g stateObject_Copy_def storage_Insert_def Let_def zeroHash_def)
qed


text \<open>
  C2. \<open>SetStorage addr key val\<close>, with \<open>orig\<close> the committed value of the slot, \<open>cur\<close> its
  value in the overlay and \<open>val\<close> the new value:
  \<^item> if \<open>val = cur\<close> it returns \<open>StorageUnchanged\<close> and changes nothing (no write, no
    refund change);
  \<^item> otherwise it writes the slot (\<open>GetState\<close> gives \<open>val\<close> afterwards), and on the
    non-legacy metering path
    \<^item> for \<open>orig = cur\<close> it returns \<open>StorageAdded\<close> if \<open>orig = 0\<close>, \<open>StorageDeleted\<close> with 15000
      added to the refund counter if \<open>val = 0\<close>, and \<open>StorageModified\<close> otherwise;
    \<^item> for \<open>orig \<noteq> cur\<close> it returns \<open>StorageModifiedAgain\<close> after subtracting 15000 from
      the refund counter if \<open>orig \<noteq> 0\<close> and \<open>cur = 0\<close>, adding 15000 if \<open>orig \<noteq> 0\<close> and
      \<open>val = 0\<close>, and, when \<open>orig = val\<close>, adding 19200 or 4200 on Istanbul and 19800 or 4800
      before it, the larger amount for \<open>orig = 0\<close>.
  The refund counter is a \<open>uint64\<close>.
\<close>

theorem SetStorage_classifies:
  fixes txn :: Txn and addr :: address and key val :: hash
  defines "cur \<equiv> GetState txn addr key"
    and "orig \<equiv> GetCommittedState txn addr key"
    and "legacy \<equiv> \<not> Txn_isRevision Istanbul txn \<and>
           (Txn_isRevision Petersburg txn \<or> \<not> Txn_isRevision Constantinople txn)"
    and "res \<equiv> SetStorage addr key val txn"
  shows
   "(val = cur \<longrightarrow> res = (StorageUnchanged, txn)) \<and>
    (val \<noteq> cur \<longrightarrow> GetState (snd res) addr key = val) \<and>
    (val \<noteq> cur \<and> \<not> legacy \<and> orig = cur \<longrightarrow>
       fst res = (if orig = 0 then StorageAdded else if val = 0 then StorageDeleted else StorageModified) \<and>
       GetRefund (snd res) = (if orig \<noteq> 0 \<and> val = 0 then GetRefund txn + 15000 else GetRefund txn)) \<and>
    (val \<noteq> cur \<and> \<not> legacy \<and> orig \<noteq> cur \<longrightarrow>
       fst res = StorageModifiedAgain \<and>
       GetRefund (snd res) =
         GetRefund txn
           - (if orig \<noteq> 0 \<and> cur = 0 then 15000 else 0)
           + (if orig \<noteq> 0 \<and> val = 0 then 15000 else 0)
           + (if orig = val
              then (if Txn_isRevision Istanbul txn then (if orig = 0 then 19200 else 4200)
                    else (if orig = 0 then 19800 else 4800))
              else 0))"
proof (intro conjI impI)
  assume "val = cur"
  then show "res = (StorageUnchanged, txn)"
    by (simp add: res_def cur_def SetStorage_def)
next
  assume "val \<noteq> cur"
  then show "GetState (snd res) addr key = val"
    by (simp add: res_def cur_def SetStorage_def Let_def GetState_SetState_same)
next
  assume a: "val \<noteq> cur \<and> \<not> legacy \<and> orig = cur"
  then show "fst res = (if orig = 0 then StorageAdded else if val = 0 then StorageDeleted else StorageModified)"
    unfolding res_def cur_def orig_def legacy_def
    by (auto simp add: SetStorage_def Let_def zeroHash_def)
  from a show "GetRefund (snd res) = (if orig \<noteq> 0 \<and> val = 0 then GetRefund txn + 15000 else GetRefund txn)"
    unfolding res_def cur_def orig_def legacy_def
    by (auto simp add: SetStorage_def Let_def zeroHash_def)
next
  assume a: "val \<noteq> cur \<and> \<not> legacy \<and> orig \<noteq> cur"
  then show "fst res = StorageModifiedAgain"
    unfolding res_def cur_def orig_def legacy_def
    by (auto simp add: SetStorage_def Let_def zeroHash_def)
  from a show "GetRefund (snd res) =
         GetRefund txn
           - (if orig \<noteq> 0 \<and> cur = 0 then 15000 else 0)
           + (if orig \<noteq> 0 \<and> val = 0 then 15000 else 0)
           + (if orig = val
              then (if Txn_isRevision Istanbul txn then (if orig = 0 then 19200 else 4200)
                    else (if orig = 0 then 19800 else 4800))
              else 0)"
    unfolding res_def cur_def orig_def legacy_def
    by (auto simp add: SetStorage_def Let_def zeroHash_def)
qed


theorem SetStorage_classifies_witness:
  "5 \<noteq> GetState ((newTxn EmptyState)\<lparr>txn_rev := Istanbul\<rparr>) 1 0 \<and>
   Txn_isRevision Istanbul ((newTxn EmptyState)\<lparr>txn_rev := Istanbul\<rparr>) \<and>
   GetCommittedState ((newTxn EmptyState)\<lparr>txn_rev := Istanbul\<rparr>) 1 0 =
     GetState ((newTxn EmptyState)\<lparr>txn_rev := Istanbul\<rparr>) 1 0 \<and>
   fst (SetStorage 1 0 5 ((newTxn EmptyState)\<lparr>txn_rev := Istanbul\<rparr>)) = StorageAdded \<and>
   GetState (snd (SetStorage 1 0 5 ((newTxn EmptyState)\<lparr>txn_rev := Istanbul\<rparr>))) 1 0 = 5 \<and>
   GetRefund (snd (SetStorage 1 0 5 ((newTxn EmptyState)\<lparr>txn_rev := Istanbul\<rparr>))) = 0"
proof -
  let ?t = "(newTxn EmptyState)\<lparr>txn_rev := Istanbul\<rparr>"
  have g: "getStateObject ?t 1 = None"
    by (simp add: getStateObject_def newTxn_def EmptyState_def iradix_New_def)
  have c: "GetState ?t 1 0 = 0" "GetCommittedState ?t 1 0 = 0"
    by (simp_all add: GetState_def GetCommittedState_def g)
  have r: "Txn_isRevision Istanbul ?t" by (simp add: Txn_isRevision_def)
  have f: "GetRefund ?t = 0" by (simp add: GetRefund_def newTxn_def iradix_New_def)
  show ?thesis
    using SetStorage_classifies [of 5 ?t 1 0] by (simp add: c r f)
qed

subsection \<open>Frames that fail\<close>

lemma txn_snapshots_simps [simp]:
  "txn_snapshots (AddBalance a b txn) = txn_snapshots txn"
  "txn_snapshots (snd (SubBalance a b txn)) = txn_snapshots txn"
  "txn_snapshots (TouchAccount a txn) = txn_snapshots txn"
  "txn_snapshots (IncrNonce a txn) = txn_snapshots txn"
  "txn_snapshots (CreateAccount a txn) = txn_snapshots txn"
  by (simp_all add: AddBalance_def SubBalance_def TouchAccount_def IncrNonce_def CreateAccount_def Let_def)

lemma txn_snapshots_transfer [simp]:
  "txn_snapshots (snd (transfer a b v txn)) = txn_snapshots txn"
proof (cases v)
  case None
  then show ?thesis by (simp add: transfer_def)
next
  case (Some x)
  obtain e t1 where s: "SubBalance a x txn = (e, t1)" by (cases "SubBalance a x txn")
  then have "txn_snapshots t1 = txn_snapshots txn"
    using txn_snapshots_simps(2) [of a x txn] by simp
  then show ?thesis using Some s by (cases e) (simp_all add: transfer_def)
qed

lemma Txn_Snapshot_eq:
  "Txn_Snapshot txn = (length (txn_snapshots txn), txn\<lparr>txn_snapshots := txn_snapshots txn @ [txn_txn txn]\<rparr>)"
  by (simp add: Txn_Snapshot_def Let_def)

lemma RevertToSnapshot_appended:
  assumes "txn_snapshots txn' = snaps @ [tr] @ ys"
  shows "RevertToSnapshot (length snaps) txn' = Some (txn'\<lparr>txn_txn := tr\<rparr>)"
  using assms by (simp add: RevertToSnapshot_def nth_append)

lemma run_error_gas:
  assumes "run X c t = Some ((rv, g, Some e), t')" and "e \<noteq> ErrExecutionReverted"
  shows "g = 0"
proof -
  consider (cheat) "\<exists>cheat \<in> set (cfg_Cheatcodes (tr_config t)). ch_CanRun cheat (c_CodeAddress c)"
    | (pre) "\<not> (\<exists>cheat \<in> set (cfg_Cheatcodes (tr_config t)). ch_CanRun cheat (c_CodeAddress c))"
        "isPrecompiled X (c_CodeAddress c) t"
    | (evm) "\<not> (\<exists>cheat \<in> set (cfg_Cheatcodes (tr_config t)). ch_CanRun cheat (c_CodeAddress c))"
        "\<not> isPrecompiled X (c_CodeAddress c) t"
    by blast
  then show ?thesis
  proof cases
    case cheat
    then show ?thesis using assms(1) by (simp add: run_def)
  next
    case pre
    then have "runPrecompiled (x_kernels X) (c_CodeAddress c) (c_Input c) (c_Gas c) (cfg_Rev (tr_config t))
        = Some (rv, g, Some e)"
      using assms(1) by (auto simp add: run_def)
    then show ?thesis
      by (auto simp add: runPrecompiled_def Let_def split: option.splits if_splits sum.splits)
  next
    case evm
    then have "EVM_Run X (c_Type c) (c_Address c) (c_Caller c) (c_Value c) (c_Input c) (c_Gas c)
            (c_Depth c) (c_Static c) (c_CodeAddress c) t = Some ((rv, g, Some e), t')"
      using assms(1) by (simp add: run_def)
    then show ?thesis using assms(2)
      by (auto simp add: EVM_Run_def Let_def split: option.splits if_splits)
  qed
qed


lemma applyCall_error_reverts:
  fixes t :: Transition and c :: Contract
  defines "txn2 \<equiv> TouchAccount (c_Address c) (snd (Txn_Snapshot (tr_txn t)))"
  assumes tr: "(if callType = Call then transfer (c_Caller c) (c_Address c) (c_Value c) txn2
                else (None, txn2)) = (None, txn3)"
    and r: "run X c (t\<lparr>tr_txn := txn3\<rparr>) = Some ((rv, g, Some e), t4)"
    and sn: "txn_snapshots (tr_txn t4) = txn_snapshots txn3 @ ys"
  shows "applyCall X c callType t =
      Some (((if e = ErrExecutionReverted then rv else []), g, 0, Some e),
            t4\<lparr>tr_txn := (tr_txn t4)\<lparr>txn_txn := txn_txn (tr_txn t)\<rparr>\<rparr>)"
proof -
  have s2: "txn_snapshots txn2 = txn_snapshots (tr_txn t) @ [txn_txn (tr_txn t)]"
    unfolding txn2_def Txn_Snapshot_eq by simp
  have s3: "txn_snapshots txn3 = txn_snapshots txn2"
  proof (cases "callType = Call")
    case True
    then have "txn3 = snd (transfer (c_Caller c) (c_Address c) (c_Value c) txn2)" using tr by simp
    then show ?thesis by simp
  next
    case False
    then show ?thesis using tr by simp
  qed
  have "txn_snapshots (tr_txn t4) = txn_snapshots (tr_txn t) @ [txn_txn (tr_txn t)] @ ys"
    using sn s3 s2 by simp
  then have rev: "RevertToSnapshot (length (txn_snapshots (tr_txn t))) (tr_txn t4)
      = Some ((tr_txn t4)\<lparr>txn_txn := txn_txn (tr_txn t)\<rparr>)"
    by (rule RevertToSnapshot_appended)
  have t2: "txn2 = TouchAccount (c_Address c)
                 ((tr_txn t)\<lparr>txn_snapshots := txn_snapshots (tr_txn t) @ [txn_txn (tr_txn t)]\<rparr>)"
    unfolding txn2_def Txn_Snapshot_eq by simp
  have tr': "(if callType = Call
       then transfer (c_Caller c) (c_Address c) (c_Value c)
              (TouchAccount (c_Address c)
                 ((tr_txn t)\<lparr>txn_snapshots := txn_snapshots (tr_txn t) @ [txn_txn (tr_txn t)]\<rparr>))
       else (None, TouchAccount (c_Address c)
                 ((tr_txn t)\<lparr>txn_snapshots := txn_snapshots (tr_txn t) @ [txn_txn (tr_txn t)]\<rparr>)))
     = (None, txn3)"
    using tr unfolding t2 .
  show ?thesis
    unfolding applyCall_def Txn_Snapshot_eq
    by (simp add: Let_def tr' r rev)
qed


lemma applyCreate_after_run:
  fixes t :: Transition and c0 :: Contract and X :: extern
  defines "address \<equiv> (if c_Type c0 = Create
       then x_createAddress X (c_Caller c0) (GetNonce (tr_txn t) (c_Caller c0))
       else x_createAddress2 X (c_Caller c0) (c_Salt c0) (c_Input c0))"
  defines "t1 \<equiv> t\<lparr>tr_txn := IncrNonce (c_Caller c0) (tr_txn t)\<rparr>"
  defines "txn3 \<equiv> (if T_isRevision SpuriousDragon t1
       then IncrNonce address (CreateAccount address (snd (Txn_Snapshot (tr_txn t1))))
       else snd (Txn_Snapshot (tr_txn t1)))"
  assumes ty: "c_Type c0 = Create \<or> c_Type c0 = Create2"
    and nc: "\<not> hasCodeOrNonce address t1"
    and tr: "transfer (c_Caller c0) address (c_Value c0) txn3 = (None, txn4)"
    and r: "run X (c0\<lparr>c_CodeAddress := address, c_Address := address\<rparr>) (t1\<lparr>tr_txn := txn4\<rparr>)
             = Some ((rv, g, e), t5)"
    and sn: "txn_snapshots (tr_txn t5) = txn_snapshots txn4 @ ys"
  shows "applyCreate X c0 t =
     (if e \<noteq> None
      then Some (((if e \<noteq> Some ErrExecutionReverted then [] else rv), g, address, e),
                 t5\<lparr>tr_txn := (tr_txn t5)\<lparr>txn_txn := txn_txn (tr_txn t1)\<rparr>\<rparr>)
      else if T_isRevision SpuriousDragon t5 \<and> length rv > spuriousDragonMaxCodeSize
      then Some (([], 0, address, Some (errNew ''evm: max code size exceeded'')),
                 t5\<lparr>tr_txn := (tr_txn t5)\<lparr>txn_txn := txn_txn (tr_txn t1)\<rparr>\<rparr>)
      else if g <s of_nat (length rv) * 200
      then (if T_isRevision Homestead t5
            then Some (([], 0, address, Some (errNew ''contract creation code storage out of gas'')),
                       t5\<lparr>tr_txn := (tr_txn t5)\<lparr>txn_txn := txn_txn (tr_txn t1)\<rparr>\<rparr>)
            else Some (([], g, address, Some (errNew ''contract creation code storage out of gas'')), t5))
      else Some (([], g - of_nat (length rv) * 200, address, None),
                 t5\<lparr>tr_txn := SetCode (x_Keccak256 X) address rv (tr_txn t5)\<rparr>))"
proof -
  have a: "(if c_Type c0 = Create
             then Some (x_createAddress X (c_Caller c0) (GetNonce (tr_txn t) (c_Caller c0)))
           else if c_Type c0 = Create2
             then Some (x_createAddress2 X (c_Caller c0) (c_Salt c0) (c_Input c0))
           else None) = Some address"
    using ty by (auto simp add: address_def)
  have sn1: "Txn_Snapshot (tr_txn t1) = (length (txn_snapshots (tr_txn t1)),
      (tr_txn t1)\<lparr>txn_snapshots := txn_snapshots (tr_txn t1) @ [txn_txn (tr_txn t1)]\<rparr>)"
    by (rule Txn_Snapshot_eq)
  have s3: "txn_snapshots txn3 = txn_snapshots (tr_txn t1) @ [txn_txn (tr_txn t1)]"
    unfolding txn3_def sn1 by simp
  have "txn4 = snd (transfer (c_Caller c0) address (c_Value c0) txn3)" using tr by simp
  then have s4: "txn_snapshots txn4 = txn_snapshots txn3" by simp
  have "txn_snapshots (tr_txn t5) = txn_snapshots (tr_txn t1) @ [txn_txn (tr_txn t1)] @ ys"
    using sn s4 s3 by simp
  then have rev: "RevertToSnapshot (length (txn_snapshots (tr_txn t1))) (tr_txn t5)
      = Some ((tr_txn t5)\<lparr>txn_txn := txn_txn (tr_txn t1)\<rparr>)"
    by (rule RevertToSnapshot_appended)
  have nc': "\<not> hasCodeOrNonce address (t\<lparr>tr_txn := IncrNonce (c_Caller c0) (tr_txn t)\<rparr>)"
    using nc unfolding t1_def .
  have r': "run X (c0\<lparr>c_CodeAddress := address, c_Address := address\<rparr>)
      (t\<lparr>tr_txn := txn4\<rparr>) = Some ((rv, g, e), t5)"
    using r unfolding t1_def by simp
  have rev': "RevertToSnapshot (length (txn_snapshots (tr_txn t))) (tr_txn t5)
      = Some ((tr_txn t5)\<lparr>txn_txn := txn_txn (IncrNonce (c_Caller c0) (tr_txn t))\<rparr>)"
    using rev unfolding t1_def by simp
  have sd: "T_isRevision SpuriousDragon (t\<lparr>tr_txn := IncrNonce (c_Caller c0) (tr_txn t)\<rparr>)
      = T_isRevision SpuriousDragon t1"
    unfolding t1_def ..
  show ?thesis
  proof (cases "T_isRevision SpuriousDragon t1")
    case True
    have t3': "IncrNonce address (CreateAccount address
              ((IncrNonce (c_Caller c0) (tr_txn t))\<lparr>txn_snapshots := txn_snapshots (tr_txn t) @ [txn_txn (IncrNonce (c_Caller c0) (tr_txn t))]\<rparr>)) = txn3"
      unfolding txn3_def sn1 using True unfolding t1_def by simp
    show ?thesis
      unfolding applyCreate_def a Txn_Snapshot_eq t1_def
      using True by (simp add: Let_def nc' sd t3' tr r' rev')
  next
    case False
    have t3': "(IncrNonce (c_Caller c0) (tr_txn t))\<lparr>txn_snapshots := txn_snapshots (tr_txn t) @ [txn_txn (IncrNonce (c_Caller c0) (tr_txn t))]\<rparr> = txn3"
      unfolding txn3_def sn1 using False unfolding t1_def by simp
    show ?thesis
      unfolding applyCreate_def a Txn_Snapshot_eq t1_def
      using False by (simp add: Let_def nc' sd t3' tr r' rev')
  qed
qed


lemma newTransition_txn:
  "tr_txn (NewTransition (config0 r)) =
     \<lparr>txn_snapshot = EmptyState, txn_snapshots = [], txn_txn = iradix_New, txn_rev = r\<rparr>"
  by (simp add: NewTransition_def config0_def newTxn_def)

lemma no_precompile_77: "precompiledContracts K 77 = None" "precompiledContracts K 78 = None"
  "precompiledContracts K 11 = None"
  by (simp_all add: precompiledContracts_def addr1_def addr2_def addr3_def addr4_def addr5_def
      addr6_def addr7_def addr8_def addr9_def)

lemma run_loop_fail:
  assumes "cfg_Cheatcodes (tr_config t) = []" and "precompiledContracts kernels0 (c_CodeAddress c) = None"
  shows "run (extern0 loop_fail) c t =
     Some (([], 0, Some errOutOfGas), t\<lparr>tr_txn := SetState (c_Address c) 1 5 (tr_txn t)\<rparr>)"
  using assms
  by (simp add: run_def isPrecompiled_def extern0_def EVM_Run_def Let_def loop_fail_def exit_def frame0_def)

lemma run_loop_return:
  assumes "cfg_Cheatcodes (tr_config t) = []" and "precompiledContracts kernels0 (c_CodeAddress c) = None"
  shows "run (extern0 (loop_return out g)) c t = Some ((out, g, None), t)"
  using assms
  by (simp add: run_def isPrecompiled_def extern0_def EVM_Run_def Let_def loop_return_def halt_def frame0_def)

text \<open>
  C1. A call frame that the driver runs and that finishes with an error is undone. In
  \<open>applyCall\<close> and in \<open>applyCreate\<close>, when the steps before the frame succeed (the value
  transfer and, for a creation, the collision check) and \<open>run\<close> returns an error, the
  driver reverts to the snapshot it took before the frame: the overlay after the call is
  the overlay at that snapshot, so every key written during the frame has its earlier
  value again. The return payload is kept only for the revert error; for every other
  error the returned data is empty and the gas left that \<open>run\<close> reports is 0. The
  snapshot list only grows while the frame runs.
\<close>

theorem frame_error_reverts:
  fixes t :: Transition and c c0 :: Contract and X :: extern
  defines "txn2 \<equiv> TouchAccount (c_Address c) (snd (Txn_Snapshot (tr_txn t)))"
  defines "address \<equiv> (if c_Type c0 = Create
       then x_createAddress X (c_Caller c0) (GetNonce (tr_txn t) (c_Caller c0))
       else x_createAddress2 X (c_Caller c0) (c_Salt c0) (c_Input c0))"
  defines "t1 \<equiv> t\<lparr>tr_txn := IncrNonce (c_Caller c0) (tr_txn t)\<rparr>"
  defines "txn3 \<equiv> (if T_isRevision SpuriousDragon t1
       then IncrNonce address (CreateAccount address (snd (Txn_Snapshot (tr_txn t1))))
       else snd (Txn_Snapshot (tr_txn t1)))"
  shows
   "((if callType = Call then transfer (c_Caller c) (c_Address c) (c_Value c) txn2
      else (None, txn2)) = (None, txnA) \<and>
     run X c (t\<lparr>tr_txn := txnA\<rparr>) = Some ((rv, g, Some e), t4) \<and>
     txn_snapshots (tr_txn t4) = txn_snapshots txnA @ ys
     \<longrightarrow>
       applyCall X c callType t =
         Some (((if e = ErrExecutionReverted then rv else []), g, 0, Some e),
               t4\<lparr>tr_txn := (tr_txn t4)\<lparr>txn_txn := txn_txn (tr_txn t)\<rparr>\<rparr>) \<and>
       (e \<noteq> ErrExecutionReverted \<longrightarrow> g = 0))
    \<and>
    ((c_Type c0 = Create \<or> c_Type c0 = Create2) \<and>
     \<not> hasCodeOrNonce address t1 \<and>
     transfer (c_Caller c0) address (c_Value c0) txn3 = (None, txnB) \<and>
     run X (c0\<lparr>c_CodeAddress := address, c_Address := address\<rparr>) (t1\<lparr>tr_txn := txnB\<rparr>)
        = Some ((rv', g', Some e'), t5) \<and>
     txn_snapshots (tr_txn t5) = txn_snapshots txnB @ ys'
     \<longrightarrow>
       applyCreate X c0 t =
         Some (((if e' = ErrExecutionReverted then rv' else []), g', address, Some e'),
               t5\<lparr>tr_txn := (tr_txn t5)\<lparr>txn_txn := txn_txn (tr_txn t1)\<rparr>\<rparr>) \<and>
       (e' \<noteq> ErrExecutionReverted \<longrightarrow> g' = 0))"
proof (intro conjI impI)
  assume h: "(if callType = Call then transfer (c_Caller c) (c_Address c) (c_Value c) txn2
      else (None, txn2)) = (None, txnA) \<and>
     run X c (t\<lparr>tr_txn := txnA\<rparr>) = Some ((rv, g, Some e), t4) \<and>
     txn_snapshots (tr_txn t4) = txn_snapshots txnA @ ys"
  show "applyCall X c callType t =
         Some (((if e = ErrExecutionReverted then rv else []), g, 0, Some e),
               t4\<lparr>tr_txn := (tr_txn t4)\<lparr>txn_txn := txn_txn (tr_txn t)\<rparr>\<rparr>)"
    using h unfolding txn2_def by (intro applyCall_error_reverts) auto
  assume "e \<noteq> ErrExecutionReverted"
  then show "g = 0" using h run_error_gas by blast
next
  assume h: "(c_Type c0 = Create \<or> c_Type c0 = Create2) \<and>
     \<not> hasCodeOrNonce address t1 \<and>
     transfer (c_Caller c0) address (c_Value c0) txn3 = (None, txnB) \<and>
     run X (c0\<lparr>c_CodeAddress := address, c_Address := address\<rparr>) (t1\<lparr>tr_txn := txnB\<rparr>)
        = Some ((rv', g', Some e'), t5) \<and>
     txn_snapshots (tr_txn t5) = txn_snapshots txnB @ ys'"
  have "applyCreate X c0 t = Some (((if Some e' \<noteq> Some ErrExecutionReverted then [] else rv'), g', address, Some e'),
                 t5\<lparr>tr_txn := (tr_txn t5)\<lparr>txn_txn := txn_txn (tr_txn t1)\<rparr>\<rparr>)"
    using h applyCreate_after_run [of c0 X t txnB rv' g' "Some e'" t5 ys']
    unfolding address_def t1_def txn3_def by simp
  then show "applyCreate X c0 t =
         Some (((if e' = ErrExecutionReverted then rv' else []), g', address, Some e'),
               t5\<lparr>tr_txn := (tr_txn t5)\<lparr>txn_txn := txn_txn (tr_txn t1)\<rparr>\<rparr>)"
    by auto
  assume "e' \<noteq> ErrExecutionReverted"
  then show "g' = 0" using h run_error_gas by blast
qed


lemma SubBalance_zero: "SubBalance a 0 txn = (None, txn)"
  by (simp add: SubBalance_def)

lemma transfer_zero: "transfer a b (Some 0) txn = (None, AddBalance b 0 txn)"
  by (simp add: transfer_def SubBalance_zero)

lemma txn_snapshots_SetState [simp]: "txn_snapshots (SetState a k v txn) = txn_snapshots txn"
  by (simp add: SetState_def)

lemma txn_snapshot_simps [simp]:
  "txn_snapshot (AddBalance a b txn) = txn_snapshot txn"
  "txn_snapshot (TouchAccount a txn) = txn_snapshot txn"
  "txn_snapshot (SetState a k v txn) = txn_snapshot txn"
  "txn_snapshot (IncrNonce a txn) = txn_snapshot txn"
  "txn_snapshot (CreateAccount a txn) = txn_snapshot txn"
  "txn_snapshot (snd (Txn_Snapshot txn)) = txn_snapshot txn"
  by (simp_all add: AddBalance_def TouchAccount_def SetState_def IncrNonce_def CreateAccount_def
      Txn_Snapshot_def Let_def)

lemma GetState_cong:
  "txn_snapshot a = txn_snapshot b \<Longrightarrow> txn_txn a = txn_txn b \<Longrightarrow> GetState a addr key = GetState b addr key"
  by (simp add: GetState_def getStateObject_def cong: option.case_cong sum.case_cong)

lemma GetState_new: "GetState (tr_txn (NewTransition (config0 r))) a k = 0"
  by (simp add: GetState_def getStateObject_def newTransition_txn iradix_New_def EmptyState_def)

theorem frame_error_reverts_witness:
  "\<exists>t'. applyCall (extern0 loop_fail) (NewContractCall 0 10 11 (Some 0) 1000 []) Call
            (NewTransition (config0 Istanbul)) = Some (([], 0, 0, Some errOutOfGas), t') \<and>
        txn_txn (tr_txn t') = txn_txn (tr_txn (NewTransition (config0 Istanbul))) \<and>
        GetState (tr_txn t') 11 1 = 0"
proof -
  let ?t = "NewTransition (config0 Istanbul)"
  let ?c = "NewContractCall 0 10 11 (Some 0) 1000 []"
  let ?txn2 = "TouchAccount (c_Address ?c) (snd (Txn_Snapshot (tr_txn ?t)))"
  let ?txnA = "AddBalance 11 0 ?txn2"
  let ?t4 = "?t\<lparr>tr_txn := SetState 11 1 5 ?txnA\<rparr>"
  have c: "c_Address ?c = 11" "c_Caller ?c = 10" "c_Value ?c = Some 0" "c_CodeAddress ?c = 11"
    by (simp_all add: NewContractCall_def NewContract_def)
  have tr: "(if Call = Call then transfer (c_Caller ?c) (c_Address ?c) (c_Value ?c) ?txn2
             else (None, ?txn2)) = (None, ?txnA)"
    by (simp add: c transfer_zero)
  have cfg: "cfg_Cheatcodes (tr_config ?t) = []"
    by (simp add: NewTransition_def config0_def)
  have r: "run (extern0 loop_fail) ?c (?t\<lparr>tr_txn := ?txnA\<rparr>) = Some (([], 0, Some errOutOfGas), ?t4)"
    by (subst run_loop_fail) (simp_all add: cfg c no_precompile_77)
  have sn: "txn_snapshots (tr_txn ?t4) = txn_snapshots ?txnA @ []" by simp
  have e: "applyCall (extern0 loop_fail) ?c Call ?t =
      Some (([], 0, 0, Some errOutOfGas), ?t4\<lparr>tr_txn := (tr_txn ?t4)\<lparr>txn_txn := txn_txn (tr_txn ?t)\<rparr>\<rparr>)"
    using frame_error_reverts [where callType = Call and c = ?c and t = ?t and txnA = ?txnA
        and X = "extern0 loop_fail" and rv = "[]" and g = 0 and e = errOutOfGas and ?t4.0 = ?t4 and ys = "[]"]
      tr r sn by simp
  have g: "GetState (tr_txn (?t4\<lparr>tr_txn := (tr_txn ?t4)\<lparr>txn_txn := txn_txn (tr_txn ?t)\<rparr>\<rparr>)) 11 1 = 0"
    by (subst GetState_cong [where b = "tr_txn ?t"]) (simp_all add: c GetState_new)
  have x: "txn_txn (tr_txn (?t4\<lparr>tr_txn := (tr_txn ?t4)\<lparr>txn_txn := txn_txn (tr_txn ?t)\<rparr>\<rparr>))
      = txn_txn (tr_txn ?t)"
    by simp
  show ?thesis
    by (rule exI [of _ "?t4\<lparr>tr_txn := (tr_txn ?t4)\<lparr>txn_txn := txn_txn (tr_txn ?t)\<rparr>\<rparr>"])
       (intro conjI e x g)
qed

subsection \<open>Code deposit of a creation\<close>

lemma deposit_cost:
  assumes "200 * n < 2 ^ 63"
  shows "sint ((of_nat n :: uint64) * 200) = 200 * int n"
proof -
  have "(of_nat n :: uint64) * 200 = word_of_int (200 * int n)" by simp
  moreover have "signed_take_bit 63 (200 * int n) = 200 * int n"
  proof (rule signed_take_bit_int_eq_self)
    show "- (2 ^ 63) \<le> 200 * int n" by simp
    have "int (200 * n) < int (2 ^ 63)" using assms by (simp only: of_nat_less_iff)
    then show "200 * int n < 2 ^ 63" by simp
  qed
  ultimately show ?thesis by (simp only: sint_sbintrunc') simp
qed

lemma deposit_sub:
  fixes g c :: uint64
  assumes "0 \<le> sint c" and "sint c \<le> sint g"
  shows "sint (g - c) = sint g - sint c"
proof -
  have "sint g < 2 ^ 63" using sint_lt [of g] by simp
  then have "- (2 ^ 63) \<le> sint g - sint c" "sint g - sint c < 2 ^ 63" using assms by linarith+
  then have "signed_take_bit 63 (sint g - sint c) = sint g - sint c"
    by (rule signed_take_bit_int_eq_self)
  then show ?thesis by (simp add: sint_word_diff)
qed

text \<open>
  C4 (as amended). Take a contract creation whose steps before the frame succeed and whose
  init code returns successfully with the code \<open>rv\<close> and the gas \<open>g\<close> left (an \<open>int64\<close>), the
  snapshot list only growing during the frame.
  \<^item> From Spurious Dragon on, a code longer than 24576 bytes reverts the frame and leaves
    no gas: no deposit is charged.
  \<^item> Otherwise the code deposit costs \<open>200 * len rv\<close>. If the gas left covers it, the cost
    is deducted and the code is stored at the new address.
  \<^item> If the gas left does not cover it, from Homestead on the frame is reverted to the
    snapshot taken before it and 0 gas is left; before Homestead the frame is not
    reverted: the creation stays as the init code left it, no code is stored, the gas
    left is returned uncharged, and the code-storage error is still reported.
\<close>

theorem applyCreate_code_deposit:
  fixes t :: Transition and c0 :: Contract and X :: extern and rv :: "byte list"
  defines "address \<equiv> (if c_Type c0 = Create
       then x_createAddress X (c_Caller c0) (GetNonce (tr_txn t) (c_Caller c0))
       else x_createAddress2 X (c_Caller c0) (c_Salt c0) (c_Input c0))"
  defines "t1 \<equiv> t\<lparr>tr_txn := IncrNonce (c_Caller c0) (tr_txn t)\<rparr>"
  defines "txn3 \<equiv> (if T_isRevision SpuriousDragon t1
       then IncrNonce address (CreateAccount address (snd (Txn_Snapshot (tr_txn t1))))
       else snd (Txn_Snapshot (tr_txn t1)))"
  defines "gasCost \<equiv> (of_nat (length rv) :: uint64) * 200"
  assumes ty: "c_Type c0 = Create \<or> c_Type c0 = Create2"
    and nc: "\<not> hasCodeOrNonce address t1"
    and tr: "transfer (c_Caller c0) address (c_Value c0) txn3 = (None, txn4)"
    and r: "run X (c0\<lparr>c_CodeAddress := address, c_Address := address\<rparr>) (t1\<lparr>tr_txn := txn4\<rparr>)
             = Some ((rv, g, None), t5)"
    and sn: "txn_snapshots (tr_txn t5) = txn_snapshots txn4 @ ys"
    and nov: "200 * length rv < 2 ^ 63"
  shows
   "(T_isRevision SpuriousDragon t5 \<and> length rv > spuriousDragonMaxCodeSize \<longrightarrow>
       applyCreate X c0 t =
         Some (([], 0, address, Some (errNew ''evm: max code size exceeded'')),
               t5\<lparr>tr_txn := (tr_txn t5)\<lparr>txn_txn := txn_txn (tr_txn t1)\<rparr>\<rparr>)) \<and>
    (\<not> (T_isRevision SpuriousDragon t5 \<and> length rv > spuriousDragonMaxCodeSize) \<longrightarrow>
       sint gasCost = 200 * int (length rv) \<and>
       (sint gasCost \<le> sint g \<longrightarrow>
          applyCreate X c0 t =
            Some (([], g - gasCost, address, None),
                  t5\<lparr>tr_txn := SetCode (x_Keccak256 X) address rv (tr_txn t5)\<rparr>) \<and>
          sint (g - gasCost) = sint g - 200 * int (length rv)) \<and>
       (sint g < sint gasCost \<and> T_isRevision Homestead t5 \<longrightarrow>
          applyCreate X c0 t =
            Some (([], 0, address, Some (errNew ''contract creation code storage out of gas'')),
                  t5\<lparr>tr_txn := (tr_txn t5)\<lparr>txn_txn := txn_txn (tr_txn t1)\<rparr>\<rparr>)) \<and>
       (sint g < sint gasCost \<and> \<not> T_isRevision Homestead t5 \<longrightarrow>
          applyCreate X c0 t =
            Some (([], g, address, Some (errNew ''contract creation code storage out of gas'')), t5)))"
proof -
  have c: "sint gasCost = 200 * int (length rv)"
    unfolding gasCost_def using nov by (rule deposit_cost)
  have e: "applyCreate X c0 t =
      (if T_isRevision SpuriousDragon t5 \<and> length rv > spuriousDragonMaxCodeSize
       then Some (([], 0, address, Some (errNew ''evm: max code size exceeded'')),
                 t5\<lparr>tr_txn := (tr_txn t5)\<lparr>txn_txn := txn_txn (tr_txn t1)\<rparr>\<rparr>)
       else if g <s gasCost
       then (if T_isRevision Homestead t5
            then Some (([], 0, address, Some (errNew ''contract creation code storage out of gas'')),
                       t5\<lparr>tr_txn := (tr_txn t5)\<lparr>txn_txn := txn_txn (tr_txn t1)\<rparr>\<rparr>)
            else Some (([], g, address, Some (errNew ''contract creation code storage out of gas'')), t5))
       else Some (([], g - gasCost, address, None),
                 t5\<lparr>tr_txn := SetCode (x_Keccak256 X) address rv (tr_txn t5)\<rparr>))"
    using applyCreate_after_run [of c0 X t txn4 rv g None t5 ys] ty nc tr r sn
    unfolding address_def t1_def txn3_def gasCost_def by simp
  have s: "sint gasCost \<le> sint g \<longrightarrow> sint (g - gasCost) = sint g - 200 * int (length rv)"
    using deposit_sub [of gasCost g] c by simp
  show ?thesis using c e s by (simp add: word_sless_alt)
qed

lemma getStateObject_fresh:
  "(a :: address) \<noteq> 10 \<Longrightarrow> getStateObject (IncrNonce 10 (tr_txn (NewTransition (config0 r)))) a = None"
  by (simp add: getStateObject_def IncrNonce_def upsertAccount_def Let_def newTransition_txn
      iradix_New_def EmptyState_def)

lemma hasCodeOrNonce_fresh:
  "getStateObject (tr_txn t) a = None \<Longrightarrow> \<not> hasCodeOrNonce a t"
  by (simp add: hasCodeOrNonce_def GetNonce_def GetCodeHash_def empty_account_def emptyHash_def Let_def)

lemma example_creation:
  "c_Type (NewContractCreation 0 10 77 (Some 0) 1000 [1, 2]) = Create"
  "c_Caller (NewContractCreation 0 10 77 (Some 0) 1000 [1, 2]) = 10"
  "c_Value (NewContractCreation 0 10 77 (Some 0) 1000 [1, 2]) = Some 0"
  "c_CodeAddress ((NewContractCreation 0 10 77 (Some 0) 1000 [1, 2])\<lparr>c_CodeAddress := 77, c_Address := 77\<rparr>) = 77"
  "x_createAddress (extern0 loop) a n = 77"
  "cfg_Cheatcodes (tr_config (NewTransition (config0 r))) = []"
  "T_isRevision q (NewTransition (config0 r)) = (q \<le> r)"
  by (simp_all add: NewContractCreation_def NewContract_def extern0_def NewTransition_def
      config0_def T_isRevision_def)

theorem applyCreate_code_deposit_witness:
  "\<exists>t'. applyCreate (extern0 (loop_return [1, 2, 3] 100))
            (NewContractCreation 0 10 77 (Some 0) 1000 [1, 2]) (NewTransition (config0 Frontier))
          = Some (([], 100, 77, Some (errNew ''contract creation code storage out of gas'')), t') \<and>
        GetNonce (tr_txn t') 10 = 1"
proof -
  let ?t = "NewTransition (config0 Frontier)"
  let ?c0 = "NewContractCreation 0 10 77 (Some 0) 1000 [1, 2]"
  let ?X = "extern0 (loop_return [1, 2, 3] 100)"
  let ?t1 = "?t\<lparr>tr_txn := IncrNonce 10 (tr_txn ?t)\<rparr>"
  let ?txn3 = "snd (Txn_Snapshot (tr_txn ?t1))"
  let ?txn4 = "AddBalance 77 0 ?txn3"
  let ?t5 = "?t1\<lparr>tr_txn := ?txn4\<rparr>"
  have nc: "\<not> hasCodeOrNonce 77 ?t1"
    by (rule hasCodeOrNonce_fresh) (simp add: getStateObject_fresh)
  have r: "run ?X (?c0\<lparr>c_CodeAddress := 77, c_Address := 77\<rparr>) ?t5 = Some (([1, 2, 3], 100, None), ?t5)"
    by (rule run_loop_return) (simp_all add: example_creation no_precompile_77)
  have sn: "txn_snapshots (tr_txn ?t5) = txn_snapshots ?txn4 @ []" by simp
  have sd: "\<not> T_isRevision SpuriousDragon ?t5" "\<not> T_isRevision Homestead ?t5"
    "\<not> T_isRevision SpuriousDragon ?t1"
    by (simp_all add: T_isRevision_def NewTransition_def config0_def Frontier_def SpuriousDragon_def Homestead_def)
  have e: "applyCreate ?X ?c0 ?t =
      Some (([], 100, 77, Some (errNew ''contract creation code storage out of gas'')), ?t5)"
    using applyCreate_code_deposit [where ?c0.0 = ?c0 and X = ?X and t = ?t and ?txn4.0 = ?txn4
        and rv = "[1, 2, 3]" and g = 100 and ?t5.0 = ?t5 and ys = "[]"]
      nc r sn sd
    by (simp add: example_creation transfer_zero)
  have n: "GetNonce (tr_txn ?t5) 10 = 1"
    by (simp add: GetNonce_def getStateObject_def AddBalance_def IncrNonce_def upsertAccount_def
        Txn_Snapshot_eq Let_def newTransition_txn iradix_New_def EmptyState_def newStateObject_def
        stateObject_Copy_def Account_Copy_def upd_Nonce_def)
  show ?thesis by (rule exI [of _ ?t5]) (intro conjI e n)
qed


text \<open>
  The claim as first stated fails for a large code: on Istanbul, an init code that returns
  24577 bytes with 10000000 gas left, enough for the deposit of \<open>200 * 24577\<close>, is not
  charged the deposit. The frame is reverted and no gas is left.
\<close>

theorem applyCreate_code_deposit_counterexample:
  "200 * 24577 \<le> (10000000 :: int) \<and>
   (\<exists>t'. applyCreate (extern0 (loop_return (replicate 24577 0) 10000000))
            (NewContractCreation 0 10 77 (Some 0) 1000 [1, 2]) (NewTransition (config0 Istanbul))
          = Some (([], 0, 77, Some (errNew ''evm: max code size exceeded'')), t') \<and>
        txn_txn (tr_txn t') = txn_txn (IncrNonce 10 (tr_txn (NewTransition (config0 Istanbul)))))"
proof -
  let ?t = "NewTransition (config0 Istanbul)"
  let ?c0 = "NewContractCreation 0 10 77 (Some 0) 1000 [1, 2]"
  let ?X = "extern0 (loop_return (replicate 24577 0) 10000000)"
  let ?t1 = "?t\<lparr>tr_txn := IncrNonce 10 (tr_txn ?t)\<rparr>"
  let ?txn3 = "IncrNonce 77 (CreateAccount 77 (snd (Txn_Snapshot (tr_txn ?t1))))"
  let ?txn4 = "AddBalance 77 0 ?txn3"
  let ?t5 = "?t1\<lparr>tr_txn := ?txn4\<rparr>"
  let ?t' = "?t5\<lparr>tr_txn := (tr_txn ?t5)\<lparr>txn_txn := txn_txn (tr_txn ?t1)\<rparr>\<rparr>"
  have nc: "\<not> hasCodeOrNonce 77 ?t1"
    by (rule hasCodeOrNonce_fresh) (simp add: getStateObject_fresh)
  have r: "run ?X (?c0\<lparr>c_CodeAddress := 77, c_Address := 77\<rparr>) ?t5
      = Some ((replicate 24577 0, 10000000, None), ?t5)"
    by (rule run_loop_return) (simp_all add: example_creation no_precompile_77)
  have sn: "txn_snapshots (tr_txn ?t5) = txn_snapshots ?txn4 @ []" by simp
  have sd: "T_isRevision SpuriousDragon ?t5" "T_isRevision SpuriousDragon ?t1"
    by (simp_all add: T_isRevision_def NewTransition_def config0_def Istanbul_def SpuriousDragon_def)
  have e: "applyCreate ?X ?c0 ?t =
      Some (([], 0, 77, Some (errNew ''evm: max code size exceeded'')), ?t')"
    using applyCreate_after_run [where ?c0.0 = ?c0 and X = ?X and t = ?t and ?txn4.0 = ?txn4
        and rv = "replicate 24577 0" and g = 10000000 and e = None and ?t5.0 = ?t5 and ys = "[]"]
      nc r sn sd
    by (simp add: example_creation transfer_zero spuriousDragonMaxCodeSize_def)
  have x: "txn_txn (tr_txn ?t') = txn_txn (IncrNonce 10 (tr_txn ?t))" by simp
  have "\<exists>t'. applyCreate ?X ?c0 ?t = Some (([], 0, 77, Some (errNew ''evm: max code size exceeded'')), t') \<and>
        txn_txn (tr_txn t') = txn_txn (IncrNonce 10 (tr_txn ?t))"
    by (rule exI [of _ ?t']) (intro conjI e x)
  then show ?thesis by simp
qed

subsection \<open>Logs of a transaction\<close>

lemma logs_entry_simps [simp]:
  "logs_entry (txn_txn (AddBalance a b txn)) = logs_entry (txn_txn txn)"
  "logs_entry (txn_txn (snd (SubBalance a b txn))) = logs_entry (txn_txn txn)"
  "logs_entry (txn_txn (CleanDeleteObjects d txn)) = logs_entry (txn_txn txn)"
  by (simp_all add: AddBalance_def SubBalance_def CleanDeleteObjects_def)

lemma Logs_eq:
  "Logs txn = (logs_entry (txn_txn txn), txn\<lparr>txn_txn := (txn_txn txn)\<lparr>logs_entry := None\<rparr>\<rparr>)"
  by (cases "logs_entry (txn_txn txn)") (simp_all add: Logs_def)

lemma Logs_twice: "Logs (snd (Logs txn)) = (None, snd (Logs txn))"
  by (simp add: Logs_eq)

lemma logs_entry_EmitLogs:
  "logs_entry (txn_txn (EmitLogs es txn)) =
     (if es = [] then logs_entry (txn_txn txn)
      else Some ((case logs_entry (txn_txn txn) of None \<Rightarrow> [] | Some l \<Rightarrow> l) @
                 map (\<lambda>(a, topics, data). \<lparr>log_Address = a, log_Topics = topics, log_Data = data\<rparr>) es))"
proof (induction es arbitrary: txn)
  case Nil
  then show ?case by (simp add: EmitLogs_def)
next
  case (Cons x xs)
  obtain a tp d where x: "x = (a, tp, d)" by (cases x)
  have "EmitLogs (x # xs) txn = EmitLogs xs (EmitLog a tp d txn)"
    by (simp add: EmitLogs_def x)
  then show ?case
    using Cons [of "EmitLog a tp d txn"] by (simp add: x EmitLog_def Let_def)
qed

lemma Apply_clears_logs:
  assumes "Apply X msg t = Some (out, t')"
  shows "logs_entry (txn_txn (tr_txn t')) = None"
  using assms
  by (auto simp add: Apply_def Let_def Logs_eq split: option.splits prod.splits)

lemma preCheck_logs:
  "logs_entry (txn_txn (tr_txn (snd (snd (preCheck msg t))))) = logs_entry (txn_txn (tr_txn t))"
proof -
  obtain e txn1 where s: "SubBalance (msg_From msg) (msg_GasPrice msg * uint (msg_Gas msg)) (tr_txn t) = (e, txn1)"
    by (cases "SubBalance (msg_From msg) (msg_GasPrice msg * uint (msg_Gas msg)) (tr_txn t)")
  then have "logs_entry (txn_txn txn1) = logs_entry (txn_txn (tr_txn t))"
    using logs_entry_simps(2) [of "msg_From msg" "msg_GasPrice msg * uint (msg_Gas msg)" "tr_txn t"] by simp
  then show ?thesis
    by (simp add: preCheck_def Let_def s split: option.splits sum.splits)
qed

lemma postCheck_logs:
  "logs_entry (txn_txn (tr_txn (snd (snd (postCheck msg out t))))) = logs_entry (txn_txn (tr_txn t))"
  by (simp add: postCheck_def Let_def)

lemma Write_keeps_logs_empty:
  assumes "Write X msg t = Some (res, t')" and "logs_entry (txn_txn (tr_txn t)) = None"
  shows "logs_entry (txn_txn (tr_txn t')) = None"
proof -
  obtain e msg1 t1 where p: "preCheck msg t = (e, msg1, t1)" by (cases "preCheck msg t")
  then have l1: "logs_entry (txn_txn (tr_txn t1)) = None"
    using preCheck_logs [of msg t] assms(2) by simp
  show ?thesis
  proof (cases e)
    case (Some err)
    then show ?thesis using assms(1) p l1 by (simp add: Write_def applyImpl_def)
  next
    case None
    then obtain out t2 where a: "Apply X msg1 t1 = Some (out, t2)"
      using assms(1) p by (auto simp add: Write_def applyImpl_def split: option.splits)
    then have l2: "logs_entry (txn_txn (tr_txn t2)) = None" by (rule Apply_clears_logs)
    obtain m3 o3 t3 where pc: "postCheck msg1 out t2 = (m3, o3, t3)" by (cases "postCheck msg1 out t2")
    then have l3: "logs_entry (txn_txn (tr_txn t3)) = None"
      using postCheck_logs [of msg1 out t2] l2 by simp
    show ?thesis
      using assms(1) p None a pc l3
      by (auto simp add: Write_def applyImpl_def split: if_splits)
  qed
qed


lemma Apply_out_Logs:
  assumes "Apply X msg t = Some (out, t')"
  shows "\<exists>r t2.
      (case msg_To msg of
         None \<Rightarrow>
           applyCreate X
             (NewContractCreation 0 (msg_From msg)
                (x_createAddress X (msg_From msg) (GetNonce (tr_txn t) (msg_From msg)))
                (Some (msg_Value msg)) (msg_Gas msg) (msg_Input msg))
             (t\<lparr>tr_config := (tr_config t)\<lparr>cfg_Ctx := (cfg_Ctx (tr_config t))
                  \<lparr>ctx_GasPrice := bigToHash (msg_GasPrice msg), ctx_Origin := msg_From msg\<rparr>\<rparr>\<rparr>)
       | Some to \<Rightarrow>
           applyCall X
             (NewContractCall 0 (msg_From msg) to (Some (msg_Value msg)) (msg_Gas msg) (msg_Input msg))
             Call
             (t\<lparr>tr_config := (tr_config t)\<lparr>cfg_Ctx := (cfg_Ctx (tr_config t))
                  \<lparr>ctx_GasPrice := bigToHash (msg_GasPrice msg), ctx_Origin := msg_From msg\<rparr>\<rparr>,
                tr_txn := IncrNonce (msg_From msg) (tr_txn t)\<rparr>)) = Some (r, t2) \<and>
      out_Logs out = logs_entry (txn_txn (tr_txn t2)) \<and>
      out_Logs out = fst (Logs (tr_txn t2)) \<and>
      t' = t2\<lparr>tr_txn := snd (Logs (tr_txn t2))\<rparr>"
  using assms
  by (auto simp add: Apply_def Let_def Logs_eq split: option.splits prod.splits)

lemma Write_out_Logs:
  assumes "Write X msg t = Some (Inr out, t')"
  shows "\<exists>msg1 t1 out1 t2. preCheck msg t = (None, msg1, t1) \<and> Apply X msg1 t1 = Some (out1, t2) \<and>
           out_Logs out = out_Logs out1"
proof -
  obtain e msg1 t1 where p: "preCheck msg t = (e, msg1, t1)" by (cases "preCheck msg t")
  show ?thesis
  proof (cases e)
    case (Some err)
    then show ?thesis using assms p by (simp add: Write_def applyImpl_def)
  next
    case None
    then obtain out1 t2 where a: "Apply X msg1 t1 = Some (out1, t2)"
      using assms p by (auto simp add: Write_def applyImpl_def split: option.splits)
    obtain m3 o3 t3 where pc: "postCheck msg1 out1 t2 = (m3, o3, t3)" by (cases "postCheck msg1 out1 t2")
    then have "out_Logs o3 = out_Logs out1" by (auto simp add: postCheck_def Let_def)
    moreover have "out = o3"
      using assms p None a pc by (auto simp add: Write_def applyImpl_def split: if_splits)
    ultimately show ?thesis using p None a by auto
  qed
qed


text \<open>
  C10. \<open>Txn.Logs\<close> is a destructive read. It returns the log list stored in the overlay,
  the logs that \<open>EmitLog\<close> accumulated since the logs were last taken, and deletes the
  list, so a call repeated at once returns \<open>nil\<close>; after the logs were taken, a sequence
  of \<open>EmitLog\<close> calls is returned whole and in order by the next call. \<open>Apply\<close> takes
  the logs of each transaction with \<open>Logs\<close>: the logs of its output are the log list of
  the overlay that the root frame of the transaction returned, it leaves no log list
  behind, and the overlay it returns is the one of the root frame without the log list.
  \<open>Write\<close> hands out the logs of the output of \<open>Apply\<close> and keeps an overlay without a
  log list that way, so the output of a transaction holds the logs of that transaction and
  none of an earlier one on the same \<open>Txn\<close>.
\<close>

theorem Logs_destructive_read:
  "Logs txn = (logs_entry (txn_txn txn), txn\<lparr>txn_txn := (txn_txn txn)\<lparr>logs_entry := None\<rparr>\<rparr>) \<and>
   Logs (snd (Logs txn)) = (None, snd (Logs txn)) \<and>
   fst (Logs (EmitLogs es (snd (Logs txn)))) =
     (if es = [] then None
      else Some (map (\<lambda>(a, topics, data). \<lparr>log_Address = a, log_Topics = topics, log_Data = data\<rparr>) es)) \<and>
   (Apply X msg t = Some (out, t') \<longrightarrow> logs_entry (txn_txn (tr_txn t')) = None) \<and>
   (Write X msg t = Some (res, t'') \<and> logs_entry (txn_txn (tr_txn t)) = None \<longrightarrow>
      logs_entry (txn_txn (tr_txn t'')) = None) \<and>
   (Apply X msg t = Some (out, t') \<longrightarrow>
      (\<exists>r t2.
         (case msg_To msg of
            None \<Rightarrow>
              applyCreate X
                (NewContractCreation 0 (msg_From msg)
                   (x_createAddress X (msg_From msg) (GetNonce (tr_txn t) (msg_From msg)))
                   (Some (msg_Value msg)) (msg_Gas msg) (msg_Input msg))
                (t\<lparr>tr_config := (tr_config t)\<lparr>cfg_Ctx := (cfg_Ctx (tr_config t))
                     \<lparr>ctx_GasPrice := bigToHash (msg_GasPrice msg), ctx_Origin := msg_From msg\<rparr>\<rparr>\<rparr>)
          | Some to \<Rightarrow>
              applyCall X
                (NewContractCall 0 (msg_From msg) to (Some (msg_Value msg)) (msg_Gas msg) (msg_Input msg))
                Call
                (t\<lparr>tr_config := (tr_config t)\<lparr>cfg_Ctx := (cfg_Ctx (tr_config t))
                     \<lparr>ctx_GasPrice := bigToHash (msg_GasPrice msg), ctx_Origin := msg_From msg\<rparr>\<rparr>,
                   tr_txn := IncrNonce (msg_From msg) (tr_txn t)\<rparr>)) = Some (r, t2) \<and>
         out_Logs out = logs_entry (txn_txn (tr_txn t2)) \<and>
         out_Logs out = fst (Logs (tr_txn t2)) \<and>
         t' = t2\<lparr>tr_txn := snd (Logs (tr_txn t2))\<rparr>)) \<and>
   (Write X msg t = Some (Inr wout, tw) \<longrightarrow>
      (\<exists>msg1 t1 out1 t2. preCheck msg t = (None, msg1, t1) \<and> Apply X msg1 t1 = Some (out1, t2) \<and>
         out_Logs wout = out_Logs out1))"
proof (intro conjI impI)
  show "Logs txn = (logs_entry (txn_txn txn), txn\<lparr>txn_txn := (txn_txn txn)\<lparr>logs_entry := None\<rparr>\<rparr>)"
    by (rule Logs_eq)
  show "Logs (snd (Logs txn)) = (None, snd (Logs txn))" by (rule Logs_twice)
  show "fst (Logs (EmitLogs es (snd (Logs txn)))) =
     (if es = [] then None
      else Some (map (\<lambda>(a, topics, data). \<lparr>log_Address = a, log_Topics = topics, log_Data = data\<rparr>) es))"
    by (simp add: Logs_eq [of "EmitLogs es _"] logs_entry_EmitLogs) (simp add: Logs_eq)
next
  assume "Apply X msg t = Some (out, t')"
  then show "logs_entry (txn_txn (tr_txn t')) = None" by (rule Apply_clears_logs)
next
  assume "Write X msg t = Some (res, t'') \<and> logs_entry (txn_txn (tr_txn t)) = None"
  then show "logs_entry (txn_txn (tr_txn t'')) = None"
    using Write_keeps_logs_empty by blast
next
  assume "Apply X msg t = Some (out, t')"
  then show "\<exists>r t2.
         (case msg_To msg of
            None \<Rightarrow>
              applyCreate X
                (NewContractCreation 0 (msg_From msg)
                   (x_createAddress X (msg_From msg) (GetNonce (tr_txn t) (msg_From msg)))
                   (Some (msg_Value msg)) (msg_Gas msg) (msg_Input msg))
                (t\<lparr>tr_config := (tr_config t)\<lparr>cfg_Ctx := (cfg_Ctx (tr_config t))
                     \<lparr>ctx_GasPrice := bigToHash (msg_GasPrice msg), ctx_Origin := msg_From msg\<rparr>\<rparr>\<rparr>)
          | Some to \<Rightarrow>
              applyCall X
                (NewContractCall 0 (msg_From msg) to (Some (msg_Value msg)) (msg_Gas msg) (msg_Input msg))
                Call
                (t\<lparr>tr_config := (tr_config t)\<lparr>cfg_Ctx := (cfg_Ctx (tr_config t))
                     \<lparr>ctx_GasPrice := bigToHash (msg_GasPrice msg), ctx_Origin := msg_From msg\<rparr>\<rparr>,
                   tr_txn := IncrNonce (msg_From msg) (tr_txn t)\<rparr>)) = Some (r, t2) \<and>
         out_Logs out = logs_entry (txn_txn (tr_txn t2)) \<and>
         out_Logs out = fst (Logs (tr_txn t2)) \<and>
         t' = t2\<lparr>tr_txn := snd (Logs (tr_txn t2))\<rparr>"
    by (rule Apply_out_Logs)
next
  assume "Write X msg t = Some (Inr wout, tw)"
  then show "\<exists>msg1 t1 out1 t2. preCheck msg t = (None, msg1, t1) \<and> Apply X msg1 t1 = Some (out1, t2) \<and>
         out_Logs wout = out_Logs out1"
    by (rule Write_out_Logs)
qed

lemma logs_entry_more [simp]:
  "logs_entry (txn_txn (TouchAccount a txn)) = logs_entry (txn_txn txn)"
  "logs_entry (txn_txn (IncrNonce a txn)) = logs_entry (txn_txn txn)"
  "logs_entry (txn_txn (snd (Txn_Snapshot txn))) = logs_entry (txn_txn txn)"
  by (simp_all add: TouchAccount_def IncrNonce_def Txn_Snapshot_def Let_def)

lemma run_loop_log:
  assumes "cfg_Cheatcodes (tr_config t) = []" and "precompiledContracts kernels0 (c_CodeAddress c) = None"
  shows "run (extern0 loop_log) c t =
     Some (([], c_Gas c, None), t\<lparr>tr_txn := EmitLog (c_Address c) [] [1] (tr_txn t)\<rparr>)"
  using assms
  by (simp add: run_def isPrecompiled_def extern0_def EVM_Run_def Let_def loop_log_def halt_def frame0_def)

lemma Apply_loop_log:
  assumes ch: "cfg_Cheatcodes (tr_config t) = []" and l: "logs_entry (txn_txn (tr_txn t)) = None"
    and to: "msg_To msg = Some to" and np: "precompiledContracts kernels0 to = None"
    and v: "msg_Value msg = 0"
  shows "\<exists>out t'. Apply (extern0 loop_log) msg t = Some (out, t') \<and>
       out_Logs out = Some [\<lparr>log_Address = to, log_Topics = [], log_Data = [1]\<rparr>] \<and>
       cfg_Cheatcodes (tr_config t') = []"
proof -
  let ?c = "NewContractCall 0 (msg_From msg) to (Some 0) (msg_Gas msg) (msg_Input msg)"
  have c: "c_Address ?c = to" "c_Caller ?c = msg_From msg" "c_Value ?c = Some 0" "c_CodeAddress ?c = to"
    "c_Gas ?c = msg_Gas msg"
    by (simp_all add: NewContractCall_def NewContract_def)
  show ?thesis
    unfolding Apply_def applyCall_def
    by (simp add: Let_def to v c transfer_zero Txn_Snapshot_eq run_loop_log ch np Logs_eq
        EmitLog_def l split: prod.splits)
qed


theorem Logs_destructive_read_witness:
  "\<exists>out1 t1 out2 t2.
     Apply (extern0 loop_log)
       \<lparr>msg_Nonce = 0, msg_GasPrice = 0, msg_Gas = 1000, msg_To = Some 11, msg_Value = 0,
        msg_Input = [], msg_From = 10\<rparr> (NewTransition (config0 Istanbul)) = Some (out1, t1) \<and>
     out_Logs out1 = Some [\<lparr>log_Address = 11, log_Topics = [], log_Data = [1]\<rparr>] \<and>
     Apply (extern0 loop_log)
       \<lparr>msg_Nonce = 0, msg_GasPrice = 0, msg_Gas = 1000, msg_To = Some 11, msg_Value = 0,
        msg_Input = [], msg_From = 10\<rparr> t1 = Some (out2, t2) \<and>
     out_Logs out2 = Some [\<lparr>log_Address = 11, log_Topics = [], log_Data = [1]\<rparr>]"
proof -
  let ?m = "\<lparr>msg_Nonce = 0, msg_GasPrice = 0, msg_Gas = 1000, msg_To = Some 11, msg_Value = 0,
        msg_Input = [], msg_From = 10\<rparr>"
  let ?t0 = "NewTransition (config0 Istanbul)"
  have i: "cfg_Cheatcodes (tr_config ?t0) = []" "logs_entry (txn_txn (tr_txn ?t0)) = None"
    by (simp_all add: NewTransition_def config0_def newTxn_def iradix_New_def)
  obtain out1 t1 where a1: "Apply (extern0 loop_log) ?m ?t0 = Some (out1, t1)"
    and o1: "out_Logs out1 = Some [\<lparr>log_Address = 11, log_Topics = [], log_Data = [1]\<rparr>]"
    and c1: "cfg_Cheatcodes (tr_config t1) = []"
    using Apply_loop_log [of ?t0 ?m 11] i no_precompile_77(3) by auto
  have l1: "logs_entry (txn_txn (tr_txn t1)) = None"
    using Logs_destructive_read [where X = "extern0 loop_log" and msg = ?m and t = ?t0 and out = out1 and t' = t1]
      a1 by blast
  obtain out2 t2 where a2: "Apply (extern0 loop_log) ?m t1 = Some (out2, t2)"
    and o2: "out_Logs out2 = Some [\<lparr>log_Address = 11, log_Topics = [], log_Data = [1]\<rparr>]"
    using Apply_loop_log [of t1 ?m 11] c1 l1 no_precompile_77(3) by auto
  show ?thesis using a1 o1 a2 o2 by blast
qed

subsection \<open>Pre-check failures\<close>

lemma Write_incorrect_nonce:
  assumes "GetNonce (tr_txn t) (msg_From msg) \<noteq> msg_Nonce msg"
  shows "Write X msg t = Some (Inl (errNew ''incorrect nonce''), t)"
  using assms by (simp add: Write_def applyImpl_def preCheck_def Let_def)

lemma Write_insufficient_upfront:
  assumes "GetNonce (tr_txn t) (msg_From msg) = msg_Nonce msg"
    and "msg_GasPrice msg * uint (msg_Gas msg) \<noteq> 0"
    and "GetBalance (tr_txn t) (msg_From msg) < msg_GasPrice msg * uint (msg_Gas msg)"
  shows "Write X msg t = Some (Inl (errNew ''not enough funds to cover gas costs''), t)"
  using assms by (simp add: Write_def applyImpl_def preCheck_def Let_def SubBalance_def)

text \<open>
  C3. A message that fails the pre-check leaves the overlay unchanged only when the check
  fails before the gas purchase, as the two lemmas above show for the nonce and for the
  balance that does not cover the purchase. A later failure returns its error after
  \<open>SubBalance\<close> has taken the purchase, and nothing undoes it. Here the sender holds 100000
  in the backend and sends a message with gas price 1 and gas limit 20000, below the
  intrinsic gas of 21000, on Istanbul: \<open>Write\<close> returns the error, and the overlay, which
  had no entry for the sender, now holds the sender with the balance 80000.
\<close>

theorem Write_precheck_failure_keeps_deduction:
  "\<exists>t'. Write X
          \<lparr>msg_Nonce = 0, msg_GasPrice = 1, msg_Gas = 20000, msg_To = Some 11, msg_Value = 0,
           msg_Input = [], msg_From = 10\<rparr>
          (NewTransition ((config0 Istanbul)\<lparr>cfg_State := backend_one 10 100000\<rparr>))
        = Some (Inl (errNew ''not enough gas supplied for intrinsic gas costs''), t') \<and>
      GetBalance (tr_txn (NewTransition ((config0 Istanbul)\<lparr>cfg_State := backend_one 10 100000\<rparr>))) 10
        = 100000 \<and>
      objects (txn_txn (tr_txn (NewTransition ((config0 Istanbul)\<lparr>cfg_State := backend_one 10 100000\<rparr>)))) 10
        = None \<and>
      GetBalance (tr_txn t') 10 = 80000 \<and>
      objects (txn_txn (tr_txn t')) 10 \<noteq> None"
proof -
  let ?m = "\<lparr>msg_Nonce = 0, msg_GasPrice = 1, msg_Gas = 20000, msg_To = Some 11, msg_Value = 0,
           msg_Input = [], msg_From = 10\<rparr>"
  let ?t = "NewTransition ((config0 Istanbul)\<lparr>cfg_State := backend_one 10 100000\<rparr>)"
  let ?txn = "\<lparr>txn_snapshot = backend_one 10 100000, txn_snapshots = [], txn_txn = iradix_New,
       txn_rev = Istanbul\<rparr>"
  have txn: "tr_txn ?t = ?txn"
    by (simp add: NewTransition_def config0_def newTxn_def)
  have g: "getStateObject ?txn 10 =
      Some \<lparr>obj_Account = \<lparr>acc_Nonce = 0, acc_Balance = 100000, acc_Root = 0,
                acc_CodeHash = EmptyCodeHash, acc_Code = []\<rparr>,
             obj_Code = [], obj_Suicide = False, obj_Deleted = False, obj_DirtyCode = False,
             obj_Txn = None\<rparr>"
    by (simp add: getStateObject_def iradix_New_def backend_one_def Account_Copy_def)
  have n: "GetNonce ?txn 10 = 0" and b: "GetBalance ?txn 10 = 100000"
    by (simp_all add: GetNonce_def GetBalance_def g)
  let ?txn1 = "upsertAccount 10 True (map_option (upd_Balance (\<lambda>b. b - 20000))) ?txn"
  have sb: "SubBalance 10 20000 ?txn = (None, ?txn1)"
    by (simp add: SubBalance_def b)
  have gc: "TransactionGasCost ?m h i = Inr 21000" for h i
    by (simp add: TransactionGasCost_def IsContractCreation_def TxGas_def Let_def)
  have pc: "preCheck ?m ?t = (Some (errNew ''not enough gas supplied for intrinsic gas costs''), ?m,
      ?t\<lparr>tr_txn := ?txn1\<rparr>)"
    by (simp add: preCheck_def txn n sb gc Let_def)
  have w: "Write X ?m ?t = Some (Inl (errNew ''not enough gas supplied for intrinsic gas costs''),
      ?t\<lparr>tr_txn := ?txn1\<rparr>)"
    by (simp add: Write_def applyImpl_def pc)
  have o0: "objects (txn_txn (tr_txn ?t)) 10 = None" by (simp add: txn) (simp add: iradix_New_def)
  have o1: "objects (txn_txn ?txn1) 10 =
      Some \<lparr>obj_Account = \<lparr>acc_Nonce = 0, acc_Balance = 80000, acc_Root = 0,
                acc_CodeHash = EmptyCodeHash, acc_Code = []\<rparr>,
             obj_Code = [], obj_Suicide = False, obj_Deleted = False, obj_DirtyCode = False,
             obj_Txn = None\<rparr>"
    by (simp add: upsertAccount_def g upd_Balance_def)
  have b1: "GetBalance ?txn1 10 = 80000"
    by (simp add: GetBalance_def getStateObject_def o1 stateObject_Copy_def Account_Copy_def)
  have f2: "GetBalance (tr_txn ?t) 10 = 100000" by (simp only: txn b)
  have f4: "GetBalance (tr_txn (?t\<lparr>tr_txn := ?txn1\<rparr>)) 10 = 80000" by (simp add: b1)
  have f5: "objects (txn_txn (tr_txn (?t\<lparr>tr_txn := ?txn1\<rparr>))) 10 \<noteq> None" by (simp add: o1)
  show ?thesis
    by (rule exI [of _ "?t\<lparr>tr_txn := ?txn1\<rparr>"]) (intro conjI w f2 o0 f4 f5)
qed

subsection \<open>Call depth limit\<close>

text \<open>
  After a successful \<open>checkMemory\<close> for a size other than zero the range of the access
  lies inside the memory (the length of a Go slice is below \<open>2 ^ 63\<close>). So the slice
  expression of \<open>opCall\<close>, which follows such a check of the output range, does not panic
  for a size other than zero, whatever the spare capacity, and no byte is written beyond
  the length of the memory.
\<close>

lemma checkMemory_covers:
  assumes nz: "sz \<noteq> 0" and ok: "checkMemory offset sz c = (True, c')"
    and len: "length (memory c) < 2 ^ 63"
  shows "0 \<le> offset \<and> offset \<le> 1099511627744 \<and> 0 < sz \<and> sz \<le> 1099511627744 \<and>
         offset + sz \<le> int (length (memory c'))"
proof -
  have b: "\<not> (offset < 0 \<or> 1099511627744 < offset \<or> sz < 0 \<or> 1099511627744 < sz)"
    using checkMemory_overflow [OF nz, of offset c] ok by auto
  then have r: "0 \<le> offset" "offset \<le> 1099511627744" "0 < sz" "sz \<le> 1099511627744"
    using nz by auto
  define n where "n = (offset + sz + 31) div 32"
  have n: "offset + sz \<le> 32 * n" unfolding n_def by presburger
  have n0: "0 \<le> n" unfolding n_def using r by simp
  note e = checkMemory_in_range [OF r(3) r(4) r(1) r(2) len, of ]
  show ?thesis
  proof (cases "int (length (memory c)) < offset + sz")
    case True
    then have "memory c' = extendByteSlice (memory c) (nat (32 * n))"
      using e ok by (auto simp add: n_def split: if_splits)
    then have "length (memory c') = nat (32 * n)"
      using True n by (simp add: extendByteSlice_def)
    then show ?thesis using r n n0 by simp
  next
    case False
    then have "c' = c" using e ok by simp
    then show ?thesis using r False by simp
  qed
qed

lemma copy_to_memory_in_range:
  assumes nz: "sz \<noteq> 0" and ok: "checkMemory offset sz c = (True, c')"
    and len: "length (memory c) < 2 ^ 63"
  shows "Uint64 offset \<le> Uint64 offset + Uint64 sz \<and>
         unat (Uint64 offset + Uint64 sz) \<le> length (memory c') \<and>
         copy_to_memory spare (Uint64 offset) (Uint64 sz) src (memory c') \<noteq> None"
proof -
  from checkMemory_covers [OF nz ok len]
  have r: "0 \<le> offset" "offset \<le> 1099511627744" "0 < sz" "sz \<le> 1099511627744"
    and f: "offset + sz \<le> int (length (memory c'))" by simp_all
  have o: "Uint64 offset = word_of_int offset" and s: "Uint64 sz = word_of_int sz"
    using r by (simp_all add: Uint64_nonneg)
  have uo: "uint (word_of_int offset :: uint64) = offset" using r by (intro w64_uint) simp_all
  have us: "uint (word_of_int (offset + sz) :: uint64) = offset + sz" using r by (intro w64_uint) simp_all
  have h: "Uint64 offset + Uint64 sz = word_of_int (offset + sz)" by (simp add: o s)
  have l: "Uint64 offset \<le> Uint64 offset + Uint64 sz"
    unfolding h unfolding o by (simp only: word_le_def uo us) (use r in simp)
  have u: "unat (Uint64 offset + Uint64 sz) \<le> length (memory c')"
  proof -
    have "int (unat (word_of_int (offset + sz) :: uint64)) = offset + sz"
      using us by (simp only: unat_eq_nat_uint) (use r in simp)
    then show ?thesis using f unfolding h by linarith
  qed
  show ?thesis using l u by (simp add: copy_to_memory_def Let_def)
qed

lemma pop_fields [simp]:
  "Depth (snd (pop c)) = Depth c" "Static (snd (pop c)) = Static c" "st_rev (snd (pop c)) = st_rev c"
  "Address (snd (pop c)) = Address c" "Caller (snd (pop c)) = Caller c" "Value (snd (pop c)) = Value c"
  "gas (snd (pop c)) = gas c" "stop (snd (pop c)) = stop c" "err (snd (pop c)) = err c"
  "memory (snd (pop c)) = memory c" "returnData (snd (pop c)) = returnData c"
  "lastGasCost (snd (pop c)) = lastGasCost c"
  "stack (snd (pop c)) = tl (stack c)"
  by (simp_all add: pop_def split: list.splits)

lemma popAddr_fields [simp]:
  "Depth (snd (popAddr c)) = Depth c" "Static (snd (popAddr c)) = Static c" "st_rev (snd (popAddr c)) = st_rev c"
  "Address (snd (popAddr c)) = Address c" "Caller (snd (popAddr c)) = Caller c" "Value (snd (popAddr c)) = Value c"
  "gas (snd (popAddr c)) = gas c" "stop (snd (popAddr c)) = stop c" "err (snd (popAddr c)) = err c"
  "memory (snd (popAddr c)) = memory c" "returnData (snd (popAddr c)) = returnData c"
  "lastGasCost (snd (popAddr c)) = lastGasCost c"
  "stack (snd (popAddr c)) = tl (stack c)"
  by (simp_all add: popAddr_def pop_def split: list.splits)

lemma consumeGas_fields [simp]:
  "Depth (snd (consumeGas g c)) = Depth c" "Static (snd (consumeGas g c)) = Static c"
  "st_rev (snd (consumeGas g c)) = st_rev c"
  "Address (snd (consumeGas g c)) = Address c" "Caller (snd (consumeGas g c)) = Caller c"
  "Value (snd (consumeGas g c)) = Value c"
  "stack (snd (consumeGas g c)) = stack c"
  "memory (snd (consumeGas g c)) = memory c" "returnData (snd (consumeGas g c)) = returnData c"
  by (simp_all add: consumeGas_def exit_def)

lemma checkMemory_fields [simp]:
  "Depth (snd (checkMemory off s c)) = Depth c" "Static (snd (checkMemory off s c)) = Static c"
  "st_rev (snd (checkMemory off s c)) = st_rev c"
  "Address (snd (checkMemory off s c)) = Address c" "Caller (snd (checkMemory off s c)) = Caller c"
  "Value (snd (checkMemory off s c)) = Value c"
  "stack (snd (checkMemory off s c)) = stack c"
  "returnData (snd (checkMemory off s c)) = returnData c"
  by (simp_all add: checkMemory_def Let_def consumeGas_def exit_def split: prod.splits)

lemma get2_fields [simp]:
  "Depth (snd (get2 d off s c)) = Depth c" "Static (snd (get2 d off s c)) = Static c"
  "st_rev (snd (get2 d off s c)) = st_rev c"
  "Address (snd (get2 d off s c)) = Address c" "Caller (snd (get2 d off s c)) = Caller c"
  "Value (snd (get2 d off s c)) = Value c"
  "stack (snd (get2 d off s c)) = stack c"
  "returnData (snd (get2 d off s c)) = returnData c"
  by (simp_all add: get2_def Let_def split: prod.splits)
     (metis checkMemory_fields snd_conv)+

lemma get2_popped_fields [simp]:
  assumes "get2_popped d off l c \<noteq> None"
  shows "Depth (snd (the (get2_popped d off l c))) = Depth c"
    "Static (snd (the (get2_popped d off l c))) = Static c"
    "st_rev (snd (the (get2_popped d off l c))) = st_rev c"
    "Address (snd (the (get2_popped d off l c))) = Address c"
    "Caller (snd (the (get2_popped d off l c))) = Caller c"
    "Value (snd (the (get2_popped d off l c))) = Value c"
    "stack (snd (the (get2_popped d off l c))) = stack c"
    "returnData (snd (the (get2_popped d off l c))) = returnData c"
  using assms by (auto simp add: get2_popped_def split: option.splits if_splits)

lemma checkMemory_popped_fields [simp]:
  assumes "checkMemory_popped off l c \<noteq> None"
  shows "Depth (snd (the (checkMemory_popped off l c))) = Depth c"
    "Static (snd (the (checkMemory_popped off l c))) = Static c"
    "st_rev (snd (the (checkMemory_popped off l c))) = st_rev c"
    "Address (snd (the (checkMemory_popped off l c))) = Address c"
    "Caller (snd (the (checkMemory_popped off l c))) = Caller c"
    "Value (snd (the (checkMemory_popped off l c))) = Value c"
    "stack (snd (the (checkMemory_popped off l c))) = stack c"
    "returnData (snd (the (checkMemory_popped off l c))) = returnData c"
  using assms by (auto simp add: checkMemory_popped_def split: option.splits if_splits)

lemma resetReturnData_fields [simp]:
  "Depth (resetReturnData c) = Depth c" "Static (resetReturnData c) = Static c"
  "st_rev (resetReturnData c) = st_rev c" "Address (resetReturnData c) = Address c"
  "Caller (resetReturnData c) = Caller c" "Value (resetReturnData c) = Value c"
  "stack (resetReturnData c) = stack c" "returnData (resetReturnData c) = []"
  "stop (resetReturnData c) = stop c" "gas (resetReturnData c) = gas c"
  by (simp_all add: resetReturnData_def)


lemma host_fields [simp]:
  "h_GetBalance (H\<lparr>h_Call := f\<rparr>) = h_GetBalance H"
  "h_AccountExists (H\<lparr>h_Call := f\<rparr>) = h_AccountExists H"
  "h_Call (H\<lparr>h_Call := f\<rparr>) = f"
  by simp_all

lemmas proj_simps =
  Let_def case_prod_beta option.case_eq_if simp_thms if_True if_False host_fields fst_conv snd_conv
  pop_fields popAddr_fields consumeGas_fields get2_popped_fields checkMemory_popped_fields
  resetReturnData_fields OpCode.simps option.simps isRevision_def inStaticCall_def

lemma opCreate_handler_cong2:
  assumes "\<And>k a b vh i g s sh ca x. Depth c < 1024 \<Longrightarrow>
     f k a b vh i g (Depth c + 1) s sh ca x = f' k a b vh i g (Depth c + 1) s sh ca x"
  shows "opCreate (H\<lparr>h_Call := f\<rparr>) op c h = opCreate (H\<lparr>h_Call := f'\<rparr>) op c h"
proof -
  have A: "\<And>k a b vh i g s sh ca x. \<not> 1024 \<le> Depth c \<Longrightarrow>
     f k a b vh i g (Depth c + 1) s sh ca x = f' k a b vh i g (Depth c + 1) s sh ca x"
    using assms by simp
  show ?thesis
    unfolding opCreate_def getBalance_def
    by (cases op; simp only: proj_simps A cong: if_cong)
qed

lemma opCall_handler_cong2:
  assumes "\<And>k a b vh i g s sh ca x. Depth c < 1024 \<Longrightarrow>
     f k a b vh i g (Depth c + 1) s sh ca x = f' k a b vh i g (Depth c + 1) s sh ca x"
  shows "opCall (H\<lparr>h_Call := f\<rparr>) sp op c h = opCall (H\<lparr>h_Call := f'\<rparr>) sp op c h"
proof -
  have A: "\<And>k a b vh i g s sh ca x. \<not> 1024 \<le> Depth c \<Longrightarrow>
     f k a b vh i g (Depth c + 1) s sh ca x = f' k a b vh i g (Depth c + 1) s sh ca x"
    using assms by simp
  show ?thesis
    unfolding opCall_def getBalance_def
    by (cases op; simp only: proj_simps A cong: if_cong)
qed

lemma stop_facts:
  "stop (exit e c) = True"
  "stop (push1 v c) = stop c"
  "stack (push1 v c) = v # stack c"
  "stack (c\<lparr>gas := g\<rparr>) = stack c"
  "stop (c\<lparr>gas := g\<rparr>) = stop c"
  by (simp_all add: exit_def push1_def)

lemma consumeGas_stop: "\<not> fst (consumeGas g c) \<Longrightarrow> stop (snd (consumeGas g c)) = True"
  by (simp add: consumeGas_def exit_def split: if_splits)

lemma checkMemory_stop: "\<not> fst (checkMemory off s c) \<Longrightarrow> stop (snd (checkMemory off s c)) = True"
  by (auto simp add: checkMemory_def Let_def consumeGas_def exit_def split: if_splits prod.splits)

lemma get2_stop: "\<not> snd (fst (get2 d off s c)) \<Longrightarrow> stop (snd (get2 d off s c)) = True"
  using checkMemory_stop [of off s c]
  by (simp add: get2_def Let_def split: if_splits prod.splits)

lemma get2_popped_stop:
  "get2_popped d off l c \<noteq> None \<Longrightarrow> \<not> snd (fst (the (get2_popped d off l c))) \<Longrightarrow>
   stop (snd (the (get2_popped d off l c))) = True"
proof -
  assume a: "get2_popped d off l c \<noteq> None" and b: "\<not> snd (fst (the (get2_popped d off l c)))"
  from a b obtain x y where "l = Some x" "off = Some y" "x \<noteq> 0" "get2_popped d off l c = Some (get2 d y x c)"
    by (auto simp add: get2_popped_def split: option.splits if_splits)
  then show ?thesis using get2_stop [of d y x c] b by simp
qed

lemma checkMemory_popped_stop:
  "checkMemory_popped off l c \<noteq> None \<Longrightarrow> \<not> fst (the (checkMemory_popped off l c)) \<Longrightarrow>
   stop (snd (the (checkMemory_popped off l c))) = True"
proof -
  assume a: "checkMemory_popped off l c \<noteq> None" and b: "\<not> fst (the (checkMemory_popped off l c))"
  from a b obtain x y where "l = Some x" "off = Some y" "x \<noteq> 0"
      "checkMemory_popped off l c = Some (checkMemory y x c)"
    by (auto simp add: checkMemory_popped_def split: option.splits if_splits)
  then show ?thesis using checkMemory_stop [of y x c] b by simp
qed

lemma tl_drops:
  "drop 3 xs = tl (tl (tl xs))"
  "drop 4 xs = tl (tl (tl (tl xs)))"
  "drop 6 xs = tl (tl (tl (tl (tl (tl xs)))))"
  "drop 7 xs = tl (tl (tl (tl (tl (tl (tl xs))))))"
  by (simp_all add: drop_Suc numeral_eq_Suc drop_tl tl_drop)

lemma opCreate_deep_shape:
  assumes D: "(1024 \<le> Depth c) = True"
    and Pn: "P None = True"
    and Ps: "\<And>X. stop X \<or> stack X = 0 # drop (if op = CREATE2 then 4 else 3) (stack c) \<Longrightarrow> P (Some (X, h)) = True"
  shows "P (opCreate H op c h)"
  unfolding opCreate_def getBalance_def
  by (cases op; simp only: proj_simps if_split [of P] D Pn Ps stop_facts consumeGas_stop
        get2_popped_stop tl_drops cong: if_cong imp_cong)

lemma opCall_deep_shape:
  assumes D: "(1024 \<le> Depth c) = True"
    and Pn: "P None = True"
    and Ps: "\<And>X. stop X \<or> stack X = 0 # drop (if op = CALL \<or> op = CALLCODE then 7 else 6) (stack c)
               \<Longrightarrow> P (Some (X, h)) = True"
  shows "P (opCall H sp op c h)"
  unfolding opCall_def getBalance_def
  by (cases op; simp only: proj_simps if_split [of P] D Pn Ps stop_facts consumeGas_stop
        get2_popped_stop checkMemory_popped_stop tl_drops opCodeToCallKind_def cong: if_cong imp_cong)


lemma Depth_update_fields:
  "Depth (x\<lparr>Depth := d\<rparr>) = d"
  "Static (x\<lparr>Depth := d\<rparr>) = Static x" "st_rev (x\<lparr>Depth := d\<rparr>) = st_rev x"
  "Address (x\<lparr>Depth := d\<rparr>) = Address x" "Caller (x\<lparr>Depth := d\<rparr>) = Caller x"
  "Value (x\<lparr>Depth := d\<rparr>) = Value x" "gas (x\<lparr>Depth := d\<rparr>) = gas x"
  "stack (x\<lparr>Depth := d\<rparr>) = stack x" "memory (x\<lparr>Depth := d\<rparr>) = memory x"
  "returnData (x\<lparr>Depth := d\<rparr>) = returnData x" "stop (x\<lparr>Depth := d\<rparr>) = stop x"
  by simp_all

lemma Depth_update_commute:
  "resetReturnData (x\<lparr>Depth := d\<rparr>) = (resetReturnData x)\<lparr>Depth := d\<rparr>"
  "exit e (x\<lparr>Depth := d\<rparr>) = (exit e x)\<lparr>Depth := d\<rparr>"
  "push1 v (x\<lparr>Depth := d\<rparr>) = (push1 v x)\<lparr>Depth := d\<rparr>"
  "(x\<lparr>Depth := d\<rparr>)\<lparr>gas := g\<rparr> = (x\<lparr>gas := g\<rparr>)\<lparr>Depth := d\<rparr>"
  "(x\<lparr>Depth := d\<rparr>)\<lparr>memory := m\<rparr> = (x\<lparr>memory := m\<rparr>)\<lparr>Depth := d\<rparr>"
  "(x\<lparr>Depth := d\<rparr>)\<lparr>returnData := r\<rparr> = (x\<lparr>returnData := r\<rparr>)\<lparr>Depth := d\<rparr>"
  "peekAt n (x\<lparr>Depth := d\<rparr>) = peekAt n x"
  "fst (pop (x\<lparr>Depth := d\<rparr>)) = fst (pop x)"
  "snd (pop (x\<lparr>Depth := d\<rparr>)) = (snd (pop x))\<lparr>Depth := d\<rparr>"
  "fst (popAddr (x\<lparr>Depth := d\<rparr>)) = fst (popAddr x)"
  "snd (popAddr (x\<lparr>Depth := d\<rparr>)) = (snd (popAddr x))\<lparr>Depth := d\<rparr>"
  "fst (consumeGas g (x\<lparr>Depth := d\<rparr>)) = fst (consumeGas g x)"
  "snd (consumeGas g (x\<lparr>Depth := d\<rparr>)) = (snd (consumeGas g x))\<lparr>Depth := d\<rparr>"
  by (simp_all add: resetReturnData_def exit_def push1_def peekAt_def pop_def popAddr_def consumeGas_def
        split: list.splits)

lemma checkMemory_Depth:
  "checkMemory off s (x\<lparr>Depth := d\<rparr>) = (fst (checkMemory off s x), (snd (checkMemory off s x))\<lparr>Depth := d\<rparr>)"
  by (simp add: checkMemory_def Let_def consumeGas_def exit_def split: prod.splits)

lemma get2_Depth:
  "get2 a off s (x\<lparr>Depth := d\<rparr>) = (fst (get2 a off s x), (snd (get2 a off s x))\<lparr>Depth := d\<rparr>)"
  by (simp add: get2_def Let_def checkMemory_Depth split: prod.splits)

lemma popped_Depth:
  "(get2_popped a off l (x\<lparr>Depth := d\<rparr>) = None) = (get2_popped a off l x = None)"
  "fst (the (get2_popped a off l (x\<lparr>Depth := d\<rparr>))) = fst (the (get2_popped a off l x))"
  "get2_popped a off l x \<noteq> None \<Longrightarrow>
     snd (the (get2_popped a off l (x\<lparr>Depth := d\<rparr>))) = (snd (the (get2_popped a off l x)))\<lparr>Depth := d\<rparr>"
  "(checkMemory_popped off l (x\<lparr>Depth := d\<rparr>) = None) = (checkMemory_popped off l x = None)"
  "fst (the (checkMemory_popped off l (x\<lparr>Depth := d\<rparr>))) = fst (the (checkMemory_popped off l x))"
  "checkMemory_popped off l x \<noteq> None \<Longrightarrow>
     snd (the (checkMemory_popped off l (x\<lparr>Depth := d\<rparr>))) = (snd (the (checkMemory_popped off l x)))\<lparr>Depth := d\<rparr>"
  by (auto simp add: get2_popped_def checkMemory_popped_def get2_Depth checkMemory_Depth
        split: option.splits if_splits)

lemma leaf_facts:
  "memory x = m \<Longrightarrow> x\<lparr>memory := m\<rparr> = x"
  "returnData x = r \<Longrightarrow> x\<lparr>returnData := r\<rparr> = x"
  "gas (push1 v x) = gas x"
  "memory (push1 v x) = memory x"
  "returnData (push1 v x) = returnData x"
  "returnData (x\<lparr>gas := g\<rparr>) = returnData x"
  "memory (x\<lparr>gas := g\<rparr>) = memory x"
  by (auto simp add: push1_def)

lemma pop_None: "(fst (pop x) = None) = (stack x = [])"
  by (simp add: pop_def split: list.splits)

lemma opCreate_refuse_shape:
  assumes op: "op = CREATE \<or> op = CREATE2"
    and st: "(tl (tl (tl (stack c))) = []) = False \<or> op = CREATE"
    and D: "(1024 \<le> Depth c) = True" and d: "(1024 \<le> d) = False"
    and Pn: "P None None = True"
    and Ps: "\<And>X. P (Some (X, h)) (Some (X\<lparr>Depth := d\<rparr>, h)) = True"
  shows "P (opCreate H op c h)
           (opCreate (H\<lparr>h_Call := \<lambda>k a b vh i g dd s sh ca x. Some (([], g, 0, Some e), x)\<rparr>) op
              (c\<lparr>Depth := d\<rparr>) h)"
proof -
  have S: "\<And>b x y x' y'. P (if b then x else y) (if b then x' else y') = ((b \<longrightarrow> P x x') \<and> (\<not> b \<longrightarrow> P y y'))"
    by simp
  show ?thesis
  proof (cases "op = CREATE")
    assume o: "op = CREATE"
    show ?thesis
      unfolding opCreate_def getBalance_def
      by (simp only: o proj_simps S D d Pn Ps Depth_update_fields Depth_update_commute popped_Depth
            leaf_facts option.sel opCodeToCallKind_def cong: if_cong imp_cong)
  next
    assume "op \<noteq> CREATE"
    with op have o: "op = CREATE2" by simp
    with st have t: "(tl (tl (tl (stack c))) = []) = False" by simp
    show ?thesis
      unfolding opCreate_def getBalance_def
      by (simp only: o t proj_simps S D d Pn Ps Depth_update_fields Depth_update_commute popped_Depth
            leaf_facts option.sel opCodeToCallKind_def pop_None cong: if_cong imp_cong)
  qed
qed


lemma opCall_refuse_shape:
  assumes D: "(1024 \<le> Depth c) = True" and d: "(1024 \<le> d) = False"
    and Pn: "P None None = True"
    and Ps: "\<And>X. P (Some (X, h)) (Some (X\<lparr>Depth := d\<rparr>, h)) = True"
  shows "P (opCall H sp op c h)
           (opCall (H\<lparr>h_Call := \<lambda>k a b vh i g dd s sh ca x. Some (([], g, 0, Some e), x)\<rparr>) sp op
              (c\<lparr>Depth := d\<rparr>) h)"
proof -
  have S: "\<And>b x y x' y'. P (if b then x else y) (if b then x' else y') = ((b \<longrightarrow> P x x') \<and> (\<not> b \<longrightarrow> P y y'))"
    by simp
  show ?thesis
    unfolding opCall_def getBalance_def
    by (cases op; simp only: proj_simps S D d Pn Ps Depth_update_fields Depth_update_commute popped_Depth
          leaf_facts option.sel opCodeToCallKind_def cong: if_cong imp_cong)
qed


lemma host_update_same: "H\<lparr>h_Call := h_Call H\<rparr> = H"
  by simp


lemma opCall_deep_result:
  assumes D: "1024 \<le> Depth c" and r: "opCall H sp op c h = Some (c', h')"
  shows "h' = h \<and>
         (\<not> stop c' \<longrightarrow> stack c' = 0 # drop (if op = CALL \<or> op = CALLCODE then 7 else 6) (stack c))"
proof -
  let ?P = "\<lambda>r. \<forall>c' h'. r = Some (c', h') \<longrightarrow>
         h' = h \<and> (stop c' \<or> stack c' = 0 # drop (if op = CALL \<or> op = CALLCODE then 7 else 6) (stack c))"
  have "?P (opCall H sp op c h)"
    by (rule opCall_deep_shape [where P = ?P]) (use D in auto)
  with r show ?thesis by auto
qed

lemma opCreate_deep_result:
  assumes D: "1024 \<le> Depth c" and r: "opCreate H op c h = Some (c', h')"
  shows "h' = h \<and> (\<not> stop c' \<longrightarrow> stack c' = 0 # drop (if op = CREATE2 then 4 else 3) (stack c))"
proof -
  let ?P = "\<lambda>r. \<forall>c' h'. r = Some (c', h') \<longrightarrow>
         h' = h \<and> (stop c' \<or> stack c' = 0 # drop (if op = CREATE2 then 4 else 3) (stack c))"
  have "?P (opCreate H op c h)"
    by (rule opCreate_deep_shape [where P = ?P]) (use D in auto)
  with r show ?thesis by auto
qed

lemma opCall_deep_refuse:
  assumes D: "1024 \<le> Depth c" and d: "d < 1024"
  shows "opCall (H\<lparr>h_Call := \<lambda>k a b vh i g dd s sh ca x. Some (([], g, 0, Some e), x)\<rparr>) sp op
             (c\<lparr>Depth := d\<rparr>) h
           = map_option (\<lambda>(c', h'). (c'\<lparr>Depth := d\<rparr>, h')) (opCall H sp op c h)"
proof -
  let ?P = "\<lambda>r1 r2. r2 = map_option (\<lambda>(c', h'). (c'\<lparr>Depth := d\<rparr>, h')) r1"
  show ?thesis
    by (rule opCall_refuse_shape [where P = ?P]) (use D d in auto)
qed

lemma opCreate_deep_refuse:
  assumes D: "1024 \<le> Depth c" and d: "d < 1024"
    and o: "op = CREATE \<or> op = CREATE2 \<and> 4 \<le> length (stack c)"
  shows "opCreate (H\<lparr>h_Call := \<lambda>k a b vh i g dd s sh ca x. Some (([], g, 0, Some e), x)\<rparr>) op
                (c\<lparr>Depth := d\<rparr>) h
              = map_option (\<lambda>(c', h'). (c'\<lparr>Depth := d\<rparr>, h')) (opCreate H op c h)"
proof -
  let ?P = "\<lambda>r1 r2. r2 = map_option (\<lambda>(c', h'). (c'\<lparr>Depth := d\<rparr>, h')) r1"
  have t: "(tl (tl (tl (stack c))) = []) = False \<or> op = CREATE"
    using o by (cases "stack c"; cases "tl (stack c)"; cases "tl (tl (stack c))"; cases "tl (tl (tl (stack c)))")
      auto
  show ?thesis
    by (rule opCreate_refuse_shape [where P = ?P]) (use D d o t in auto)
qed

text \<open>
  C5 (as amended). A \<open>CALL\<close>, \<open>CALLCODE\<close>, \<open>DELEGATECALL\<close>, \<open>STATICCALL\<close>, \<open>CREATE\<close> or \<open>CREATE2\<close>
  in a frame at depth 1024 or more never invokes the call handler of the host: the result
  is the same for every handler, and the host state is returned as it was. Unless the
  instruction halts the frame before that (write protection, an opcode that the revision
  does not have, a memory expansion or a gas charge that fails), it leaves 0 on the stack
  in place of its operands, and the whole outcome is that of the same instruction in a
  frame at a depth below 1024 whose child fails at once and hands back all the gas it was
  given (for \<open>CREATE2\<close> with its four operands on the stack): the gas reserved for the child
  is credited back and none of it is consumed. At every depth the result depends on the
  handler only through invocations with a depth of at most 1024, so the handlers start no
  frame at a depth above 1024.
\<close>

theorem call_depth_limit:
  "(1024 \<le> Depth c \<longrightarrow>
      opCall (H\<lparr>h_Call := f\<rparr>) sp op c h = opCall H sp op c h \<and>
      opCreate (H\<lparr>h_Call := f\<rparr>) op c h = opCreate H op c h \<and>
      (\<forall>c' h'. opCall H sp op c h = Some (c', h') \<longrightarrow>
         h' = h \<and>
         (\<not> stop c' \<longrightarrow> stack c' = 0 # drop (if op = CALL \<or> op = CALLCODE then 7 else 6) (stack c))) \<and>
      (\<forall>c' h'. opCreate H op c h = Some (c', h') \<longrightarrow>
         h' = h \<and> (\<not> stop c' \<longrightarrow> stack c' = 0 # drop (if op = CREATE2 then 4 else 3) (stack c))) \<and>
      (d < 1024 \<longrightarrow>
         opCall (H\<lparr>h_Call := \<lambda>k a b vh i g dd s sh ca x. Some (([], g, 0, Some e), x)\<rparr>) sp op
             (c\<lparr>Depth := d\<rparr>) h
           = map_option (\<lambda>(c', h'). (c'\<lparr>Depth := d\<rparr>, h')) (opCall H sp op c h) \<and>
         (op = CREATE \<or> op = CREATE2 \<and> 4 \<le> length (stack c) \<longrightarrow>
            opCreate (H\<lparr>h_Call := \<lambda>k a b vh i g dd s sh ca x. Some (([], g, 0, Some e), x)\<rparr>) op
                (c\<lparr>Depth := d\<rparr>) h
              = map_option (\<lambda>(c', h'). (c'\<lparr>Depth := d\<rparr>, h')) (opCreate H op c h)))) \<and>
   ((\<forall>k a b vh i g dd s sh ca x.
        dd \<le> 1024 \<longrightarrow> f k a b vh i g dd s sh ca x = f' k a b vh i g dd s sh ca x) \<longrightarrow>
      opCall (H\<lparr>h_Call := f\<rparr>) sp op c h = opCall (H\<lparr>h_Call := f'\<rparr>) sp op c h \<and>
      opCreate (H\<lparr>h_Call := f\<rparr>) op c h = opCreate (H\<lparr>h_Call := f'\<rparr>) op c h)"
proof (rule conjI)
  show "1024 \<le> Depth c \<longrightarrow>
      opCall (H\<lparr>h_Call := f\<rparr>) sp op c h = opCall H sp op c h \<and>
      opCreate (H\<lparr>h_Call := f\<rparr>) op c h = opCreate H op c h \<and>
      (\<forall>c' h'. opCall H sp op c h = Some (c', h') \<longrightarrow>
         h' = h \<and>
         (\<not> stop c' \<longrightarrow> stack c' = 0 # drop (if op = CALL \<or> op = CALLCODE then 7 else 6) (stack c))) \<and>
      (\<forall>c' h'. opCreate H op c h = Some (c', h') \<longrightarrow>
         h' = h \<and> (\<not> stop c' \<longrightarrow> stack c' = 0 # drop (if op = CREATE2 then 4 else 3) (stack c))) \<and>
      (d < 1024 \<longrightarrow>
         opCall (H\<lparr>h_Call := \<lambda>k a b vh i g dd s sh ca x. Some (([], g, 0, Some e), x)\<rparr>) sp op
             (c\<lparr>Depth := d\<rparr>) h
           = map_option (\<lambda>(c', h'). (c'\<lparr>Depth := d\<rparr>, h')) (opCall H sp op c h) \<and>
         (op = CREATE \<or> op = CREATE2 \<and> 4 \<le> length (stack c) \<longrightarrow>
            opCreate (H\<lparr>h_Call := \<lambda>k a b vh i g dd s sh ca x. Some (([], g, 0, Some e), x)\<rparr>) op
                (c\<lparr>Depth := d\<rparr>) h
              = map_option (\<lambda>(c', h'). (c'\<lparr>Depth := d\<rparr>, h')) (opCreate H op c h)))"
  proof (rule impI)
    assume D: "1024 \<le> Depth c"
    have x1: "opCall (H\<lparr>h_Call := f\<rparr>) sp op c h = opCall H sp op c h"
      using opCall_handler_cong2 [of c f "h_Call H" H sp op h] D by (simp only: host_update_same)
    have x2: "opCreate (H\<lparr>h_Call := f\<rparr>) op c h = opCreate H op c h"
      using opCreate_handler_cong2 [of c f "h_Call H" H op h] D by (simp only: host_update_same)
    have x3: "\<forall>c' h'. opCall H sp op c h = Some (c', h') \<longrightarrow>
         h' = h \<and>
         (\<not> stop c' \<longrightarrow> stack c' = 0 # drop (if op = CALL \<or> op = CALLCODE then 7 else 6) (stack c))"
      by (intro allI impI) (erule opCall_deep_result [OF D])
    have x4: "\<forall>c' h'. opCreate H op c h = Some (c', h') \<longrightarrow>
         h' = h \<and> (\<not> stop c' \<longrightarrow> stack c' = 0 # drop (if op = CREATE2 then 4 else 3) (stack c))"
      by (intro allI impI) (erule opCreate_deep_result [OF D])
    have x5: "d < 1024 \<longrightarrow>
         opCall (H\<lparr>h_Call := \<lambda>k a b vh i g dd s sh ca x. Some (([], g, 0, Some e), x)\<rparr>) sp op
             (c\<lparr>Depth := d\<rparr>) h
           = map_option (\<lambda>(c', h'). (c'\<lparr>Depth := d\<rparr>, h')) (opCall H sp op c h) \<and>
         (op = CREATE \<or> op = CREATE2 \<and> 4 \<le> length (stack c) \<longrightarrow>
            opCreate (H\<lparr>h_Call := \<lambda>k a b vh i g dd s sh ca x. Some (([], g, 0, Some e), x)\<rparr>) op
                (c\<lparr>Depth := d\<rparr>) h
              = map_option (\<lambda>(c', h'). (c'\<lparr>Depth := d\<rparr>, h')) (opCreate H op c h))"
    proof (intro impI conjI)
      assume d: "d < 1024"
      show "opCall (H\<lparr>h_Call := \<lambda>k a b vh i g dd s sh ca x. Some (([], g, 0, Some e), x)\<rparr>) sp op
             (c\<lparr>Depth := d\<rparr>) h
           = map_option (\<lambda>(c', h'). (c'\<lparr>Depth := d\<rparr>, h')) (opCall H sp op c h)"
        by (rule opCall_deep_refuse [OF D d])
      assume o: "op = CREATE \<or> op = CREATE2 \<and> 4 \<le> length (stack c)"
      show "opCreate (H\<lparr>h_Call := \<lambda>k a b vh i g dd s sh ca x. Some (([], g, 0, Some e), x)\<rparr>) op
                (c\<lparr>Depth := d\<rparr>) h
              = map_option (\<lambda>(c', h'). (c'\<lparr>Depth := d\<rparr>, h')) (opCreate H op c h)"
        by (rule opCreate_deep_refuse [OF D d o])
    qed
    from x1 x2 x3 x4 x5 show "opCall (H\<lparr>h_Call := f\<rparr>) sp op c h = opCall H sp op c h \<and>
      opCreate (H\<lparr>h_Call := f\<rparr>) op c h = opCreate H op c h \<and>
      (\<forall>c' h'. opCall H sp op c h = Some (c', h') \<longrightarrow>
         h' = h \<and>
         (\<not> stop c' \<longrightarrow> stack c' = 0 # drop (if op = CALL \<or> op = CALLCODE then 7 else 6) (stack c))) \<and>
      (\<forall>c' h'. opCreate H op c h = Some (c', h') \<longrightarrow>
         h' = h \<and> (\<not> stop c' \<longrightarrow> stack c' = 0 # drop (if op = CREATE2 then 4 else 3) (stack c))) \<and>
      (d < 1024 \<longrightarrow>
         opCall (H\<lparr>h_Call := \<lambda>k a b vh i g dd s sh ca x. Some (([], g, 0, Some e), x)\<rparr>) sp op
             (c\<lparr>Depth := d\<rparr>) h
           = map_option (\<lambda>(c', h'). (c'\<lparr>Depth := d\<rparr>, h')) (opCall H sp op c h) \<and>
         (op = CREATE \<or> op = CREATE2 \<and> 4 \<le> length (stack c) \<longrightarrow>
            opCreate (H\<lparr>h_Call := \<lambda>k a b vh i g dd s sh ca x. Some (([], g, 0, Some e), x)\<rparr>) op
                (c\<lparr>Depth := d\<rparr>) h
              = map_option (\<lambda>(c', h'). (c'\<lparr>Depth := d\<rparr>, h')) (opCreate H op c h)))"
      by (intro conjI)
  qed
next
  show "(\<forall>k a b vh i g dd s sh ca x.
        dd \<le> 1024 \<longrightarrow> f k a b vh i g dd s sh ca x = f' k a b vh i g dd s sh ca x) \<longrightarrow>
      opCall (H\<lparr>h_Call := f\<rparr>) sp op c h = opCall (H\<lparr>h_Call := f'\<rparr>) sp op c h \<and>
      opCreate (H\<lparr>h_Call := f\<rparr>) op c h = opCreate (H\<lparr>h_Call := f'\<rparr>) op c h"
  proof (intro impI conjI)
    assume a: "\<forall>k a b vh i g dd s sh ca x.
        dd \<le> 1024 \<longrightarrow> f k a b vh i g dd s sh ca x = f' k a b vh i g dd s sh ca x"
    show "opCall (H\<lparr>h_Call := f\<rparr>) sp op c h = opCall (H\<lparr>h_Call := f'\<rparr>) sp op c h"
      by (rule opCall_handler_cong2) (use a in auto)
    show "opCreate (H\<lparr>h_Call := f\<rparr>) op c h = opCreate (H\<lparr>h_Call := f'\<rparr>) op c h"
      by (rule opCreate_handler_cong2) (use a in auto)
  qed
qed

lemma opCall_frame_deep:
  "opCall host_panic 0 CALL (frame_deep 10000) () =
     Some ((frame_deep 10000)\<lparr>stack := [0, 9], gas := 9300\<rparr>, ())"
  by (simp add: opCall_def Let_def frame_deep_def frame0_def host_panic_def pop_def popAddr_def
      get2_popped_def checkMemory_popped_def consumeGas_def isRevision_def opCodeToCallKind_def
      IsUint64_def Uint64_def push1_def resetReturnData_def inStaticCall_def getBalance_def
      Istanbul_def TangerineWhistle_def SpuriousDragon_def Homestead_def Byzantium_def)


theorem call_depth_limit_witness:
  "1024 \<le> Depth (frame_deep 10000) \<and>
   (\<exists>c'. opCall host_panic 0 CALL (frame_deep 10000) () = Some (c', ()) \<and> \<not> stop c' \<and>
      stack c' = 0 # drop 7 (stack (frame_deep 10000)) \<and> stack c' = [0, 9] \<and> gas c' = 9300) \<and>
   opCall (host_panic\<lparr>h_Call := \<lambda>k a b vh i g dd s sh ca x. Some (([], g, 0, Some errOutOfGas), x)\<rparr>) 0 CALL
       ((frame_deep 10000)\<lparr>Depth := 0\<rparr>) ()
     = Some ((frame_deep 10000)\<lparr>stack := [0, 9], gas := 9300, Depth := 0\<rparr>, ())"
proof -
  let ?c' = "(frame_deep 10000)\<lparr>stack := [0, 9], gas := 9300\<rparr>"
  note T = call_depth_limit [where c = "frame_deep 10000" and H = host_panic and sp = 0 and op = CALL
      and h = "()" and d = 0 and e = errOutOfGas]
  have D: "1024 \<le> Depth (frame_deep 10000)" by (simp add: frame_deep_def)
  have r: "opCall host_panic 0 CALL (frame_deep 10000) () = Some (?c', ())" by (rule opCall_frame_deep)
  have ns: "\<not> stop ?c'" by (simp add: frame_deep_def frame0_def)
  have s: "stack ?c' = 0 # drop 7 (stack (frame_deep 10000))"
    using T D r ns by simp
  have e: "opCall (host_panic\<lparr>h_Call := \<lambda>k a b vh i g dd s sh ca x. Some (([], g, 0, Some errOutOfGas), x)\<rparr>) 0 CALL
       ((frame_deep 10000)\<lparr>Depth := 0\<rparr>) ()
     = map_option (\<lambda>(c', h'). (c'\<lparr>Depth := 0\<rparr>, h')) (opCall host_panic 0 CALL (frame_deep 10000) ())"
    using T D by simp
  have e': "opCall (host_panic\<lparr>h_Call := \<lambda>k a b vh i g dd s sh ca x. Some (([], g, 0, Some errOutOfGas), x)\<rparr>) 0 CALL
       ((frame_deep 10000)\<lparr>Depth := 0\<rparr>) ()
     = Some ((frame_deep 10000)\<lparr>stack := [0, 9], gas := 9300, Depth := 0\<rparr>, ())"
    unfolding e r by simp
  have x: "\<exists>c'. opCall host_panic 0 CALL (frame_deep 10000) () = Some (c', ()) \<and> \<not> stop c' \<and>
      stack c' = 0 # drop 7 (stack (frame_deep 10000)) \<and> stack c' = [0, 9] \<and> gas c' = 9300"
    by (rule exI [of _ ?c']) (use r ns s in simp)
  from D x e' show ?thesis by (intro conjI)
qed

theorem call_depth_limit_counterexample:
  "Depth (frame_deep 0) = 1024 \<and> stack (frame_deep 0) = [5000, 0, 0, 0, 0, 0, 0, 9] \<and>
   opCall host_panic 0 CALL (frame_deep 0) () =
     Some ((frame_deep 0)\<lparr>stack := [9], stop := True, err := Some errOutOfGas\<rparr>, ())"
  by (simp add: opCall_def Let_def frame_deep_def frame0_def host_panic_def pop_def popAddr_def
      get2_popped_def checkMemory_popped_def consumeGas_def isRevision_def opCodeToCallKind_def
      IsUint64_def Uint64_def push1_def resetReturnData_def inStaticCall_def getBalance_def exit_def
      Istanbul_def TangerineWhistle_def SpuriousDragon_def Homestead_def Byzantium_def)

end
